theory Spec2Isabelle
  imports Main
begin

section \<open>JavaScript values\<close>

text \<open>
  The extension exchanges JSON with its helper scripts and with the web panels. A parsed
  value is a \<open>json\<close>; a JavaScript expression that may be \<open>undefined\<close> is a
  \<open>json option\<close> with \<open>None\<close> for \<open>undefined\<close>. Numbers are modelled by integers.
  Strings are byte lists: text outside ASCII is written as its UTF-8 bytes.
\<close>

datatype json =
    JNull
  | JBool bool
  | JNum int
  | JStr string
  | JArr "json list"
  | JObj "(string \<times> json) list"

text \<open>JavaScript truthiness, as used by \<open>if (x)\<close> and \<open>x || y\<close>.\<close>

fun truthy :: "json option \<Rightarrow> bool" where
  "truthy None = False"
| "truthy (Some JNull) = False"
| "truthy (Some (JBool b)) = b"
| "truthy (Some (JNum n)) = (n \<noteq> 0)"
| "truthy (Some (JStr s)) = (s \<noteq> [])"
| "truthy (Some (JArr xs)) = True"
| "truthy (Some (JObj kv)) = True"

text \<open>
  Member access \<open>v.k\<close> on a parsed value, for the keys the handlers read (\<open>success\<close>,
  \<open>error\<close>, \<open>collections\<close>, \<open>data\<close>, \<open>message\<close>): on \<open>null\<close> it throws a TypeError
  (\<open>Inl\<close> its message), on an object it is the entry or \<open>undefined\<close>, on every other value it is \<open>undefined\<close>.
\<close>

fun member :: "json \<Rightarrow> string \<Rightarrow> string + json option" where
  "member JNull k = Inl (''Cannot read properties of null (reading '' @ k @ '')'')"
| "member (JObj kv) k = Inr (map_of kv k)"
| "member v k = Inr None"

text \<open>The ASCII white space characters.\<close>

definition is_space :: "char \<Rightarrow> bool" where
  "is_space c = (c \<in> set [CHR '' '', CHR 0x09, CHR 0x0A, CHR 0x0B, CHR 0x0C, CHR 0x0D])"

text \<open>
  \<open>String.prototype.trim\<close> removes the white space and the line terminators of
  ECMAScript from both ends: U+0009 to U+000D, U+0020, U+00A0, U+1680, U+2000 to U+200A,
  U+2028, U+2029, U+202F, U+205F, U+3000 and U+FEFF. On the UTF-8 bytes of a text these
  are the following byte sequences.
\<close>

definition js_whitespace :: "string list" where
  "js_whitespace =
     [[CHR 0x09],
      [CHR 0x0A],
      [CHR 0x0B],
      [CHR 0x0C],
      [CHR 0x0D],
      [CHR 0x20],
      [CHR 0xC2, CHR 0xA0],
      [CHR 0xE1, CHR 0x9A, CHR 0x80],
      [CHR 0xE2, CHR 0x80, CHR 0x80],
      [CHR 0xE2, CHR 0x80, CHR 0x81],
      [CHR 0xE2, CHR 0x80, CHR 0x82],
      [CHR 0xE2, CHR 0x80, CHR 0x83],
      [CHR 0xE2, CHR 0x80, CHR 0x84],
      [CHR 0xE2, CHR 0x80, CHR 0x85],
      [CHR 0xE2, CHR 0x80, CHR 0x86],
      [CHR 0xE2, CHR 0x80, CHR 0x87],
      [CHR 0xE2, CHR 0x80, CHR 0x88],
      [CHR 0xE2, CHR 0x80, CHR 0x89],
      [CHR 0xE2, CHR 0x80, CHR 0x8A],
      [CHR 0xE2, CHR 0x80, CHR 0xA8],
      [CHR 0xE2, CHR 0x80, CHR 0xA9],
      [CHR 0xE2, CHR 0x80, CHR 0xAF],
      [CHR 0xE2, CHR 0x81, CHR 0x9F],
      [CHR 0xE3, CHR 0x80, CHR 0x80],
      [CHR 0xEF, CHR 0xBB, CHR 0xBF]]"

fun strip_prefix :: "string \<Rightarrow> string \<Rightarrow> string option" where
  "strip_prefix [] ys = Some ys"
| "strip_prefix (x # xs) [] = None"
| "strip_prefix (x # xs) (y # ys) = (if x = y then strip_prefix xs ys else None)"

text \<open>The text behind the first sequence of \<open>bs\<close> that \<open>s\<close> starts with.\<close>

fun first_stripped :: "string list \<Rightarrow> string \<Rightarrow> string option" where
  "first_stripped [] s = None"
| "first_stripped (b # bs) s =
     (case strip_prefix b s of Some r \<Rightarrow> Some r | None \<Rightarrow> first_stripped bs s)"

text \<open>
  Removing the sequences of \<open>bs\<close> from the start of \<open>s\<close> for as long as there is one.
  The test on the lengths serves the termination proof only: it holds whenever no
  sequence of \<open>bs\<close> is empty.
\<close>

function strip_all :: "string list \<Rightarrow> string \<Rightarrow> string" where
  "strip_all bs s =
     (case first_stripped bs s of
        None \<Rightarrow> s
      | Some r \<Rightarrow> if length r < length s then strip_all bs r else r)"
  by pat_completeness auto
termination
  by (relation "measure (\<lambda>(bs, s). length s)") auto

declare strip_all.simps [simp del]

definition trim :: "string \<Rightarrow> string" where
  "trim s = rev (strip_all (map rev js_whitespace) (rev (strip_all js_whitespace s)))"

text \<open>Decimal rendering of a number inside a template string.\<close>

definition digit_char :: "nat \<Rightarrow> char" where
  "digit_char d = ''0123456789'' ! (d mod 10)"

function show_nat :: "nat \<Rightarrow> string" where
  "show_nat n = (if n < 10 then [digit_char n] else show_nat (n div 10) @ [digit_char (n mod 10)])"
  by pat_completeness auto
termination
  by (relation "measure id") auto

declare show_nat.simps [simp del]

definition show_int :: "int \<Rightarrow> string" where
  "show_int i = (if i < 0 then CHR ''-'' # show_nat (nat (- i)) else show_nat (nat i))"

text \<open>
  A thrown error: its name and its message. \<open>error_text\<close> is what a template literal
  makes of the error object, \<open>error_message\<close> its \<open>message\<close> property.
\<close>

datatype js_error = JsError string string

fun error_message :: "js_error \<Rightarrow> string" where
  "error_message (JsError n m) = m"

fun error_text :: "js_error \<Rightarrow> string" where
  "error_text (JsError n m) = (if n = [] then m else if m = [] then n else n @ '': '' @ m)"

section \<open>Promises and child processes\<close>

text \<open>
  A promise is settled at most once: \<open>resolve\<close> and \<open>reject\<close> on a settled promise
  change nothing.
\<close>

datatype ('a, 'e) promise = Pending | Resolved 'a | Rejected 'e

fun resolve :: "('a, 'e) promise \<Rightarrow> 'a \<Rightarrow> ('a, 'e) promise" where
  "resolve Pending v = Resolved v"
| "resolve p v = p"

fun reject :: "('a, 'e) promise \<Rightarrow> 'e \<Rightarrow> ('a, 'e) promise" where
  "reject Pending e = Rejected e"
| "reject p e = p"

text \<open>
  The events a child process created by \<open>spawn\<close> delivers to its listeners: chunks of
  standard output and standard error, \<open>error\<close> (with \<open>err.message\<close>) when the process
  could not be started, and \<open>close\<close> with the exit code (\<open>null\<close> when a signal ended it).
\<close>

datatype proc_event =
    StdoutData string
  | StderrData string
  | ErrorEvent string
  | CloseEvent "int option"

text \<open>
  What one child process delivers, from its start to its end. A process that starts sends
  chunks of output and then \<open>close\<close> with its exit code, once; or it never ends. When
  the process cannot be started (the program is not found, say), Node emits \<open>error\<close>
  and then \<open>close\<close> with the negated error number as the code.
\<close>

datatype output_chunk = Out string | Err string

fun chunk_event :: "output_chunk \<Rightarrow> proc_event" where
  "chunk_event (Out d) = StdoutData d"
| "chunk_event (Err d) = StderrData d"

datatype proc_run =
    Completes "output_chunk list" "int option"
  | FailsToStart string "int option"
  | Hangs "output_chunk list"

fun events_of :: "proc_run \<Rightarrow> proc_event list" where
  "events_of (Completes chunks code) = map chunk_event chunks @ [CloseEvent code]"
| "events_of (FailsToStart m code) = [ErrorEvent m, CloseEvent code]"
| "events_of (Hangs chunks) = map chunk_event chunks"

text \<open>
  What a call site hands to \<open>spawn\<close> or \<open>exec\<close>: the program (for \<open>exec\<close> the whole
  shell command line), the argument array as the call site built it (\<open>spawn\<close> turns
  each entry into text and starts the process; \<open>exec\<close> takes none), and the options
  \<open>cwd\<close>, \<open>timeout\<close> (milliseconds) and the entries added to the inherited
  environment.
\<close>

record launch =
  program :: string
  arguments :: "json option list"
  use_shell :: bool
  cwd :: "string option"
  timeout_ms :: "nat option"
  env_extra :: "(string \<times> string) list"

text \<open>
  Node cuts a child off after \<open>timeout\<close> milliseconds only when the option is given and
  positive; without it the child runs until it ends by itself.
\<close>

definition texts :: "string list \<Rightarrow> json option list" where
  "texts ss = map (\<lambda>s. Some (JStr s)) ss"


text \<open>
  The part of the host the extension reads: paths, the file system, the platform, the
  working directory of the extension host (\<open>process.cwd()\<close>) and the directory
  \<open>getDocsDirectory\<close> selects from the settings and the folders that exist.
\<close>

record host =
  extensionPath :: string
  workspacePath :: "string option"
  fileExists :: "string \<Rightarrow> bool"
  platform :: string
  currentDirectory :: string
  docsDirectory :: string

fun path_join :: "string list \<Rightarrow> string" where
  "path_join [] = ''.''"
| "path_join [p] = p"
| "path_join (p # ps) = p @ ''/'' @ path_join ps"

section \<open>extension.ts\<close>

text \<open>\<open>getPythonCommand\<close>: the interpreter of the bundled virtual environment when
  one exists, else the platform's default command.\<close>

definition getPythonCommand :: "host \<Rightarrow> string" where
  "getPythonCommand h =
     (let venvPythonPath = path_join [extensionPath h, ''.venv'', ''bin'', ''python''];
          venvPythonPathWin = path_join [extensionPath h, ''.venv'', ''Scripts'', ''python.exe''];
          venvPython3Path = path_join [extensionPath h, ''.venv'', ''bin'', ''python3'']
      in if fileExists h venvPythonPath then venvPythonPath
         else if fileExists h venvPython3Path then venvPython3Path
         else if fileExists h venvPythonPathWin then venvPythonPathWin
         else if platform h = ''win32'' then ''python''
         else ''python3'')"

subsection \<open>runDataAnalysisScript\<close>

text \<open>
  The process the function spawns. \<open>stringify\<close> stands for \<open>JSON.stringify\<close>. The
  options hold the environment only: no \<open>cwd\<close> and no \<open>timeout\<close>.
\<close>

definition runDataAnalysisScript_launch ::
    "host \<Rightarrow> (json \<Rightarrow> string) \<Rightarrow> string \<Rightarrow> json option \<Rightarrow> launch" where
  "runDataAnalysisScript_launch h stringify method params =
     (let scriptsDir = path_join [extensionPath h, ''scripts''];
          scriptPath = path_join [scriptsDir, ''data_analysis_service.py''];
          pythonCmd = getPythonCommand h;
          args = [''--method'', method] @
                 (case params of
                    Some v \<Rightarrow> if truthy params then [''--params'', stringify v] else []
                  | None \<Rightarrow> []);
          wsPath = (case workspacePath h of Some p \<Rightarrow> p | None \<Rightarrow> [])
      in \<lparr> program = pythonCmd, arguments = texts (scriptPath # args), use_shell = False,
           cwd = None, timeout_ms = None,
           env_extra = [(''PYTHONIOENCODING'', ''utf-8''), (''IMS_WORKSPACE_PATH'', wsPath)] \<rparr>)"

text \<open>The literals of the function. The Chinese texts read: "no data returned",
  "cannot start the data analysis script: ", "parsing the result failed: ",
  "script execution failed, exit code: ".\<close>

definition no_data_text :: string where
  "no_data_text = ''{'' @ [CHR 0x22] @ ''success'' @ [CHR 0x22] @ '': false, '' @ [CHR 0x22]
     @ ''error'' @ [CHR 0x22] @ '': '' @ [CHR 0x22]
     @ [CHR 0xE6, CHR 0x97, CHR 0xA0, CHR 0xE6, CHR 0x95, CHR 0xB0, CHR 0xE6, CHR 0x8D, CHR 0xAE,
        CHR 0xE8, CHR 0xBF, CHR 0x94, CHR 0xE5, CHR 0x9B, CHR 0x9E]
     @ [CHR 0x22] @ ''}''"

definition no_data_object :: json where
  "no_data_object = JObj [(''success'', JBool False),
     (''error'', JStr [CHR 0xE6, CHR 0x97, CHR 0xA0, CHR 0xE6, CHR 0x95, CHR 0xB0, CHR 0xE6,
        CHR 0x8D, CHR 0xAE, CHR 0xE8, CHR 0xBF, CHR 0x94, CHR 0xE5, CHR 0x9B, CHR 0x9E])]"

definition msg_cannot_start :: string where
  "msg_cannot_start = [CHR 0xE6, CHR 0x97, CHR 0xA0, CHR 0xE6, CHR 0xB3, CHR 0x95, CHR 0xE5,
     CHR 0x90, CHR 0xAF, CHR 0xE5, CHR 0x8A, CHR 0xA8, CHR 0xE6, CHR 0x95, CHR 0xB0, CHR 0xE6,
     CHR 0x8D, CHR 0xAE, CHR 0xE5, CHR 0x88, CHR 0x86, CHR 0xE6, CHR 0x9E, CHR 0x90, CHR 0xE8,
     CHR 0x84, CHR 0x9A, CHR 0xE6, CHR 0x9C, CHR 0xAC] @ '': ''"

definition msg_parse_failed :: string where
  "msg_parse_failed = [CHR 0xE8, CHR 0xA7, CHR 0xA3, CHR 0xE6, CHR 0x9E, CHR 0x90, CHR 0xE7,
     CHR 0xBB, CHR 0x93, CHR 0xE6, CHR 0x9E, CHR 0x9C, CHR 0xE5, CHR 0xA4, CHR 0xB1, CHR 0xE8,
     CHR 0xB4, CHR 0xA5] @ '': ''"

definition msg_exit_code :: string where
  "msg_exit_code = [CHR 0xE8, CHR 0x84, CHR 0x9A, CHR 0xE6, CHR 0x9C, CHR 0xAC, CHR 0xE6,
     CHR 0x89, CHR 0xA7, CHR 0xE8, CHR 0xA1, CHR 0x8C, CHR 0xE5, CHR 0xA4, CHR 0xB1, CHR 0xE8,
     CHR 0xB4, CHR 0xA5, CHR 0xEF, CHR 0xBC, CHR 0x8C, CHR 0xE9, CHR 0x80, CHR 0x80, CHR 0xE5,
     CHR 0x87, CHR 0xBA, CHR 0xE7, CHR 0xA0, CHR 0x81] @ '': ''"

definition show_code :: "int option \<Rightarrow> string" where
  "show_code c = (case c of None \<Rightarrow> ''null'' | Some i \<Rightarrow> show_int i)"

text \<open>
  The listeners share the two buffers and the promise. \<open>parse\<close> stands for
  \<open>JSON.parse\<close>: \<open>Inr\<close> the value, or \<open>Inl\<close> the message of the SyntaxError
  it throws.
\<close>

record analysis_run =
  stdoutData :: string
  errorOutput :: string
  outcome :: "(json, string) promise"

definition analysis_start :: analysis_run where
  "analysis_start = \<lparr> stdoutData = [], errorOutput = [], outcome = Pending \<rparr>"

definition analysis_on_close ::
    "(string \<Rightarrow> string + json) \<Rightarrow> string \<Rightarrow> string \<Rightarrow> int option \<Rightarrow> json" where
  "analysis_on_close parse out err code =
     (if code = Some 0 then
        (case parse (if trim out \<noteq> [] then trim out else no_data_text) of
           Inr result \<Rightarrow> result
         | Inl parseError \<Rightarrow>
             JObj [(''success'', JBool False),
                   (''error'', JStr (msg_parse_failed @
                                       error_text (JsError ''SyntaxError'' parseError))),
                   (''rawOutput'', JStr out)])
      else
        JObj [(''success'', JBool False),
              (''error'', JStr (if err \<noteq> [] then err else msg_exit_code @ show_code code)),
              (''rawOutput'', JStr out)])"

fun analysis_on_event ::
    "(string \<Rightarrow> string + json) \<Rightarrow> analysis_run \<Rightarrow> proc_event \<Rightarrow> analysis_run" where
  "analysis_on_event parse s (StdoutData d) = s\<lparr>stdoutData := stdoutData s @ d\<rparr>"
| "analysis_on_event parse s (StderrData d) = s\<lparr>errorOutput := errorOutput s @ d\<rparr>"
| "analysis_on_event parse s (ErrorEvent m) =
     s\<lparr>outcome := reject (outcome s) (msg_cannot_start @ m)\<rparr>"
| "analysis_on_event parse s (CloseEvent code) =
     s\<lparr>outcome := resolve (outcome s)
            (analysis_on_close parse (stdoutData s) (errorOutput s) code)\<rparr>"

definition runDataAnalysisScript ::
    "(string \<Rightarrow> string + json) \<Rightarrow> proc_event list \<Rightarrow> (json, string) promise" where
  "runDataAnalysisScript parse evs = outcome (foldl (analysis_on_event parse) analysis_start evs)"

text \<open>
  Reading an event trace: the first event that is not a data chunk, and the standard
  output and standard error received before it.
\<close>

fun first_settling :: "proc_event list \<Rightarrow> proc_event option" where
  "first_settling [] = None"
| "first_settling (StdoutData d # es) = first_settling es"
| "first_settling (StderrData d # es) = first_settling es"
| "first_settling (e # es) = Some e"

fun stdout_before :: "proc_event list \<Rightarrow> string" where
  "stdout_before [] = []"
| "stdout_before (StdoutData d # es) = d @ stdout_before es"
| "stdout_before (StderrData d # es) = stdout_before es"
| "stdout_before (e # es) = []"

fun stderr_before :: "proc_event list \<Rightarrow> string" where
  "stderr_before [] = []"
| "stderr_before (StdoutData d # es) = stderr_before es"
| "stderr_before (StderrData d # es) = d @ stderr_before es"
| "stderr_before (e # es) = []"

section \<open>The reporting service's response envelope\<close>

text \<open>
  \<open>get_dashboard_data\<close> of the data analysis service, as given in the design note of the
  dashboard fix. Python values are \<open>json\<close> values (\<open>None\<close> is \<open>JNull\<close>, a dict an
  object). The outcome of \<open>get_dashboard_summary\<close> is an input: \<open>Inr\<close> the value it
  returned, \<open>Inl\<close> the text of the exception it raised. \<open>now\<close> is the time stamp.
\<close>

fun py_truthy :: "json \<Rightarrow> bool" where
  "py_truthy JNull = False"
| "py_truthy (JBool b) = b"
| "py_truthy (JNum n) = (n \<noteq> 0)"
| "py_truthy (JStr s) = (s \<noteq> [])"
| "py_truthy (JArr xs) = (xs \<noteq> [])"
| "py_truthy (JObj kv) = (kv \<noteq> [])"

text \<open>The details text reads "fetching the dashboard data failed".\<close>

definition msg_dashboard_details :: string where
  "msg_dashboard_details = [CHR 0xE4, CHR 0xBB, CHR 0xAA, CHR 0xE8, CHR 0xA1, CHR 0xA8, CHR 0xE6,
     CHR 0x9D, CHR 0xBF, CHR 0xE6, CHR 0x95, CHR 0xB0, CHR 0xE6, CHR 0x8D, CHR 0xAE, CHR 0xE8,
     CHR 0x8E, CHR 0xB7, CHR 0xE5, CHR 0x8F, CHR 0x96, CHR 0xE5, CHR 0xA4, CHR 0xB1, CHR 0xE8,
     CHR 0xB4, CHR 0xA5]"

fun get_dashboard_data :: "string \<Rightarrow> string + json \<Rightarrow> json" where
  "get_dashboard_data now (Inr (JObj kv)) =
     (if map_of kv ''error'' \<noteq> None then
        JObj [(''success'', JBool False),
              (''error'', (case map_of kv ''error'' of Some e \<Rightarrow> e
                           | None \<Rightarrow> JStr ''Unknown error'')),
              (''data'', JNull),
              (''generated_at'', JStr now)]
      else
        JObj [(''success'', JBool True),
              (''data'', JObj kv),
              (''error'', JNull),
              (''generated_at'', JStr now)])"
| "get_dashboard_data now (Inr dashboard_summary) =
     JObj [(''success'', JBool True),
           (''data'', (if py_truthy dashboard_summary then dashboard_summary else JObj [])),
           (''error'', JNull),
           (''generated_at'', JStr now)]"
| "get_dashboard_data now (Inl e) =
     JObj [(''success'', JBool False),
           (''error'', JObj [(''code'', JStr ''DASHBOARD_DATA_FAILED''),
                             (''message'', JStr e),
                             (''details'', JStr msg_dashboard_details)]),
           (''data'', JNull),
           (''generated_at'', JStr now)]"

text \<open>
  The two envelopes: success with \<open>success = true\<close> and a data payload; failure with
  \<open>success = false\<close> and an error object that carries \<open>code\<close>, \<open>message\<close> and
  \<open>details\<close>.
\<close>

fun has_field :: "json \<Rightarrow> string \<Rightarrow> bool" where
  "has_field (JObj kv) k = (map_of kv k \<noteq> None)"
| "has_field v k = False"

fun field :: "json \<Rightarrow> string \<Rightarrow> json option" where
  "field (JObj kv) k = map_of kv k"
| "field v k = None"

definition is_success_envelope :: "json \<Rightarrow> bool" where
  "is_success_envelope j = (field j ''success'' = Some (JBool True) \<and> has_field j ''data'')"

definition is_error_triple :: "json \<Rightarrow> bool" where
  "is_error_triple e = (has_field e ''code'' \<and> has_field e ''message'' \<and> has_field e ''details'')"

definition is_failure_envelope :: "json \<Rightarrow> bool" where
  "is_failure_envelope j =
     (field j ''success'' = Some (JBool False) \<and>
      (case field j ''error'' of Some e \<Rightarrow> is_error_triple e | None \<Rightarrow> False))"

text \<open>The failure object \<open>runDataAnalysisScript\<close> builds by itself.\<close>

definition script_failure :: "string \<Rightarrow> string \<Rightarrow> json" where
  "script_failure e out =
     JObj [(''success'', JBool False), (''error'', JStr e), (''rawOutput'', JStr out)]"

section \<open>treeDataProvider.ts\<close>

text \<open>
  Conversion of a value to a string, as \<open>String(x)\<close>, a template literal and a property
  key do it: an array joins its elements with commas (a \<open>null\<close> element gives the empty
  string), an object gives \<open>[object Object]\<close>. An object that holds a \<open>toString\<close> entry
  of its own has no callable \<open>toString\<close> (no value of a parsed text or of a message is a
  function), and its conversion throws a TypeError: \<open>None\<close>.
\<close>

fun join_comma :: "string list \<Rightarrow> string" where
  "join_comma [] = []"
| "join_comma [s] = s"
| "join_comma (s # ss) = s @ '','' @ join_comma ss"

fun js_string :: "json \<Rightarrow> string option" where
  "js_string JNull = Some ''null''"
| "js_string (JBool b) = Some (if b then ''true'' else ''false'')"
| "js_string (JNum n) = Some (show_int n)"
| "js_string (JStr s) = Some s"
| "js_string (JArr xs) =
     map_option join_comma (those (map (\<lambda>x. if x = JNull then Some [] else js_string x) xs))"
| "js_string (JObj kv) =
     (if map_of kv ''toString'' = None then Some ''[object Object]'' else None)"

definition js_string_opt :: "json option \<Rightarrow> string option" where
  "js_string_opt v = (case v of None \<Rightarrow> Some ''undefined'' | Some x \<Rightarrow> js_string x)"

definition cannot_convert :: js_error where
  "cannot_convert = JsError ''TypeError'' ''Cannot convert object to primitive value''"

text \<open>Messages shown through \<open>vscode.window\<close>.\<close>

datatype notification = Information string | Warning string | ErrorMessage string

text \<open>
  What \<open>exec\<close> passes to its callback: the error (its message) when the command could
  not be run, was killed or ended with a non-zero code, and the two output texts.
\<close>

record exec_result =
  exec_error :: "string option"
  exec_stdout :: string
  exec_stderr :: string

record tree_command =
  command_id :: string
  command_title :: string
  command_arguments :: "json list"

record tree_item =
  label :: string
  collapsed :: bool
  iconPath :: "string option"
  contextValue :: "string option"
  tooltip :: "string option"
  item_command :: "tree_command option"

definition TreeItem :: "string \<Rightarrow> bool \<Rightarrow> tree_item" where
  "TreeItem l c = \<lparr> label = l, collapsed = c, iconPath = None, contextValue = None,
     tooltip = None, item_command = None \<rparr>"

text \<open>
  The fields of \<open>ImsTreeDataProvider\<close>, the messages it has shown and the number of
  change events it has fired. \<open>collections\<close> holds whatever the script's JSON gave, so it
  is a \<open>json\<close>; \<open>tableMapping\<close> is the object of table names, in key order.
\<close>

record tree_provider =
  isConnected :: bool
  collections :: json
  tableMapping :: "(string \<times> json) list"
  shown :: "notification list"
  fired :: nat

definition tree_provider_new :: tree_provider where
  "tree_provider_new = \<lparr> isConnected = False, collections = JArr [], tableMapping = [],
     shown = [], fired = 0 \<rparr>"

definition showWarningMessage :: "string \<Rightarrow> tree_provider \<Rightarrow> tree_provider" where
  "showWarningMessage m p = p\<lparr>shown := shown p @ [Warning m]\<rparr>"

definition showErrorMessage :: "string \<Rightarrow> tree_provider \<Rightarrow> tree_provider" where
  "showErrorMessage m p = p\<lparr>shown := shown p @ [ErrorMessage m]\<rparr>"

definition loadDefaultCollections :: "tree_provider \<Rightarrow> tree_provider" where
  "loadDefaultCollections p = p\<lparr>collections := JArr (map (\<lambda>kv. JStr (fst kv)) (tableMapping p))\<rparr>"

definition refresh :: "tree_provider \<Rightarrow> tree_provider" where
  "refresh p = p\<lparr>fired := fired p + 1\<rparr>"

text \<open>\<open>checkConnection\<close> runs the script with \<open>exec\<close>; its options give the encoding and
  the environment, and no \<open>timeout\<close>.\<close>

definition checkConnection_launch :: "host \<Rightarrow> launch" where
  "checkConnection_launch h =
     (let pythonPath = ''python'';
          scriptPath = path_join [extensionPath h, ''scripts'', ''get_collection_names.py''];
          command = pythonPath @ '' '' @ [CHR 0x22] @ scriptPath @ [CHR 0x22]
      in \<lparr> program = command, arguments = [], use_shell = True, cwd = None,
           timeout_ms = None, env_extra = [(''PYTHONIOENCODING'', ''utf-8'')] \<rparr>)"

text \<open>The warnings read: "fetching the table list dynamically failed, the default list
  will be loaded: ", "unknown error", "an error occurred while fetching the table list, the
  default list will be loaded: ", "an error occurred while parsing the table list, the
  default list will be loaded.".\<close>

definition msg_fetch_failed :: string where
  "msg_fetch_failed = ([CHR 0xE5, CHR 0x8A, CHR 0xA8, CHR 0xE6, CHR 0x80, CHR 0x81, CHR 0xE8,
       CHR 0x8E, CHR 0xB7, CHR 0xE5, CHR 0x8F, CHR 0x96, CHR 0xE6, CHR 0x95,
       CHR 0xB0, CHR 0xE6, CHR 0x8D, CHR 0xAE, CHR 0xE8, CHR 0xA1, CHR 0xA8,
       CHR 0xE5, CHR 0x88, CHR 0x97, CHR 0xE8, CHR 0xA1, CHR 0xA8, CHR 0xE5,
       CHR 0xA4, CHR 0xB1, CHR 0xE8, CHR 0xB4, CHR 0xA5, CHR 0xEF, CHR 0xBC,
       CHR 0x8C, CHR 0xE5, CHR 0xB0, CHR 0x86, CHR 0xE5, CHR 0x8A, CHR 0xA0,
       CHR 0xE8, CHR 0xBD, CHR 0xBD, CHR 0xE9, CHR 0xBB, CHR 0x98, CHR 0xE8,
       CHR 0xAE, CHR 0xA4, CHR 0xE5, CHR 0x88, CHR 0x97, CHR 0xE8, CHR 0xA1,
       CHR 0xA8] @ '': '')"

definition msg_unknown_error :: string where
  "msg_unknown_error = [CHR 0xE6, CHR 0x9C, CHR 0xAA, CHR 0xE7, CHR 0x9F, CHR 0xA5, CHR 0xE9,
       CHR 0x94, CHR 0x99, CHR 0xE8, CHR 0xAF, CHR 0xAF]"

definition msg_backend_error :: string where
  "msg_backend_error = ([CHR 0xE8, CHR 0x8E, CHR 0xB7, CHR 0xE5, CHR 0x8F, CHR 0x96, CHR 0xE6,
       CHR 0x95, CHR 0xB0, CHR 0xE6, CHR 0x8D, CHR 0xAE, CHR 0xE8, CHR 0xA1,
       CHR 0xA8, CHR 0xE5, CHR 0x88, CHR 0x97, CHR 0xE8, CHR 0xA1, CHR 0xA8,
       CHR 0xE6, CHR 0x97, CHR 0xB6, CHR 0xE5, CHR 0x87, CHR 0xBA, CHR 0xE9,
       CHR 0x94, CHR 0x99, CHR 0xEF, CHR 0xBC, CHR 0x8C, CHR 0xE5, CHR 0xB0,
       CHR 0x86, CHR 0xE5, CHR 0x8A, CHR 0xA0, CHR 0xE8, CHR 0xBD, CHR 0xBD,
       CHR 0xE9, CHR 0xBB, CHR 0x98, CHR 0xE8, CHR 0xAE, CHR 0xA4, CHR 0xE5,
       CHR 0x88, CHR 0x97, CHR 0xE8, CHR 0xA1, CHR 0xA8] @ '': '')"

definition msg_parse_error :: string where
  "msg_parse_error = [CHR 0xE8, CHR 0xA7, CHR 0xA3, CHR 0xE6, CHR 0x9E, CHR 0x90, CHR 0xE6,
       CHR 0x95, CHR 0xB0, CHR 0xE6, CHR 0x8D, CHR 0xAE, CHR 0xE8, CHR 0xA1,
       CHR 0xA8, CHR 0xE5, CHR 0x88, CHR 0x97, CHR 0xE8, CHR 0xA1, CHR 0xA8,
       CHR 0xE6, CHR 0x97, CHR 0xB6, CHR 0xE5, CHR 0x87, CHR 0xBA, CHR 0xE9,
       CHR 0x94, CHR 0x99, CHR 0xEF, CHR 0xBC, CHR 0x8C, CHR 0xE5, CHR 0xB0,
       CHR 0x86, CHR 0xE5, CHR 0x8A, CHR 0xA0, CHR 0xE8, CHR 0xBD, CHR 0xBD,
       CHR 0xE9, CHR 0xBB, CHR 0x98, CHR 0xE8, CHR 0xAE, CHR 0xA4, CHR 0xE5,
       CHR 0x88, CHR 0x97, CHR 0xE8, CHR 0xA1, CHR 0xA8, CHR 0xE3, CHR 0x80,
       CHR 0x82]"

text \<open>
  The body of the \<open>try\<close> block of the callback: \<open>Inl\<close> when \<open>JSON.parse\<close>, the
  access \<open>result.error\<close> or the conversion of \<open>result.error\<close> in the warning's text
  throws, so that the \<open>catch\<close> block runs on the provider as it was (nothing is shown or
  assigned before any of them can throw).
\<close>

definition checkConnection_try ::
    "(string \<Rightarrow> string + json) \<Rightarrow> tree_provider \<Rightarrow> string \<Rightarrow> string + tree_provider" where
  "checkConnection_try parse p out =
     (case parse out of
        Inl e \<Rightarrow> Inl e
      | Inr result \<Rightarrow>
          (case member result ''error'' of
             Inl e \<Rightarrow> Inl e
           | Inr err \<Rightarrow>
               if truthy err then
                 (case js_string_opt err of
                    None \<Rightarrow> Inl (error_message cannot_convert)
                  | Some text \<Rightarrow>
                      Inr (loadDefaultCollections
                        ((showWarningMessage (msg_backend_error @ text) p)
                           \<lparr>isConnected := True\<rparr>)))
               else
                 (case member result ''collections'' of
                    Inl e \<Rightarrow> Inl e
                  | Inr c \<Rightarrow>
                      Inr (p\<lparr>isConnected := True,
                              collections := (case c of Some v \<Rightarrow> if truthy c then v else JArr []
                                              | None \<Rightarrow> JArr [])\<rparr>))))"

definition checkConnection_callback ::
    "(string \<Rightarrow> string + json) \<Rightarrow> tree_provider \<Rightarrow> exec_result \<Rightarrow> tree_provider" where
  "checkConnection_callback parse p r =
     refresh
       (if exec_error r \<noteq> None \<or> exec_stderr r \<noteq> [] then
          loadDefaultCollections
            ((showWarningMessage
                (msg_fetch_failed @
                   (if exec_stderr r \<noteq> [] then exec_stderr r else msg_unknown_error))
                p)\<lparr>isConnected := True\<rparr>)
        else
          (case checkConnection_try parse p (exec_stdout r) of
             Inr p' \<Rightarrow> p'
           | Inl e \<Rightarrow>
               loadDefaultCollections
                 ((showWarningMessage msg_parse_error p)\<lparr>isConnected := True\<rparr>)))"

text \<open>The items of the tree. The labels read: "database not connected - click to
  reconnect", "reconnect the database", "test the database connection", "database tables",
  "business views", "management views", "view table data", "fetching the table list
  failed: ".\<close>

definition connectItem :: tree_item where
  "connectItem = (TreeItem ([CHR 0xE6, CHR 0x95, CHR 0xB0, CHR 0xE6, CHR 0x8D, CHR 0xAE, CHR 0xE5,
       CHR 0xBA, CHR 0x93, CHR 0xE6, CHR 0x9C, CHR 0xAA, CHR 0xE8, CHR 0xBF,
       CHR 0x9E, CHR 0xE6, CHR 0x8E, CHR 0xA5] @ '' - '' @ [CHR 0xE7, CHR 0x82, CHR 0xB9, CHR 0xE5, CHR 0x87, CHR 0xBB, CHR 0xE9,
       CHR 0x87, CHR 0x8D, CHR 0xE6, CHR 0x96, CHR 0xB0, CHR 0xE8, CHR 0xBF,
       CHR 0x9E, CHR 0xE6, CHR 0x8E, CHR 0xA5]) False)
     \<lparr> iconPath := Some ''error'',
       item_command := Some \<lparr> command_id = ''ims.reconnectDb'',
         command_title = [CHR 0xE9, CHR 0x87, CHR 0x8D, CHR 0xE6, CHR 0x96, CHR 0xB0, CHR 0xE8,
              CHR 0xBF, CHR 0x9E, CHR 0xE6, CHR 0x8E, CHR 0xA5, CHR 0xE6, CHR 0x95,
              CHR 0xB0, CHR 0xE6, CHR 0x8D, CHR 0xAE, CHR 0xE5, CHR 0xBA, CHR 0x93], command_arguments = [] \<rparr> \<rparr>"

definition testItem :: tree_item where
  "testItem = (TreeItem [CHR 0xE6, CHR 0xB5, CHR 0x8B, CHR 0xE8, CHR 0xAF, CHR 0x95, CHR 0xE6,
       CHR 0x95, CHR 0xB0, CHR 0xE6, CHR 0x8D, CHR 0xAE, CHR 0xE5, CHR 0xBA,
       CHR 0x93, CHR 0xE8, CHR 0xBF, CHR 0x9E, CHR 0xE6, CHR 0x8E, CHR 0xA5] False)
     \<lparr> iconPath := Some ''debug-console'',
       item_command := Some \<lparr> command_id = ''ims.testDbConnection'',
         command_title = [CHR 0xE6, CHR 0xB5, CHR 0x8B, CHR 0xE8, CHR 0xAF, CHR 0x95, CHR 0xE6,
              CHR 0x95, CHR 0xB0, CHR 0xE6, CHR 0x8D, CHR 0xAE, CHR 0xE5, CHR 0xBA,
              CHR 0x93, CHR 0xE8, CHR 0xBF, CHR 0x9E, CHR 0xE6, CHR 0x8E, CHR 0xA5], command_arguments = [] \<rparr> \<rparr>"

definition databaseTables :: tree_item where
  "databaseTables = (TreeItem [CHR 0xE6, CHR 0x95, CHR 0xB0, CHR 0xE6, CHR 0x8D, CHR 0xAE, CHR 0xE5,
       CHR 0xBA, CHR 0x93, CHR 0xE8, CHR 0xA1, CHR 0xA8] True)
     \<lparr> iconPath := Some ''database'', contextValue := Some ''databaseTablesRoot'' \<rparr>"

definition businessViews :: tree_item where
  "businessViews = (TreeItem [CHR 0xE4, CHR 0xB8, CHR 0x9A, CHR 0xE5, CHR 0x8A, CHR 0xA1, CHR 0xE8,
       CHR 0xA7, CHR 0x86, CHR 0xE5, CHR 0x9B, CHR 0xBE] True)
     \<lparr> iconPath := Some ''graph'', contextValue := Some ''businessViewsRoot'' \<rparr>"

definition managementViews :: tree_item where
  "managementViews = (TreeItem [CHR 0xE7, CHR 0xAE, CHR 0xA1, CHR 0xE7, CHR 0x90, CHR 0x86, CHR 0xE8,
       CHR 0xA7, CHR 0x86, CHR 0xE5, CHR 0x9B, CHR 0xBE] True)
     \<lparr> iconPath := Some ''tools'', contextValue := Some ''managementViewsRoot'' \<rparr>"

text \<open>One element of \<open>this.collections.map\<close>: \<open>None\<close> when the conversion of the
  name to a property key, or of the name or the Chinese name to text, throws.\<close>

definition collection_item :: "(string \<times> json) list \<Rightarrow> json \<Rightarrow> tree_item option" where
  "collection_item mapping collectionName =
     (case js_string collectionName of
        None \<Rightarrow> None
      | Some key \<Rightarrow>
          (let chineseName =
                 (case map_of mapping key of
                    Some v \<Rightarrow> if truthy (Some v) then v else collectionName
                  | None \<Rightarrow> collectionName)
           in case js_string chineseName of
                None \<Rightarrow> None
              | Some chineseText \<Rightarrow>
                  Some ((TreeItem (key @ '' ('' @ chineseText @ '')'') False)
                    \<lparr> iconPath := Some ''database'', contextValue := Some ''table'',
                      item_command := Some \<lparr> command_id = ''ims.showTableData'',
                        command_title = [CHR 0xE6, CHR 0x9F, CHR 0xA5, CHR 0xE7, CHR 0x9C, CHR 0x8B, CHR 0xE8,
                             CHR 0xA1, CHR 0xA8, CHR 0xE6, CHR 0x95, CHR 0xB0, CHR 0xE6, CHR 0x8D,
                             CHR 0xAE],
                        command_arguments = [collectionName, chineseName] \<rparr> \<rparr>)))"

text \<open>\<open>this.collections.map\<close> throws when \<open>collections\<close> is not an array, and so does
  the conversion of an element; the \<open>catch\<close> block shows the error and returns no
  items.\<close>

definition getCollectionsAsTreeItems :: "tree_provider \<Rightarrow> tree_item list \<times> tree_provider" where
  "getCollectionsAsTreeItems p =
     (case collections p of
        JArr names \<Rightarrow>
          (case those (map (collection_item (tableMapping p)) names) of
             Some items \<Rightarrow> (items, p)
           | None \<Rightarrow>
               ([], showErrorMessage (([CHR 0xE8, CHR 0x8E, CHR 0xB7, CHR 0xE5, CHR 0x8F, CHR 0x96, CHR 0xE6,
                    CHR 0x95, CHR 0xB0, CHR 0xE6, CHR 0x8D, CHR 0xAE, CHR 0xE8, CHR 0xA1,
                    CHR 0xA8, CHR 0xE5, CHR 0x88, CHR 0x97, CHR 0xE8, CHR 0xA1, CHR 0xA8,
                    CHR 0xE5, CHR 0xA4, CHR 0xB1, CHR 0xE8, CHR 0xB4, CHR 0xA5] @ '': '') @ error_text cannot_convert) p))
      | other \<Rightarrow>
          ([], showErrorMessage
                 (([CHR 0xE8, CHR 0x8E, CHR 0xB7, CHR 0xE5, CHR 0x8F, CHR 0x96, CHR 0xE6,
                      CHR 0x95, CHR 0xB0, CHR 0xE6, CHR 0x8D, CHR 0xAE, CHR 0xE8, CHR 0xA1,
                      CHR 0xA8, CHR 0xE5, CHR 0x88, CHR 0x97, CHR 0xE8, CHR 0xA1, CHR 0xA8,
                      CHR 0xE5, CHR 0xA4, CHR 0xB1, CHR 0xE8, CHR 0xB4, CHR 0xA5] @ '': '') @ ''TypeError: this.collections.map is not a function'') p))"

text \<open>
  The two fixed lists of views. Each entry is name, description, icon and command. The
  business views are the data analysis dashboard, supplier reconciliation, customer
  statement, inventory count report, sales report, purchase report, receivables and
  payables; the management views are material management, purchase-sales-inventory
  management and data entry management.
\<close>

record view_entry =
  view_name :: string
  view_description :: string
  view_icon :: string
  view_command :: string

definition view_list_management :: "view_entry list" where
  "view_list_management =
     [\<lparr> view_name = [CHR 0xE7, CHR 0x89, CHR 0xA9, CHR 0xE6, CHR 0x96, CHR 0x99, CHR 0xE7,
          CHR 0xAE, CHR 0xA1, CHR 0xE7, CHR 0x90, CHR 0x86], view_description = [CHR 0xE7, CHR 0x89, CHR 0xA9, CHR 0xE6, CHR 0x96, CHR 0x99, CHR 0xE4,
          CHR 0xBF, CHR 0xA1, CHR 0xE6, CHR 0x81, CHR 0xAF, CHR 0xE7, CHR 0xAE,
          CHR 0xA1, CHR 0xE7, CHR 0x90, CHR 0x86],
         view_icon = ''package'', view_command = ''ims.showMaterialManagement'' \<rparr>,
      \<lparr> view_name = [CHR 0xE8, CHR 0xBF, CHR 0x9B, CHR 0xE9, CHR 0x94, CHR 0x80, CHR 0xE5,
           CHR 0xAD, CHR 0x98, CHR 0xE7, CHR 0xAE, CHR 0xA1, CHR 0xE7, CHR 0x90,
           CHR 0x86],
         view_description = ([CHR 0xE9, CHR 0x87, CHR 0x87, CHR 0xE8, CHR 0xB4, CHR 0xAD, CHR 0xE7,
              CHR 0xAE, CHR 0xA1, CHR 0xE7, CHR 0x90, CHR 0x86] @ '' | '' @ [CHR 0xE9, CHR 0x94, CHR 0x80, CHR 0xE5, CHR 0x94, CHR 0xAE, CHR 0xE7,
              CHR 0xAE, CHR 0xA1, CHR 0xE7, CHR 0x90, CHR 0x86] @ '' | '' @ [CHR 0xE5, CHR 0xBA, CHR 0x93, CHR 0xE5, CHR 0xAD, CHR 0x98, CHR 0xE7,
              CHR 0xAE, CHR 0xA1, CHR 0xE7, CHR 0x90, CHR 0x86]),
         view_icon = ''archive'', view_command = ''ims.showInventoryManagement'' \<rparr>,
      \<lparr> view_name = [CHR 0xE6, CHR 0x95, CHR 0xB0, CHR 0xE6, CHR 0x8D, CHR 0xAE, CHR 0xE5,
           CHR 0xBD, CHR 0x95, CHR 0xE5, CHR 0x85, CHR 0xA5, CHR 0xE7, CHR 0xAE,
           CHR 0xA1, CHR 0xE7, CHR 0x90, CHR 0x86], view_description = [CHR 0xE6, CHR 0x95, CHR 0xB0, CHR 0xE6, CHR 0x8D, CHR 0xAE, CHR 0xE5,
           CHR 0xBD, CHR 0x95, CHR 0xE5, CHR 0x85, CHR 0xA5, CHR 0xE5, CHR 0x92,
           CHR 0x8C, CHR 0xE7, CHR 0xBC, CHR 0x96, CHR 0xE8, CHR 0xBE, CHR 0x91],
         view_icon = ''edit'', view_command = ''ims.showDataEntry'' \<rparr>]"

definition management_item :: "view_entry \<Rightarrow> tree_item" where
  "management_item view =
     (let item = (TreeItem (view_name view) False)
            \<lparr> iconPath := Some (view_icon view), tooltip := Some (view_description view),
              contextValue := Some ''managementView'' \<rparr>
      in if view_command view = ''ims.showInventoryManagement'' then
           item\<lparr>item_command := Some \<lparr> command_id = ''ims.showInventoryManagement'',
             command_title = [CHR 0xE8, CHR 0xBF, CHR 0x9B, CHR 0xE9, CHR 0x94, CHR 0x80, CHR 0xE5,
                  CHR 0xAD, CHR 0x98, CHR 0xE7, CHR 0xAE, CHR 0xA1, CHR 0xE7, CHR 0x90,
                  CHR 0x86], command_arguments = [] \<rparr>\<rparr>
         else if view_command view = ''ims.showDataEntry'' then
           item\<lparr>item_command := Some \<lparr> command_id = ''ims.showDataEntry'',
             command_title = [CHR 0xE6, CHR 0x95, CHR 0xB0, CHR 0xE6, CHR 0x8D, CHR 0xAE, CHR 0xE5,
                  CHR 0xBD, CHR 0x95, CHR 0xE5, CHR 0x85, CHR 0xA5, CHR 0xE7, CHR 0xAE,
                  CHR 0xA1, CHR 0xE7, CHR 0x90, CHR 0x86], command_arguments = [] \<rparr>\<rparr>
         else if view_command view = ''ims.showMaterialManagement'' then
           item\<lparr>item_command := Some \<lparr> command_id = ''ims.showMaterialManagement'',
             command_title = [CHR 0xE7, CHR 0x89, CHR 0xA9, CHR 0xE6, CHR 0x96, CHR 0x99, CHR 0xE7,
                  CHR 0xAE, CHR 0xA1, CHR 0xE7, CHR 0x90, CHR 0x86], command_arguments = [] \<rparr>\<rparr>
         else item)"

definition getManagementViewsAsTreeItems :: "tree_item list" where
  "getManagementViewsAsTreeItems = map management_item view_list_management"

definition view_list_business :: "view_entry list" where
  "view_list_business =
     [\<lparr> view_name = ([CHR 0xF0, CHR 0x9F, CHR 0x93, CHR 0x8A] @ '' '' @ [CHR 0xE6, CHR 0x95, CHR 0xB0, CHR 0xE6, CHR 0x8D, CHR 0xAE, CHR 0xE5,
          CHR 0x88, CHR 0x86, CHR 0xE6, CHR 0x9E, CHR 0x90, CHR 0xE4, CHR 0xBB,
          CHR 0xAA, CHR 0xE8, CHR 0xA1, CHR 0xA8, CHR 0xE6, CHR 0x9D, CHR 0xBF]),
         view_description = [CHR 0xE4, CHR 0xB8, CHR 0x9A, CHR 0xE5, CHR 0x8A, CHR 0xA1, CHR 0xE6,
              CHR 0x95, CHR 0xB0, CHR 0xE6, CHR 0x8D, CHR 0xAE, CHR 0xE7, CHR 0xBB,
              CHR 0x9F, CHR 0xE8, CHR 0xAE, CHR 0xA1, CHR 0xE5, CHR 0x88, CHR 0x86,
              CHR 0xE6, CHR 0x9E, CHR 0x90, CHR 0xE5, CHR 0x92, CHR 0x8C, CHR 0xE8,
              CHR 0xB6, CHR 0x8B, CHR 0xE5, CHR 0x8A, CHR 0xBF, CHR 0xE9, CHR 0xA2,
              CHR 0x84, CHR 0xE6, CHR 0xB5, CHR 0x8B],
         view_icon = ''dashboard'', view_command = ''ims.showDataAnalysisDashboard'' \<rparr>,
      \<lparr> view_name = [CHR 0xE4, CHR 0xBE, CHR 0x9B, CHR 0xE5, CHR 0xBA, CHR 0x94, CHR 0xE5,
           CHR 0x95, CHR 0x86, CHR 0xE5, CHR 0xAF, CHR 0xB9, CHR 0xE8, CHR 0xB4,
           CHR 0xA6, CHR 0xE8, CHR 0xA1, CHR 0xA8], view_description = [CHR 0xE4, CHR 0xBE, CHR 0x9B, CHR 0xE5, CHR 0xBA, CHR 0x94, CHR 0xE5,
           CHR 0x95, CHR 0x86, CHR 0xE8, CHR 0xB4, CHR 0xA6, CHR 0xE5, CHR 0x8A,
           CHR 0xA1, CHR 0xE6, CHR 0xB1, CHR 0x87, CHR 0xE6, CHR 0x80, CHR 0xBB],
         view_icon = ''graph'', view_command = ''ims.showBusinessView'' \<rparr>,
      \<lparr> view_name = [CHR 0xE5, CHR 0xAE, CHR 0xA2, CHR 0xE6, CHR 0x88, CHR 0xB7, CHR 0xE5,
           CHR 0xAF, CHR 0xB9, CHR 0xE8, CHR 0xB4, CHR 0xA6, CHR 0xE5, CHR 0x8D,
           CHR 0x95], view_description = [CHR 0xE5, CHR 0xAE, CHR 0xA2, CHR 0xE6, CHR 0x88, CHR 0xB7, CHR 0xE8,
           CHR 0xB4, CHR 0xA6, CHR 0xE5, CHR 0x8A, CHR 0xA1, CHR 0xE6, CHR 0xB1,
           CHR 0x87, CHR 0xE6, CHR 0x80, CHR 0xBB],
         view_icon = ''graph'', view_command = ''ims.showBusinessView'' \<rparr>,
      \<lparr> view_name = [CHR 0xE5, CHR 0xBA, CHR 0x93, CHR 0xE5, CHR 0xAD, CHR 0x98, CHR 0xE7,
           CHR 0x9B, CHR 0x98, CHR 0xE7, CHR 0x82, CHR 0xB9, CHR 0xE6, CHR 0x8A,
           CHR 0xA5, CHR 0xE8, CHR 0xA1, CHR 0xA8], view_description = [CHR 0xE5, CHR 0xBA, CHR 0x93, CHR 0xE5, CHR 0xAD, CHR 0x98, CHR 0xE7,
           CHR 0xBB, CHR 0x9F, CHR 0xE8, CHR 0xAE, CHR 0xA1, CHR 0xE5, CHR 0x88,
           CHR 0x86, CHR 0xE6, CHR 0x9E, CHR 0x90],
         view_icon = ''graph'', view_command = ''ims.showBusinessView'' \<rparr>,
      \<lparr> view_name = [CHR 0xE9, CHR 0x94, CHR 0x80, CHR 0xE5, CHR 0x94, CHR 0xAE, CHR 0xE7,
           CHR 0xBB, CHR 0x9F, CHR 0xE8, CHR 0xAE, CHR 0xA1, CHR 0xE6, CHR 0x8A,
           CHR 0xA5, CHR 0xE8, CHR 0xA1, CHR 0xA8], view_description = [CHR 0xE9, CHR 0x94, CHR 0x80, CHR 0xE5, CHR 0x94, CHR 0xAE, CHR 0xE6,
           CHR 0x95, CHR 0xB0, CHR 0xE6, CHR 0x8D, CHR 0xAE, CHR 0xE5, CHR 0x88,
           CHR 0x86, CHR 0xE6, CHR 0x9E, CHR 0x90],
         view_icon = ''graph'', view_command = ''ims.showBusinessView'' \<rparr>,
      \<lparr> view_name = [CHR 0xE9, CHR 0x87, CHR 0x87, CHR 0xE8, CHR 0xB4, CHR 0xAD, CHR 0xE7,
           CHR 0xBB, CHR 0x9F, CHR 0xE8, CHR 0xAE, CHR 0xA1, CHR 0xE6, CHR 0x8A,
           CHR 0xA5, CHR 0xE8, CHR 0xA1, CHR 0xA8], view_description = [CHR 0xE9, CHR 0x87, CHR 0x87, CHR 0xE8, CHR 0xB4, CHR 0xAD, CHR 0xE6,
           CHR 0x95, CHR 0xB0, CHR 0xE6, CHR 0x8D, CHR 0xAE, CHR 0xE5, CHR 0x88,
           CHR 0x86, CHR 0xE6, CHR 0x9E, CHR 0x90],
         view_icon = ''graph'', view_command = ''ims.showBusinessView'' \<rparr>,
      \<lparr> view_name = [CHR 0xE5, CHR 0xBA, CHR 0x94, CHR 0xE6, CHR 0x94, CHR 0xB6, CHR 0xE8,
           CHR 0xB4, CHR 0xA6, CHR 0xE6, CHR 0xAC, CHR 0xBE, CHR 0xE7, CHR 0xBB,
           CHR 0x9F, CHR 0xE8, CHR 0xAE, CHR 0xA1], view_description = [CHR 0xE5, CHR 0xBA, CHR 0x94, CHR 0xE6, CHR 0x94, CHR 0xB6, CHR 0xE6,
           CHR 0xAC, CHR 0xBE, CHR 0xE9, CHR 0xA1, CHR 0xB9, CHR 0xE6, CHR 0xB1,
           CHR 0x87, CHR 0xE6, CHR 0x80, CHR 0xBB],
         view_icon = ''graph'', view_command = ''ims.showBusinessView'' \<rparr>,
      \<lparr> view_name = [CHR 0xE5, CHR 0xBA, CHR 0x94, CHR 0xE4, CHR 0xBB, CHR 0x98, CHR 0xE8,
           CHR 0xB4, CHR 0xA6, CHR 0xE6, CHR 0xAC, CHR 0xBE, CHR 0xE7, CHR 0xBB,
           CHR 0x9F, CHR 0xE8, CHR 0xAE, CHR 0xA1], view_description = [CHR 0xE5, CHR 0xBA, CHR 0x94, CHR 0xE4, CHR 0xBB, CHR 0x98, CHR 0xE6,
           CHR 0xAC, CHR 0xBE, CHR 0xE9, CHR 0xA1, CHR 0xB9, CHR 0xE6, CHR 0xB1,
           CHR 0x87, CHR 0xE6, CHR 0x80, CHR 0xBB],
         view_icon = ''graph'', view_command = ''ims.showBusinessView'' \<rparr>]"

definition business_item :: "view_entry \<Rightarrow> tree_item" where
  "business_item view =
     (let item = (TreeItem (view_name view) False)
            \<lparr> iconPath := Some (view_icon view), tooltip := Some (view_description view),
              contextValue := Some ''businessView'' \<rparr>
      in if view_command view = ''ims.showDataAnalysisDashboard'' then
           item\<lparr>item_command := Some \<lparr> command_id = view_command view,
             command_title = view_name view, command_arguments = [] \<rparr>\<rparr>
         else
           item\<lparr>item_command := Some \<lparr> command_id = view_command view,
             command_title = view_name view,
             command_arguments = [JStr (view_name view), JStr (view_name view)] \<rparr>\<rparr>)"

definition getBusinessViewsAsTreeItems :: "tree_item list" where
  "getBusinessViewsAsTreeItems = map business_item view_list_business"

text \<open>
  \<open>getChildren\<close>: while the provider is not connected, the two items that offer to
  reconnect and to test; otherwise the three roots, or the children of the root given.
\<close>

definition getChildren :: "tree_provider \<Rightarrow> tree_item option \<Rightarrow> tree_item list \<times> tree_provider" where
  "getChildren p element =
     (if \<not> isConnected p then ([connectItem, testItem], p)
      else
        (case element of
           None \<Rightarrow> ([databaseTables, businessViews, managementViews], p)
         | Some el \<Rightarrow>
             if contextValue el = Some ''databaseTablesRoot'' then getCollectionsAsTreeItems p
             else if contextValue el = Some ''businessViewsRoot'' then
               (getBusinessViewsAsTreeItems, p)
             else if contextValue el = Some ''managementViewsRoot'' then
               (getManagementViewsAsTreeItems, p)
             else ([], p)))"

section \<open>The web panel providers\<close>

text \<open>
  A message posted to a web view is an object literal: a list of fields, a field value
  possibly \<open>undefined\<close>, and spread entries \<open>...result\<close> recorded with the value
  that is spread.
\<close>

datatype msg_part = Field string "json option" | Spread json

type_synonym message = "msg_part list"

record webview_panel =
  viewType :: string
  title :: string
  viewColumn :: nat
  visible :: bool
  html :: string
  message_listeners :: nat
  dispose_listeners :: nat
  posted :: "message list"

text \<open>
  The state a provider and its handlers act on: the \<open>_panel\<close> field, the length of
  \<open>context.subscriptions\<close>, the number of panels created so far, the child processes
  launched so far and the messages shown through \<open>vscode.window\<close>.
\<close>

record provider =
  panel :: "webview_panel option"
  subscriptions :: nat
  panels_created :: nat
  launched :: "launch list"
  notifications :: "notification list"

definition provider_new :: provider where
  "provider_new = \<lparr> panel = None, subscriptions = 0, panels_created = 0, launched = [],
     notifications = [] \<rparr>"

text \<open>
  The operating system, as far as the handlers see it: what \<open>exec\<close> reports for a
  launch, given the launches made before it.
\<close>

type_synonym shell = "launch list \<Rightarrow> launch \<Rightarrow> exec_result"

definition createWebviewPanel :: "string \<Rightarrow> string \<Rightarrow> nat \<Rightarrow> webview_panel" where
  "createWebviewPanel vt t column =
     \<lparr> viewType = vt, title = t, viewColumn = column, visible = True, html = [],
       message_listeners = 0, dispose_listeners = 0, posted = [] \<rparr>"

definition reveal :: "nat \<Rightarrow> webview_panel \<Rightarrow> webview_panel" where
  "reveal column p = p\<lparr>viewColumn := column, visible := True\<rparr>"

definition ViewColumn_One :: nat where
  "ViewColumn_One = 1"

subsection \<open>show\<close>

text \<open>
  The five providers (material, dashboard, customer, supplier, data entry) have the same
  \<open>show\<close>; they differ in the view type, the title, and in whether the message
  listener is added to \<open>context.subscriptions\<close> (the supplier provider does not add
  it). \<open>page\<close> is the text \<open>_getHtmlForWebview\<close> returns. The titles read
  "material management", "data analysis dashboard", "customer management", "supplier
  management", "data entry management".
\<close>

record provider_kind =
  kind_viewType :: string
  kind_title :: string
  kind_subscribes_messages :: bool

definition MaterialWebviewProvider :: provider_kind where
  "MaterialWebviewProvider = \<lparr> kind_viewType = ''materialManagement'',
     kind_title = [CHR 0xE7, CHR 0x89, CHR 0xA9, CHR 0xE6, CHR 0x96, CHR 0x99, CHR 0xE7,
          CHR 0xAE, CHR 0xA1, CHR 0xE7, CHR 0x90, CHR 0x86], kind_subscribes_messages = True \<rparr>"


definition CustomerManagementWebviewProvider :: provider_kind where
  "CustomerManagementWebviewProvider = \<lparr> kind_viewType = ''customerManagement'',
     kind_title = [CHR 0xE5, CHR 0xAE, CHR 0xA2, CHR 0xE6, CHR 0x88, CHR 0xB7, CHR 0xE7,
          CHR 0xAE, CHR 0xA1, CHR 0xE7, CHR 0x90, CHR 0x86], kind_subscribes_messages = True \<rparr>"

definition SupplierManagementWebviewProvider :: provider_kind where
  "SupplierManagementWebviewProvider = \<lparr> kind_viewType = ''ims.supplierManagement'',
     kind_title = [CHR 0xE4, CHR 0xBE, CHR 0x9B, CHR 0xE5, CHR 0xBA, CHR 0x94, CHR 0xE5,
          CHR 0x95, CHR 0x86, CHR 0xE7, CHR 0xAE, CHR 0xA1, CHR 0xE7, CHR 0x90,
          CHR 0x86], kind_subscribes_messages = False \<rparr>"

definition DataEntryWebviewProvider :: provider_kind where
  "DataEntryWebviewProvider = \<lparr> kind_viewType = ''imsDataEntry'',
     kind_title = [CHR 0xE6, CHR 0x95, CHR 0xB0, CHR 0xE6, CHR 0x8D, CHR 0xAE, CHR 0xE5,
          CHR 0xBD, CHR 0x95, CHR 0xE5, CHR 0x85, CHR 0xA5, CHR 0xE7, CHR 0xAE,
          CHR 0xA1, CHR 0xE7, CHR 0x90, CHR 0x86], kind_subscribes_messages = True \<rparr>"

definition show_panel :: "provider_kind \<Rightarrow> string \<Rightarrow> provider \<Rightarrow> provider" where
  "show_panel k page s =
     (case panel s of
        Some p \<Rightarrow> s\<lparr>panel := Some (reveal ViewColumn_One p)\<rparr>
      | None \<Rightarrow>
          (let p0 = createWebviewPanel (kind_viewType k) (kind_title k) ViewColumn_One;
               p1 = p0\<lparr>html := page\<rparr>;
               p2 = p1\<lparr>message_listeners := message_listeners p1 + 1\<rparr>;
               p3 = p2\<lparr>dispose_listeners := dispose_listeners p2 + 1\<rparr>
           in s\<lparr>panel := Some p3,
                panels_created := panels_created s + 1,
                subscriptions := subscriptions s
                   + (if kind_subscribes_messages k then 1 else 0) + 1\<rparr>))"

text \<open>The user closes the panel: the dispose listener sets \<open>_panel\<close> to
  \<open>undefined\<close>.\<close>

definition panel_disposed :: "provider \<Rightarrow> provider" where
  "panel_disposed s =
     (case panel s of
        Some p \<Rightarrow> if 0 < dispose_listeners p then s\<lparr>panel := None\<rparr> else s
      | None \<Rightarrow> s)"

definition sendMessage :: "message \<Rightarrow> provider \<Rightarrow> provider" where
  "sendMessage m s =
     (case panel s of
        Some p \<Rightarrow> s\<lparr>panel := Some (p\<lparr>posted := posted p @ [m]\<rparr>)\<rparr>
      | None \<Rightarrow> s)"


definition run_exec :: "shell \<Rightarrow> launch \<Rightarrow> provider \<Rightarrow> exec_result \<times> provider" where
  "run_exec sh l s = (sh (launched s) l, s\<lparr>launched := launched s @ [l]\<rparr>)"

section \<open>dataAnalysisDashboardWebviewProvider.ts\<close>

text \<open>The interpreter: the one of the workspace's virtual environment when it exists,
  else \<open>python\<close>.\<close>

definition dashboard_getPythonCommand :: "host \<Rightarrow> string" where
  "dashboard_getPythonCommand h =
     (case workspacePath h of
        Some ws \<Rightarrow>
          (let venvPython = path_join [ws, ''.venv'', ''Scripts'', ''python.exe'']
           in if fileExists h venvPython then venvPython else ''python'')
      | None \<Rightarrow> ''python'')"

text \<open>The texts read "script execution failed: ", "parsing the script output failed: ",
  "fetching the dashboard data failed: ", "unknown command: ", "an error occurred while
  handling the message: ".\<close>

definition msg_script_failed :: string where
  "msg_script_failed = ([CHR 0xE8, CHR 0x84, CHR 0x9A, CHR 0xE6, CHR 0x9C, CHR 0xAC, CHR 0xE6,
       CHR 0x89, CHR 0xA7, CHR 0xE8, CHR 0xA1, CHR 0x8C, CHR 0xE5, CHR 0xA4,
       CHR 0xB1, CHR 0xE8, CHR 0xB4, CHR 0xA5] @ '': '')"

definition msg_output_parse_failed :: string where
  "msg_output_parse_failed = ([CHR 0xE8, CHR 0xA7, CHR 0xA3, CHR 0xE6, CHR 0x9E, CHR 0x90, CHR 0xE8,
       CHR 0x84, CHR 0x9A, CHR 0xE6, CHR 0x9C, CHR 0xAC, CHR 0xE8, CHR 0xBE,
       CHR 0x93, CHR 0xE5, CHR 0x87, CHR 0xBA, CHR 0xE5, CHR 0xA4, CHR 0xB1,
       CHR 0xE8, CHR 0xB4, CHR 0xA5] @ '': '')"

definition msg_dashboard_failed :: string where
  "msg_dashboard_failed = ([CHR 0xE8, CHR 0x8E, CHR 0xB7, CHR 0xE5, CHR 0x8F, CHR 0x96, CHR 0xE4,
       CHR 0xBB, CHR 0xAA, CHR 0xE8, CHR 0xA1, CHR 0xA8, CHR 0xE6, CHR 0x9D,
       CHR 0xBF, CHR 0xE6, CHR 0x95, CHR 0xB0, CHR 0xE6, CHR 0x8D, CHR 0xAE,
       CHR 0xE5, CHR 0xA4, CHR 0xB1, CHR 0xE8, CHR 0xB4, CHR 0xA5] @ '': '')"

definition msg_unknown_command :: string where
  "msg_unknown_command = ([CHR 0xE6, CHR 0x9C, CHR 0xAA, CHR 0xE7, CHR 0x9F, CHR 0xA5, CHR 0xE5,
       CHR 0x91, CHR 0xBD, CHR 0xE4, CHR 0xBB, CHR 0xA4] @ '': '')"

definition msg_handling_failed :: string where
  "msg_handling_failed = ([CHR 0xE5, CHR 0xA4, CHR 0x84, CHR 0xE7, CHR 0x90, CHR 0x86, CHR 0xE6,
       CHR 0xB6, CHR 0x88, CHR 0xE6, CHR 0x81, CHR 0xAF, CHR 0xE6, CHR 0x97,
       CHR 0xB6, CHR 0xE5, CHR 0x8F, CHR 0x91, CHR 0xE7, CHR 0x94, CHR 0x9F,
       CHR 0xE9, CHR 0x94, CHR 0x99, CHR 0xE8, CHR 0xAF, CHR 0xAF] @ '': '')"

text \<open>
  \<open>_executePythonScript\<close>: one \<open>exec\<close> with a 30 second timeout. The promise is
  rejected (\<open>Inl\<close>) when \<open>exec\<close> reports an error or the output does not parse.
\<close>

definition dashboard_launch ::
    "host \<Rightarrow> (json \<Rightarrow> string) \<Rightarrow> string \<Rightarrow> string \<Rightarrow> json option \<Rightarrow> launch" where
  "dashboard_launch h stringify scriptName method params =
     (let scriptsDir = path_join [extensionPath h, ''scripts''];
          scriptPath = path_join [scriptsDir, scriptName];
          pythonCmd = dashboard_getPythonCommand h;
          paramsStr = (case params of
                         Some v \<Rightarrow> if truthy params then stringify v else ''{}''
                       | None \<Rightarrow> ''{}'');
          cmdArgs = [CHR 0x22] @ scriptPath @ [CHR 0x22] @ '' --method '' @ method
                    @ '' --params '' @ [CHR 0x22] @ paramsStr @ [CHR 0x22];
          dir = (case workspacePath h of Some ws \<Rightarrow> ws | None \<Rightarrow> extensionPath h)
      in \<lparr> program = pythonCmd @ '' '' @ cmdArgs, arguments = [], use_shell = True,
           cwd = Some dir, timeout_ms = Some 30000, env_extra = [] \<rparr>)"

definition dashboard_executePythonScript ::
    "host \<Rightarrow> (json \<Rightarrow> string) \<Rightarrow> (string \<Rightarrow> string + json) \<Rightarrow> shell \<Rightarrow>
     string \<Rightarrow> string \<Rightarrow> json option \<Rightarrow> provider \<Rightarrow> (js_error + json) \<times> provider" where
  "dashboard_executePythonScript h stringify parse sh scriptName method params s =
     (let (r, s') = run_exec sh (dashboard_launch h stringify scriptName method params) s
      in case exec_error r of
           Some m \<Rightarrow> (Inl (JsError ''Error'' (msg_script_failed @ m)), s')
         | None \<Rightarrow>
             (case parse (exec_stdout r) of
                Inr result \<Rightarrow> (Inr result, s')
              | Inl parseError \<Rightarrow>
                  (Inl (JsError ''Error''
                     (msg_output_parse_failed @ error_text (JsError ''SyntaxError'' parseError))),
                   s')))"

definition dashboard_getDashboardData ::
    "host \<Rightarrow> (json \<Rightarrow> string) \<Rightarrow> (string \<Rightarrow> string + json) \<Rightarrow> shell \<Rightarrow>
     json option \<Rightarrow> provider \<Rightarrow> provider" where
  "dashboard_getDashboardData h stringify parse sh params s =
     (case dashboard_executePythonScript h stringify parse sh
             ''data_analysis_service.py'' ''get_dashboard_data'' params s of
        (Inr result, s') \<Rightarrow>
          sendMessage [Field ''command'' (Some (JStr ''dashboardData'')),
                       Field ''data'' (Some result)] s'
      | (Inl error, s') \<Rightarrow>
          sendMessage [Field ''command'' (Some (JStr ''error'')),
                       Field ''error'' (Some (JObj
                         [(''message'', JStr (msg_dashboard_failed @ error_message error))]))]
            s')"

text \<open>
  \<open>_handleMessage\<close>: destructuring a message that is \<open>null\<close> or \<open>undefined\<close>
  throws, and so does the conversion of an unknown command to text; the \<open>catch\<close> block
  reports either to the web view.
\<close>

definition destructure :: "json option \<Rightarrow> string \<Rightarrow> js_error + (string \<Rightarrow> json option)" where
  "destructure message first_key =
     (case message of
        None \<Rightarrow> Inl (JsError ''TypeError''
          (''Cannot destructure property '' @ first_key @ '' of message as it is undefined.''))
      | Some JNull \<Rightarrow> Inl (JsError ''TypeError''
          (''Cannot destructure property '' @ first_key @ '' of message as it is null.''))
      | Some (JObj kv) \<Rightarrow> Inr (map_of kv)
      | Some other \<Rightarrow> Inr (\<lambda>k. None))"

definition dashboard_handleMessage ::
    "host \<Rightarrow> (json \<Rightarrow> string) \<Rightarrow> (string \<Rightarrow> string + json) \<Rightarrow> shell \<Rightarrow>
     json option \<Rightarrow> provider \<Rightarrow> provider" where
  "dashboard_handleMessage h stringify parse sh message s =
     (case destructure message ''command'' of
        Inl error \<Rightarrow>
          sendMessage [Field ''command'' (Some (JStr ''error'')),
                       Field ''error'' (Some (JObj
                         [(''message'', JStr (msg_handling_failed @ error_message error))]))] s
      | Inr get \<Rightarrow>
          if get ''command'' = Some (JStr ''getDashboardData'') then
            dashboard_getDashboardData h stringify parse sh (get ''params'') s
          else
            (case js_string_opt (get ''command'') of
               Some text \<Rightarrow>
                 sendMessage [Field ''command'' (Some (JStr ''error'')),
                              Field ''error'' (Some (JObj
                                [(''message'', JStr (msg_unknown_command @ text))]))] s
             | None \<Rightarrow>
                 sendMessage [Field ''command'' (Some (JStr ''error'')),
                              Field ''error'' (Some (JObj
                                [(''message'', JStr (msg_handling_failed
                                                      @ error_message cannot_convert))]))] s))"

subsection \<open>loadBusinessViewData (extension.ts)\<close>

text \<open>Optional chaining \<open>params?.key\<close>.\<close>

definition opt_chain :: "json option \<Rightarrow> string \<Rightarrow> json option" where
  "opt_chain params key =
     (case params of
        None \<Rightarrow> None
      | Some JNull \<Rightarrow> None
      | Some (JObj kv) \<Rightarrow> map_of kv key
      | Some other \<Rightarrow> None)"

text \<open>\<open>if (params?.key) { args.push(flag, params.key); }\<close>\<close>

definition push_if :: "json option \<Rightarrow> string \<Rightarrow> string \<Rightarrow> json list" where
  "push_if params key flag =
     (case opt_chain params key of
        Some v \<Rightarrow> if truthy (Some v) then [JStr flag, v] else []
      | None \<Rightarrow> [])"

text \<open>
  The \<open>switch\<close> on the view name: the script and its arguments, or \<open>None\<close> in the
  \<open>default\<close> case. The names are those of the seven report views: supplier
  reconciliation, customer statement, inventory count report, sales report, purchase
  report, receivables, payables.
\<close>

definition view_script :: "string \<Rightarrow> json option \<Rightarrow> (string \<times> json list) option" where
  "view_script viewName params =
     (if viewName = [CHR 0xE4, CHR 0xBE, CHR 0x9B, CHR 0xE5, CHR 0xBA, CHR 0x94, CHR 0xE5,
          CHR 0x95, CHR 0x86, CHR 0xE5, CHR 0xAF, CHR 0xB9, CHR 0xE8, CHR 0xB4,
          CHR 0xA6, CHR 0xE8, CHR 0xA1, CHR 0xA8] then
        Some (''business_view_supplier_reconciliation.py'',
              push_if params ''startDate'' ''--start_date''
              @ push_if params ''endDate'' ''--end_date''
              @ push_if params ''supplierName'' ''--supplier_name''
              @ [JStr ''--format'', JStr ''json''])
      else if viewName = [CHR 0xE5, CHR 0xAE, CHR 0xA2, CHR 0xE6, CHR 0x88, CHR 0xB7, CHR 0xE5,
           CHR 0xAF, CHR 0xB9, CHR 0xE8, CHR 0xB4, CHR 0xA6, CHR 0xE5, CHR 0x8D,
           CHR 0x95] then
        Some (''business_view_customer_reconciliation.py'',
              push_if params ''startDate'' ''--start_date''
              @ push_if params ''endDate'' ''--end_date''
              @ push_if params ''customerName'' ''--customer_name''
              @ [JStr ''--format'', JStr ''json''])
      else if viewName = [CHR 0xE5, CHR 0xBA, CHR 0x93, CHR 0xE5, CHR 0xAD, CHR 0x98, CHR 0xE7,
           CHR 0x9B, CHR 0x98, CHR 0xE7, CHR 0x82, CHR 0xB9, CHR 0xE6, CHR 0x8A,
           CHR 0xA5, CHR 0xE8, CHR 0xA1, CHR 0xA8] then
        Some (''business_view_inventory_report.py'',
              push_if params ''startDate'' ''--start_date''
              @ push_if params ''endDate'' ''--end_date''
              @ push_if params ''productName'' ''--product_name''
              @ [JStr ''--format'', JStr ''json''])
      else if viewName = [CHR 0xE9, CHR 0x94, CHR 0x80, CHR 0xE5, CHR 0x94, CHR 0xAE, CHR 0xE7,
           CHR 0xBB, CHR 0x9F, CHR 0xE8, CHR 0xAE, CHR 0xA1, CHR 0xE6, CHR 0x8A,
           CHR 0xA5, CHR 0xE8, CHR 0xA1, CHR 0xA8] then
        Some (''business_view_sales_report.py'',
              push_if params ''startDate'' ''--start_date''
              @ push_if params ''endDate'' ''--end_date''
              @ push_if params ''customerName'' ''--customer_name''
              @ push_if params ''productName'' ''--product_name''
              @ [JStr ''--format'', JStr ''json''])
      else if viewName = [CHR 0xE9, CHR 0x87, CHR 0x87, CHR 0xE8, CHR 0xB4, CHR 0xAD, CHR 0xE7,
           CHR 0xBB, CHR 0x9F, CHR 0xE8, CHR 0xAE, CHR 0xA1, CHR 0xE6, CHR 0x8A,
           CHR 0xA5, CHR 0xE8, CHR 0xA1, CHR 0xA8] then
        Some (''business_view_purchase_report.py'',
              push_if params ''startDate'' ''--start_date''
              @ push_if params ''endDate'' ''--end_date''
              @ push_if params ''supplierName'' ''--supplier_name''
              @ push_if params ''productName'' ''--product_name''
              @ [JStr ''--format'', JStr ''json''])
      else if viewName = [CHR 0xE5, CHR 0xBA, CHR 0x94, CHR 0xE6, CHR 0x94, CHR 0xB6, CHR 0xE8,
           CHR 0xB4, CHR 0xA6, CHR 0xE6, CHR 0xAC, CHR 0xBE, CHR 0xE7, CHR 0xBB,
           CHR 0x9F, CHR 0xE8, CHR 0xAE, CHR 0xA1] then
        Some (''business_view_receivables_report.py'',
              push_if params ''startDate'' ''--start_date''
              @ push_if params ''endDate'' ''--end_date''
              @ push_if params ''customerName'' ''--customer_name''
              @ [JStr ''--format'', JStr ''summary''])
      else if viewName = [CHR 0xE5, CHR 0xBA, CHR 0x94, CHR 0xE4, CHR 0xBB, CHR 0x98, CHR 0xE8,
           CHR 0xB4, CHR 0xA6, CHR 0xE6, CHR 0xAC, CHR 0xBE, CHR 0xE7, CHR 0xBB,
           CHR 0x9F, CHR 0xE8, CHR 0xAE, CHR 0xA1] then
        Some (''business_view_payables_report.py'',
              push_if params ''startDate'' ''--start_date''
              @ push_if params ''endDate'' ''--end_date''
              @ push_if params ''supplierName'' ''--supplier_name''
              @ [JStr ''--format'', JStr ''summary''])
      else None)"

text \<open>The texts read "unsupported business view: ", "cannot start the business view
  script: ", "parsing the data failed: ", "raw output: ", "generating the business view
  failed: ".\<close>

definition msg_view_unsupported :: string where
  "msg_view_unsupported = ([CHR 0xE4, CHR 0xB8, CHR 0x8D, CHR 0xE6, CHR 0x94, CHR 0xAF, CHR 0xE6,
       CHR 0x8C, CHR 0x81, CHR 0xE7, CHR 0x9A, CHR 0x84, CHR 0xE4, CHR 0xB8,
       CHR 0x9A, CHR 0xE5, CHR 0x8A, CHR 0xA1, CHR 0xE8, CHR 0xA7, CHR 0x86,
       CHR 0xE5, CHR 0x9B, CHR 0xBE] @ '': '')"

definition msg_view_cannot_start :: string where
  "msg_view_cannot_start = ([CHR 0xE6, CHR 0x97, CHR 0xA0, CHR 0xE6, CHR 0xB3, CHR 0x95, CHR 0xE5,
       CHR 0x90, CHR 0xAF, CHR 0xE5, CHR 0x8A, CHR 0xA8, CHR 0xE4, CHR 0xB8,
       CHR 0x9A, CHR 0xE5, CHR 0x8A, CHR 0xA1, CHR 0xE8, CHR 0xA7, CHR 0x86,
       CHR 0xE5, CHR 0x9B, CHR 0xBE, CHR 0xE8, CHR 0x84, CHR 0x9A, CHR 0xE6,
       CHR 0x9C, CHR 0xAC] @ '': '')"

definition msg_view_parse_failed :: string where
  "msg_view_parse_failed = ([CHR 0xE6, CHR 0x95, CHR 0xB0, CHR 0xE6, CHR 0x8D, CHR 0xAE, CHR 0xE8,
       CHR 0xA7, CHR 0xA3, CHR 0xE6, CHR 0x9E, CHR 0x90, CHR 0xE5, CHR 0xA4,
       CHR 0xB1, CHR 0xE8, CHR 0xB4, CHR 0xA5] @ '': '')"

definition msg_view_raw_output :: string where
  "msg_view_raw_output = [CHR 0x0A] @ ([CHR 0xE5, CHR 0x8E, CHR 0x9F, CHR 0xE5, CHR 0xA7, CHR 0x8B, CHR 0xE8,
       CHR 0xBE, CHR 0x93, CHR 0xE5, CHR 0x87, CHR 0xBA] @ '': '')"

definition msg_view_failed :: string where
  "msg_view_failed = ([CHR 0xE4, CHR 0xB8, CHR 0x9A, CHR 0xE5, CHR 0x8A, CHR 0xA1, CHR 0xE8,
       CHR 0xA7, CHR 0x86, CHR 0xE5, CHR 0x9B, CHR 0xBE, CHR 0xE7, CHR 0x94,
       CHR 0x9F, CHR 0xE6, CHR 0x88, CHR 0x90, CHR 0xE5, CHR 0xA4, CHR 0xB1,
       CHR 0xE8, CHR 0xB4, CHR 0xA5] @ '': '')"

text \<open>The listeners of the spawned process; each posts to the panel's web view.\<close>

record view_load =
  dataOutput :: string
  view_errorOutput :: string
  view_posted :: "message list"

definition view_post :: "message \<Rightarrow> view_load \<Rightarrow> view_load" where
  "view_post m s = s\<lparr>view_posted := view_posted s @ [m]\<rparr>"

fun view_on_event :: "(string \<Rightarrow> string + json) \<Rightarrow> view_load \<Rightarrow> proc_event \<Rightarrow> view_load" where
  "view_on_event parse s (StdoutData d) = s\<lparr>dataOutput := dataOutput s @ d\<rparr>"
| "view_on_event parse s (StderrData d) = s\<lparr>view_errorOutput := view_errorOutput s @ d\<rparr>"
| "view_on_event parse s (ErrorEvent m) =
     view_post [Field ''command'' (Some (JStr ''error'')),
                Field ''data'' (Some (JStr (msg_view_cannot_start @ m)))] s"
| "view_on_event parse s (CloseEvent code) =
     (let s1 = view_post [Field ''command'' (Some (JStr ''loading'')),
                          Field ''data'' (Some (JBool False))] s
      in if code = Some 0 then
           (case parse (trim (dataOutput s1)) of
              Inr jsonData \<Rightarrow>
                view_post [Field ''command'' (Some (JStr ''data'')),
                           Field ''data'' (Some jsonData)] s1
            | Inl e \<Rightarrow>
                view_post [Field ''command'' (Some (JStr ''error'')),
                           Field ''data'' (Some (JStr
                             (msg_view_parse_failed @ error_text (JsError ''SyntaxError'' e)
                              @ msg_view_raw_output @ dataOutput s1)))] s1)
         else
           view_post [Field ''command'' (Some (JStr ''error'')),
                      Field ''data'' (Some (JStr
                        (msg_view_failed @
                           (if view_errorOutput s1 \<noteq> [] then view_errorOutput s1
                            else msg_unknown_error))))] s1)"

text \<open>
  The whole function: what it posts and the process it spawns (if any), for the events
  the process then delivers. The arguments go to \<open>spawn\<close> as the \<open>switch\<close> collected
  them.
\<close>

record view_result =
  result_posted :: "message list"
  result_launch :: "launch option"

definition loadBusinessViewData ::
    "host \<Rightarrow> (string \<Rightarrow> string + json) \<Rightarrow> string \<Rightarrow> json option \<Rightarrow> proc_event list
     \<Rightarrow> view_result" where
  "loadBusinessViewData h parse viewName params evs =
     (case view_script viewName params of
        None \<Rightarrow>
          \<lparr> result_posted = [[Field ''command'' (Some (JStr ''error'')),
                               Field ''data'' (Some (JStr (msg_view_unsupported @ viewName)))]],
            result_launch = None \<rparr>
      | Some (script, args) \<Rightarrow>
          (let loading = [Field ''command'' (Some (JStr ''loading'')),
                          Field ''data'' (Some (JBool True))];
               scriptPath = path_join [path_join [extensionPath h, ''scripts''], script];
               pythonCmd = getPythonCommand h;
               wsPath = (case workspacePath h of Some p \<Rightarrow> p | None \<Rightarrow> [])
           in \<lparr> result_posted =
                  view_posted (foldl (view_on_event parse)
                    \<lparr> dataOutput = [], view_errorOutput = [], view_posted = [loading] \<rparr> evs),
                result_launch = Some
                  \<lparr> program = pythonCmd, arguments = map Some (JStr scriptPath # args),
                    use_shell = False, cwd = None, timeout_ms = None,
                    env_extra = [(''PYTHONIOENCODING'', ''utf-8''),
                                 (''IMS_WORKSPACE_PATH'', wsPath)] \<rparr> \<rparr>))"





section \<open>supplierManagementWebviewProvider.ts\<close>

text \<open>
  A handler either completes or throws; the provider it leaves behind is returned in both
  cases.
\<close>

type_synonym handled = "js_error option \<times> provider"

text \<open>The text reads "running the supplier management script failed: ".\<close>

definition msg_supplier_failed :: string where
  "msg_supplier_failed = ([CHR 0xE6, CHR 0x89, CHR 0xA7, CHR 0xE8, CHR 0xA1, CHR 0x8C, CHR 0xE4,
       CHR 0xBE, CHR 0x9B, CHR 0xE5, CHR 0xBA, CHR 0x94, CHR 0xE5, CHR 0x95,
       CHR 0x86, CHR 0xE7, CHR 0xAE, CHR 0xA1, CHR 0xE7, CHR 0x90, CHR 0x86,
       CHR 0xE8, CHR 0x84, CHR 0x9A, CHR 0xE6, CHR 0x9C, CHR 0xAC, CHR 0xE5,
       CHR 0xA4, CHR 0xB1, CHR 0xE8, CHR 0xB4, CHR 0xA5] @ '': '')"

definition showError :: "string \<Rightarrow> provider \<Rightarrow> provider" where
  "showError m s = s\<lparr>notifications := notifications s @ [ErrorMessage m]\<rparr>"

fun join_space :: "string list \<Rightarrow> string" where
  "join_space [] = []"
| "join_space [s] = s"
| "join_space (s # ss) = s @ '' '' @ join_space ss"

text \<open>
  \<open>_executePythonScript(command: string, args: (string | number)[])\<close>: one
  \<open>execAsync\<close>, without a \<open>timeout\<close> option. On arguments of the declared type it
  never throws: a failure of the command or of \<open>JSON.parse\<close> is shown and turned into
  the object \<open>{success: false, message: ...}\<close>. The arguments are passed through
  \<open>String\<close>.
\<close>

datatype script_arg = ArgString string | ArgNumber int

fun String_arg :: "script_arg \<Rightarrow> string" where
  "String_arg (ArgString s) = s"
| "String_arg (ArgNumber n) = show_int n"

definition supplier_launch :: "host \<Rightarrow> string \<Rightarrow> script_arg list \<Rightarrow> launch" where
  "supplier_launch h command args =
     (let scriptPath = path_join [extensionPath h, ''scripts'', ''supplier_management.py''];
          commandArgs = command # map String_arg args;
          pythonCommand = ''python '' @ [CHR 0x22] @ scriptPath @ [CHR 0x22] @ '' ''
                          @ join_space commandArgs
      in \<lparr> program = pythonCommand, arguments = [], use_shell = True,
           cwd = Some (extensionPath h), timeout_ms = None,
           env_extra = [(''PYTHONIOENCODING'', ''utf-8'')] \<rparr>)"

definition script_error_object :: "js_error \<Rightarrow> json" where
  "script_error_object error =
     JObj [(''success'', JBool False),
           (''message'', JStr (''Failed to execute script: '' @ error_text error))]"

definition supplier_executePythonScript ::
    "host \<Rightarrow> (string \<Rightarrow> string + json) \<Rightarrow> shell \<Rightarrow> string \<Rightarrow> script_arg list \<Rightarrow> provider
     \<Rightarrow> json \<times> provider" where
  "supplier_executePythonScript h parse sh command args s =
     (let (r, s') = run_exec sh (supplier_launch h command args) s
      in case exec_error r of
           Some m \<Rightarrow>
             (script_error_object (JsError ''Error'' m),
              showError (msg_supplier_failed @ error_text (JsError ''Error'' m)) s')
         | None \<Rightarrow>
             (case parse (trim (exec_stdout r)) of
                Inr v \<Rightarrow> (v, s')
              | Inl e \<Rightarrow>
                  (script_error_object (JsError ''SyntaxError'' e),
                   showError (msg_supplier_failed @ error_text (JsError ''SyntaxError'' e)) s')))"

text \<open>
  The call as \<open>_handleMessage\<close> makes it, with the fields of a message, which are of any
  type. \<open>args.map(String)\<close> stands before the \<open>try\<close> block: when the conversion of an
  argument throws, the function throws (\<open>Inl\<close>) and nothing is launched and nothing
  shown. Otherwise each argument enters the command line as the text \<open>String\<close> gives.
\<close>

definition supplier_executePythonScript_any ::
    "host \<Rightarrow> (string \<Rightarrow> string + json) \<Rightarrow> shell \<Rightarrow> string \<Rightarrow> json option list \<Rightarrow> provider
     \<Rightarrow> (js_error + json) \<times> provider" where
  "supplier_executePythonScript_any h parse sh command args s =
     (case those (map js_string_opt args) of
        None \<Rightarrow> (Inl cannot_convert, s)
      | Some strs \<Rightarrow>
          (let (result, s') = supplier_executePythonScript h parse sh command
                                (map ArgString strs) s
           in (Inr result, s')))"

text \<open>\<open>x.toString()\<close> throws on \<open>null\<close> and \<open>undefined\<close>, and on an object whose
  \<open>toString\<close> is not a function.\<close>

definition to_string_method :: "json option \<Rightarrow> js_error + string" where
  "to_string_method v =
     (case v of
        None \<Rightarrow> Inl (JsError ''TypeError''
                   ''Cannot read properties of undefined (reading toString)'')
      | Some JNull \<Rightarrow> Inl (JsError ''TypeError''
                   ''Cannot read properties of null (reading toString)'')
      | Some j \<Rightarrow>
          (case js_string j of
             Some text \<Rightarrow> Inr text
           | None \<Rightarrow> Inl (JsError ''TypeError'' ''toString is not a function'')))"

text \<open>\<open>JSON.stringify\<close> of a value that may be \<open>undefined\<close>.\<close>

definition stringify_opt :: "(json \<Rightarrow> string) \<Rightarrow> json option \<Rightarrow> json option" where
  "stringify_opt stringify v = (case v of None \<Rightarrow> None | Some j \<Rightarrow> Some (JStr (stringify j)))"

text \<open>
  The argument list of a modifying command: \<open>[id, JSON.stringify(data)]\<close> for add and
  update, else \<open>[JSON.stringify(ids)]\<close>; then \<open>splice(0, 1, id)\<close> for delete and
  \<open>shift()\<close> for add.
\<close>

definition supplier_args ::
    "(json \<Rightarrow> string) \<Rightarrow> string \<Rightarrow> (string \<Rightarrow> json option) \<Rightarrow> json option list" where
  "supplier_args stringify command get =
     (let args0 = (if command = ''add'' \<or> command = ''update''
                   then [get ''id'', stringify_opt stringify (get ''data'')]
                   else [stringify_opt stringify (get ''ids'')]);
          args1 = (if command = ''delete'' then get ''id'' # tl args0 else args0);
          args2 = (if command = ''add'' then tl args1 else args1)
      in args2)"

definition supplier_handleMessage ::
    "host \<Rightarrow> (json \<Rightarrow> string) \<Rightarrow> (string \<Rightarrow> string + json) \<Rightarrow> shell \<Rightarrow> json option
     \<Rightarrow> provider \<Rightarrow> handled" where
  "supplier_handleMessage h stringify parse sh message s =
     (case destructure message ''command'' of
        Inl error \<Rightarrow> (Some error, s)
      | Inr get \<Rightarrow>
          if get ''command'' = Some (JStr ''list'') then
            (case to_string_method (get ''page'') of
               Inl error \<Rightarrow> (Some error, s)
             | Inr page \<Rightarrow>
                 (case to_string_method (get ''limit'') of
                    Inl error \<Rightarrow> (Some error, s)
                  | Inr limit \<Rightarrow>
                      (let searchQuery = (if truthy (get ''searchQuery'') then get ''searchQuery''
                                          else Some (JStr []))
                       in case supplier_executePythonScript_any h parse sh ''list''
                                 [Some (JStr page), Some (JStr limit), searchQuery] s of
                            (Inl error, s1) \<Rightarrow> (Some error, s1)
                          | (Inr result, s1) \<Rightarrow>
                              (None, sendMessage [Field ''command'' (Some (JStr ''updateList'')),
                                                  Field ''data'' (Some result)] s1))))
          else if get ''command'' \<in> {Some (JStr ''add''), Some (JStr ''update''),
                                       Some (JStr ''delete''), Some (JStr ''batch_delete'')} then
            (let command = (case get ''command'' of Some (JStr c) \<Rightarrow> c | other \<Rightarrow> []);
                 args = supplier_args stringify command get
             in case supplier_executePythonScript_any h parse sh command args s of
                  (Inl error, s1) \<Rightarrow> (Some error, s1)
                | (Inr ignored, s1) \<Rightarrow>
                    (let (listResult, s2) = supplier_executePythonScript h parse sh ''list''
                            [ArgString ''1'', ArgString ''10'', ArgString []] s1
                     in (None, sendMessage [Field ''command'' (Some (JStr ''updateList'')),
                                            Field ''data'' (Some listResult)] s2)))
          else
            (case js_string_opt (get ''command'') of
               None \<Rightarrow> (Some cannot_convert, s)
             | Some text \<Rightarrow>
                 (None, sendMessage [Field ''command'' (Some (JStr ''error'')),
                                     Field ''message'' (Some (JStr
                                       (''Unknown command: '' @ text)))] s)))"

section \<open>customerManagementWebviewProvider.ts\<close>

text \<open>
  \<open>_executePythonScript\<close>: throws when there is no workspace folder; otherwise one
  \<open>execAsync\<close> without a \<open>timeout\<close> option, whose failure (or that of
  \<open>JSON.parse\<close>) is turned into \<open>{success: false, message: ...}\<close>.
\<close>

definition customer_launch :: "string \<Rightarrow> (json \<Rightarrow> string) \<Rightarrow> string \<Rightarrow> json option \<Rightarrow> launch" where
  "customer_launch ws stringify operation data =
     (let scriptPath = path_join [ws, ''scripts'', ''customer_management.py''];
          dataString = (case data of
                          Some d \<Rightarrow> if truthy data
                                    then '' --data '' @ [CHR 0x27] @ stringify d @ [CHR 0x27]
                                    else []
                        | None \<Rightarrow> []);
          command = ''python '' @ [CHR 0x22] @ scriptPath @ [CHR 0x22] @ '' --operation ''
                    @ operation @ dataString
      in \<lparr> program = command, arguments = [], use_shell = True, cwd = Some ws,
           timeout_ms = None, env_extra = [(''PYTHONIOENCODING'', ''utf-8'')] \<rparr>)"

definition customer_executePythonScript ::
    "host \<Rightarrow> (json \<Rightarrow> string) \<Rightarrow> (string \<Rightarrow> string + json) \<Rightarrow> shell \<Rightarrow> string \<Rightarrow> json option
     \<Rightarrow> provider \<Rightarrow> (js_error + json) \<times> provider" where
  "customer_executePythonScript h stringify parse sh operation data s =
     (case workspacePath h of
        None \<Rightarrow> (Inl (JsError ''Error'' ''Workspace folder not found''), s)
      | Some ws \<Rightarrow>
          (let (r, s') = run_exec sh (customer_launch ws stringify operation data) s
           in case exec_error r of
                Some m \<Rightarrow> (Inr (script_error_object (JsError ''Error'' m)), s')
              | None \<Rightarrow>
                  (case parse (trim (exec_stdout r)) of
                     Inr v \<Rightarrow> (Inr v, s')
                   | Inl e \<Rightarrow> (Inr (script_error_object (JsError ''SyntaxError'' e)), s'))))"

definition customer_loadCustomers ::
    "host \<Rightarrow> (json \<Rightarrow> string) \<Rightarrow> (string \<Rightarrow> string + json) \<Rightarrow> shell \<Rightarrow> json option
     \<Rightarrow> provider \<Rightarrow> handled" where
  "customer_loadCustomers h stringify parse sh data s =
     (case customer_executePythonScript h stringify parse sh ''list'' data s of
        (Inl error, s') \<Rightarrow> (Some error, s')
      | (Inr result, s') \<Rightarrow>
          (None, sendMessage [Field ''command'' (Some (JStr ''customersLoaded'')),
                              Spread result] s'))"

text \<open>
  The four modifying handlers (\<open>_addCustomer\<close>, \<open>_updateCustomer\<close>,
  \<open>_deleteCustomer\<close>, \<open>_batchDeleteCustomers\<close>) have one body: run the operation,
  post its result under the handler's command name, and reload the list when
  \<open>result.success\<close> is truthy.
\<close>

definition customer_modify ::
    "host \<Rightarrow> (json \<Rightarrow> string) \<Rightarrow> (string \<Rightarrow> string + json) \<Rightarrow> shell \<Rightarrow> string \<Rightarrow> string
     \<Rightarrow> json option \<Rightarrow> provider \<Rightarrow> handled" where
  "customer_modify h stringify parse sh operation posted_as data s =
     (case customer_executePythonScript h stringify parse sh operation data s of
        (Inl error, s') \<Rightarrow> (Some error, s')
      | (Inr result, s') \<Rightarrow>
          (let s1 = sendMessage [Field ''command'' (Some (JStr posted_as)), Spread result] s'
           in case member result ''success'' of
                Inl e \<Rightarrow> (Some (JsError ''TypeError'' e), s1)
              | Inr success \<Rightarrow>
                  if truthy success
                  then customer_loadCustomers h stringify parse sh (Some (JObj [])) s1
                  else (None, s1)))"

definition customer_addCustomer ::
    "host \<Rightarrow> (json \<Rightarrow> string) \<Rightarrow> (string \<Rightarrow> string + json) \<Rightarrow> shell \<Rightarrow> json option
     \<Rightarrow> provider \<Rightarrow> handled" where
  "customer_addCustomer h stringify parse sh data s =
     customer_modify h stringify parse sh ''add'' ''customerAdded'' data s"

definition customer_updateCustomer ::
    "host \<Rightarrow> (json \<Rightarrow> string) \<Rightarrow> (string \<Rightarrow> string + json) \<Rightarrow> shell \<Rightarrow> json option
     \<Rightarrow> provider \<Rightarrow> handled" where
  "customer_updateCustomer h stringify parse sh data s =
     customer_modify h stringify parse sh ''update'' ''customerUpdated'' data s"

definition customer_deleteCustomer ::
    "host \<Rightarrow> (json \<Rightarrow> string) \<Rightarrow> (string \<Rightarrow> string + json) \<Rightarrow> shell \<Rightarrow> json option
     \<Rightarrow> provider \<Rightarrow> handled" where
  "customer_deleteCustomer h stringify parse sh data s =
     customer_modify h stringify parse sh ''delete'' ''customerDeleted'' data s"

definition customer_batchDeleteCustomers ::
    "host \<Rightarrow> (json \<Rightarrow> string) \<Rightarrow> (string \<Rightarrow> string + json) \<Rightarrow> shell \<Rightarrow> json option
     \<Rightarrow> provider \<Rightarrow> handled" where
  "customer_batchDeleteCustomers h stringify parse sh data s =
     customer_modify h stringify parse sh ''batch_delete'' ''customersBatchDeleted'' data s"

definition customer_handleMessage ::
    "host \<Rightarrow> (json \<Rightarrow> string) \<Rightarrow> (string \<Rightarrow> string + json) \<Rightarrow> shell \<Rightarrow> json option
     \<Rightarrow> provider \<Rightarrow> handled" where
  "customer_handleMessage h stringify parse sh message s =
     (case destructure message ''command'' of
        Inl error \<Rightarrow> (Some error, s)
      | Inr get \<Rightarrow>
          if get ''command'' = Some (JStr ''loadCustomers'') then
            customer_loadCustomers h stringify parse sh (get ''data'') s
          else if get ''command'' = Some (JStr ''addCustomer'') then
            customer_addCustomer h stringify parse sh (get ''data'') s
          else if get ''command'' = Some (JStr ''updateCustomer'') then
            customer_updateCustomer h stringify parse sh (get ''data'') s
          else if get ''command'' = Some (JStr ''deleteCustomer'') then
            customer_deleteCustomer h stringify parse sh (get ''data'') s
          else if get ''command'' = Some (JStr ''batchDeleteCustomers'') then
            customer_batchDeleteCustomers h stringify parse sh (get ''data'') s
          else
            (case js_string_opt (get ''command'') of
               None \<Rightarrow> (Some cannot_convert, s)
             | Some text \<Rightarrow>
                 (None, sendMessage [Field ''command'' (Some (JStr ''error'')),
                                     Field ''message'' (Some (JStr
                                       (''Unknown command: '' @ text)))] s)))"

section \<open>materialWebviewProvider.ts\<close>

text \<open>The texts read "workspace folder not found" and "the Python script returned no
  data".\<close>

definition msg_no_workspace :: string where
  "msg_no_workspace = [CHR 0xE6, CHR 0x9C, CHR 0xAA, CHR 0xE6, CHR 0x89, CHR 0xBE, CHR 0xE5,
       CHR 0x88, CHR 0xB0, CHR 0xE5, CHR 0xB7, CHR 0xA5, CHR 0xE4, CHR 0xBD,
       CHR 0x9C, CHR 0xE5, CHR 0x8C, CHR 0xBA, CHR 0xE6, CHR 0x96, CHR 0x87,
       CHR 0xE4, CHR 0xBB, CHR 0xB6, CHR 0xE5, CHR 0xA4, CHR 0xB9]"

definition msg_no_output :: string where
  "msg_no_output = (''Python'' @ [CHR 0xE8, CHR 0x84, CHR 0x9A, CHR 0xE6, CHR 0x9C, CHR 0xAC, CHR 0xE6,
       CHR 0xB2, CHR 0xA1, CHR 0xE6, CHR 0x9C, CHR 0x89, CHR 0xE8, CHR 0xBF,
       CHR 0x94, CHR 0xE5, CHR 0x9B, CHR 0x9E, CHR 0xE6, CHR 0x95, CHR 0xB0,
       CHR 0xE6, CHR 0x8D, CHR 0xAE])"

text \<open>\<open>.replace(/"/g, '\\"')\<close>: a backslash before every double quote.\<close>

definition escape_quotes :: "string \<Rightarrow> string" where
  "escape_quotes text =
     concat (map (\<lambda>c. if c = CHR 0x22 then [CHR 0x5C, CHR 0x22] else [c]) text)"

text \<open>
  \<open>_executePythonScript\<close>: throws when there is no workspace folder; otherwise one
  \<open>execAsync\<close> with a 30 second timeout. Every failure (of the command, empty output,
  \<open>JSON.parse\<close>) is logged and thrown again.
\<close>

definition material_launch :: "string \<Rightarrow> (json \<Rightarrow> string) \<Rightarrow> string \<Rightarrow> json option \<Rightarrow> launch" where
  "material_launch ws stringify command data =
     (let scriptPath = path_join [ws, ''scripts'', ''material_web_handler.py''];
          cmd0 = ''python '' @ [CHR 0x22] @ scriptPath @ [CHR 0x22] @ '' ''
                 @ [CHR 0x22] @ command @ [CHR 0x22];
          cmd = (case data of
                   Some d \<Rightarrow> if truthy data
                             then cmd0 @ '' '' @ [CHR 0x22] @ escape_quotes (stringify d)
                                  @ [CHR 0x22]
                             else cmd0
                 | None \<Rightarrow> cmd0)
      in \<lparr> program = cmd, arguments = [], use_shell = True, cwd = Some ws,
           timeout_ms = Some 30000, env_extra = [] \<rparr>)"

definition material_executePythonScript ::
    "host \<Rightarrow> (json \<Rightarrow> string) \<Rightarrow> (string \<Rightarrow> string + json) \<Rightarrow> shell \<Rightarrow> string \<Rightarrow> json option
     \<Rightarrow> provider \<Rightarrow> (js_error + json) \<times> provider" where
  "material_executePythonScript h stringify parse sh command data s =
     (case workspacePath h of
        None \<Rightarrow> (Inl (JsError ''Error'' msg_no_workspace), s)
      | Some ws \<Rightarrow>
          (let (r, s') = run_exec sh (material_launch ws stringify command data) s
           in case exec_error r of
                Some m \<Rightarrow> (Inl (JsError ''Error'' m), s')
              | None \<Rightarrow>
                  if trim (exec_stdout r) = [] then (Inl (JsError ''Error'' msg_no_output), s')
                  else
                    (case parse (trim (exec_stdout r)) of
                       Inr v \<Rightarrow> (Inr v, s')
                     | Inl e \<Rightarrow> (Inl (JsError ''SyntaxError'' e), s'))))"

section \<open>The actions of the user\<close>

text \<open>
  A user acts on the extension through a command of the command palette (or of a tree
  item or a context menu) and through the web views, whose pages post messages. This
  section follows every registered command and every message listener down to the helper
  processes it starts. For the functions of \<open>extension.ts\<close> and for the handlers of the
  material and the data entry provider it records the processes started and what decides
  whether a further one is started; what these functions post to the web view or show in
  a notification does not decide it and is left out. A panel is taken to be open while
  its message is handled, and the host to let the output directory be created.
\<close>

text \<open>
  The operating system, as far as \<open>spawn\<close> shows it: what the process of a launch
  delivers, given the launches made before it.
\<close>

type_synonym spawner = "launch list \<Rightarrow> launch \<Rightarrow> proc_run"

definition run_spawn :: "spawner \<Rightarrow> launch \<Rightarrow> provider \<Rightarrow> proc_run \<times> provider" where
  "run_spawn sp l s = (sp (launched s) l, s\<lparr>launched := launched s @ [l]\<rparr>)"

text \<open>Member access \<open>v.k\<close> on a value that may be \<open>undefined\<close>.\<close>

definition read_property :: "json option \<Rightarrow> string \<Rightarrow> string + json option" where
  "read_property v k =
     (case v of
        None \<Rightarrow> Inl (''Cannot read properties of undefined (reading '' @ k @ '')'')
      | Some j \<Rightarrow> member j k)"

text \<open>
  The shape the functions of \<open>extension.ts\<close> share: the interpreter of
  \<open>getPythonCommand\<close>, a script of the \<open>scripts\<close> directory followed by its
  arguments, and options that hold the environment only (no \<open>cwd\<close>, no \<open>timeout\<close>).
  \<open>IMS_WORKSPACE_PATH\<close> is the workspace folder; without one, some call sites give
  \<open>process.cwd()\<close> and some the empty string.
\<close>

definition script_launch :: "host \<Rightarrow> string \<Rightarrow> json option list \<Rightarrow> string \<Rightarrow> launch" where
  "script_launch h scriptName args noWorkspace =
     (let scriptsDir = path_join [extensionPath h, ''scripts''];
          scriptPath = path_join [scriptsDir, scriptName];
          pythonCmd = getPythonCommand h;
          wsPath = (case workspacePath h of Some p \<Rightarrow> p | None \<Rightarrow> noWorkspace)
      in \<lparr> program = pythonCmd, arguments = Some (JStr scriptPath) # args, use_shell = False,
           cwd = None, timeout_ms = None,
           env_extra = [(''PYTHONIOENCODING'', ''utf-8''), (''IMS_WORKSPACE_PATH'', wsPath)] \<rparr>)"

subsection \<open>The two import commands\<close>

text \<open>
  \<open>runScript\<close>: one \<open>spawn\<close>; the promise is resolved by \<open>close\<close> with code 0 and
  rejected by \<open>error\<close> and by \<open>close\<close> with any other code. The texts read "cannot
  start script '...': ... Make sure the Python environment is configured in the system
  PATH." and "script '...' failed, exit code: ...".
\<close>

definition runScript_launch :: "host \<Rightarrow> string \<Rightarrow> json option list \<Rightarrow> launch" where
  "runScript_launch h scriptName args = script_launch h scriptName args (currentDirectory h)"

fun runScript_on_event ::
    "string \<Rightarrow> (unit, js_error) promise \<Rightarrow> proc_event \<Rightarrow> (unit, js_error) promise" where
  "runScript_on_event scriptName p (StdoutData d) = p"
| "runScript_on_event scriptName p (StderrData d) = p"
| "runScript_on_event scriptName p (ErrorEvent m) =
     reject p (JsError ''Error''
       (([CHR 0xE6, CHR 0x97, CHR 0xA0, CHR 0xE6, CHR 0xB3, CHR 0x95, CHR 0xE5,
            CHR 0x90, CHR 0xAF, CHR 0xE5, CHR 0x8A, CHR 0xA8, CHR 0xE8, CHR 0x84,
            CHR 0x9A, CHR 0xE6, CHR 0x9C, CHR 0xAC] @ '' '' @ [CHR 0x27]) @ scriptName @ ([CHR 0x27] @ '': '') @ m
        @ (''. '' @ [CHR 0xE8, CHR 0xAF, CHR 0xB7, CHR 0xE7, CHR 0xA1, CHR 0xAE, CHR 0xE4,
             CHR 0xBF, CHR 0x9D] @ ''Python'' @ [CHR 0xE7, CHR 0x8E, CHR 0xAF, CHR 0xE5, CHR 0xA2, CHR 0x83, CHR 0xE5,
             CHR 0xB7, CHR 0xB2, CHR 0xE6, CHR 0xAD, CHR 0xA3, CHR 0xE7, CHR 0xA1,
             CHR 0xAE, CHR 0xE9, CHR 0x85, CHR 0x8D, CHR 0xE7, CHR 0xBD, CHR 0xAE,
             CHR 0xE5, CHR 0x9C, CHR 0xA8, CHR 0xE7, CHR 0xB3, CHR 0xBB, CHR 0xE7,
             CHR 0xBB, CHR 0x9F] @ ''PATH'' @ [CHR 0xE4, CHR 0xB8, CHR 0xAD, CHR 0xE3, CHR 0x80, CHR 0x82])))"
| "runScript_on_event scriptName p (CloseEvent code) =
     (if code = Some 0 then resolve p ()
      else reject p (JsError ''Error''
             (([CHR 0xE8, CHR 0x84, CHR 0x9A, CHR 0xE6, CHR 0x9C, CHR 0xAC] @ '' '' @ [CHR 0x27]) @ scriptName @ ([CHR 0x27] @ '' '' @ [CHR 0xE6, CHR 0x89, CHR 0xA7, CHR 0xE8, CHR 0xA1, CHR 0x8C, CHR 0xE5,
                  CHR 0xA4, CHR 0xB1, CHR 0xE8, CHR 0xB4, CHR 0xA5, CHR 0xEF, CHR 0xBC,
                  CHR 0x8C, CHR 0xE9, CHR 0x80, CHR 0x80, CHR 0xE5, CHR 0x87, CHR 0xBA,
                  CHR 0xE7, CHR 0xA0, CHR 0x81] @ '': '') @ show_code code @ ''.'')))"

definition runScript :: "string \<Rightarrow> proc_event list \<Rightarrow> (unit, js_error) promise" where
  "runScript scriptName evs = foldl (runScript_on_event scriptName) Pending evs"

text \<open>
  \<open>runExcelToJsonProcess\<close> and \<open>runMigrationProcess\<close>: the first log line converts
  \<open>excelPath\<close> to text, which can throw before anything is started. Then two scripts
  are awaited one after the other inside one \<open>try\<close>: the second runs once the promise
  of the first is resolved; a rejection ends the function, and a promise that is never
  settled leaves it waiting.
\<close>

definition run_two_scripts ::
    "host \<Rightarrow> spawner \<Rightarrow> string \<Rightarrow> json option list \<Rightarrow> string \<Rightarrow> json option list
     \<Rightarrow> provider \<Rightarrow> provider" where
  "run_two_scripts h sp first firstArgs second secondArgs s =
     (let (r1, s1) = run_spawn sp (runScript_launch h first firstArgs) s
      in case runScript first (events_of r1) of
           Resolved u \<Rightarrow> snd (run_spawn sp (runScript_launch h second secondArgs) s1)
         | Rejected e \<Rightarrow> s1
         | Pending \<Rightarrow> s1)"

definition runExcelToJsonProcess :: "host \<Rightarrow> spawner \<Rightarrow> json option \<Rightarrow> provider \<Rightarrow> provider" where
  "runExcelToJsonProcess h sp excelPath s =
     (case js_string_opt excelPath of
        None \<Rightarrow> s
      | Some text \<Rightarrow>
          (let docsDir = docsDirectory h;
               outputPath = path_join [docsDir, ''parsed_data.json'']
           in run_two_scripts h sp
                ''parse_manager.py'' [excelPath, Some (JStr outputPath)]
                ''generate_standard_material_table.py'' (texts [''--docs-dir'', docsDir]) s))"

definition runMigrationProcess :: "host \<Rightarrow> spawner \<Rightarrow> json option \<Rightarrow> provider \<Rightarrow> provider" where
  "runMigrationProcess h sp excelPath s =
     (case js_string_opt excelPath of
        None \<Rightarrow> s
      | Some text \<Rightarrow>
          run_two_scripts h sp ''import_to_mongodb_with_standard_codes.py'' []
            ''verify_import.py'' [] s)"

text \<open>
  The handler of both commands: without an argument it shows an error; otherwise
  \<open>uri.fsPath\<close> is the path. A \<open>Uri\<close> is represented by an object with an
  \<open>fsPath\<close> entry.
\<close>

definition file_command ::
    "(json option \<Rightarrow> provider \<Rightarrow> provider) \<Rightarrow> json option list \<Rightarrow> provider \<Rightarrow> provider" where
  "file_command process args s =
     (let uri = (case args of [] \<Rightarrow> None | a # rest \<Rightarrow> a)
      in if \<not> truthy uri then s
         else (case read_property uri ''fsPath'' of
                 Inl e \<Rightarrow> s
               | Inr excelPath \<Rightarrow> process excelPath s))"

subsection \<open>The database commands\<close>

definition runDatabaseTest_launch :: "host \<Rightarrow> launch" where
  "runDatabaseTest_launch h = script_launch h ''test_db_connection.py'' [] (currentDirectory h)"

text \<open>\<open>runDatabaseTest\<close>: one \<open>spawn\<close>; its listeners write to the output channel and
  show a notification.\<close>

definition runDatabaseTest :: "host \<Rightarrow> spawner \<Rightarrow> provider \<Rightarrow> provider" where
  "runDatabaseTest h sp s = snd (run_spawn sp (runDatabaseTest_launch h) s)"

text \<open>\<open>reconnect\<close> awaits \<open>checkConnection\<close>, which runs its script with one
  \<open>exec\<close>; the callback starts nothing.\<close>

definition reconnect :: "host \<Rightarrow> shell \<Rightarrow> provider \<Rightarrow> provider" where
  "reconnect h sh s = snd (run_exec sh (checkConnection_launch h) s)"

subsection \<open>The add-material dialog\<close>

text \<open>
  What the user enters in the seven steps of \<open>showAddMaterialDialog\<close>: the text of an
  input box or the value of the item picked, \<open>None\<close> when the step is dismissed.
\<close>

record material_dialog =
  materialName :: "string option"
  materialModel :: "string option"
  unit_input :: "string option"
  platform_pick :: "string option"
  type1_pick :: "string option"
  type2_pick :: "string option"
  supplierCode :: "string option"

definition runAddMaterialScript_launch :: "host \<Rightarrow> (json \<Rightarrow> string) \<Rightarrow> json \<Rightarrow> launch" where
  "runAddMaterialScript_launch h stringify materialInfo =
     script_launch h ''add_material.py'' [Some (JStr (stringify materialInfo))] []"

text \<open>
  \<open>showAddMaterialDialog\<close>: an input box that returns \<open>undefined\<close> or the empty
  text ends the dialog, and so does a pick that returns \<open>undefined\<close>. After the seven
  steps \<open>runAddMaterialScript\<close> spawns one process.
\<close>

definition showAddMaterialDialog ::
    "host \<Rightarrow> (json \<Rightarrow> string) \<Rightarrow> spawner \<Rightarrow> material_dialog \<Rightarrow> provider \<Rightarrow> provider" where
  "showAddMaterialDialog h stringify sp answers s =
     (case materialName answers of None \<Rightarrow> s | Some name \<Rightarrow>
      if name = [] then s else
     (case materialModel answers of None \<Rightarrow> s | Some model \<Rightarrow>
      if model = [] then s else
     (case unit_input answers of None \<Rightarrow> s | Some unitText \<Rightarrow>
      if unitText = [] then s else
     (case platform_pick answers of None \<Rightarrow> s | Some pickedPlatform \<Rightarrow>
     (case type1_pick answers of None \<Rightarrow> s | Some type1 \<Rightarrow>
     (case type2_pick answers of None \<Rightarrow> s | Some type2 \<Rightarrow>
     (case supplierCode answers of None \<Rightarrow> s | Some code \<Rightarrow>
      if code = [] then s else
        (let materialInfo = JObj
               [(''platform'', JStr pickedPlatform),
                (''type1'', JStr type1),
                (''type2'', JStr type2),
                (''supplier_code'', JStr code),
                (''material_name'', JStr name),
                (''material_model'', JStr model),
                (''unit'', JStr unitText)]
         in snd (run_spawn sp (runAddMaterialScript_launch h stringify materialInfo) s)))))))))"

subsection \<open>The table data panel\<close>

definition loadTableData_launch :: "host \<Rightarrow> json option \<Rightarrow> launch" where
  "loadTableData_launch h tableName =
     script_launch h ''query_table_data.py''
       (texts [''--type'', ''table'', ''--name''] @ [tableName]) (currentDirectory h)"

text \<open>\<open>loadTableData\<close>: one \<open>spawn\<close>; its listeners post to the web view.\<close>

definition loadTableData :: "host \<Rightarrow> spawner \<Rightarrow> json option \<Rightarrow> provider \<Rightarrow> provider" where
  "loadTableData h sp tableName s = snd (run_spawn sp (loadTableData_launch h tableName) s)"

definition handleCrudOperation_launch ::
    "host \<Rightarrow> (json \<Rightarrow> string) \<Rightarrow> json option \<Rightarrow> string \<Rightarrow> json option \<Rightarrow> launch" where
  "handleCrudOperation_launch h stringify tableName operation data =
     script_launch h ''crud_operations.py''
       ([Some (JStr ''--table''), tableName, Some (JStr ''--operation''),
         Some (JStr operation), Some (JStr ''--data''), stringify_opt stringify data])
       (currentDirectory h)"

text \<open>
  The \<open>close\<close> listener of \<open>handleCrudOperation\<close>. With code 0 it parses the trimmed
  output, builds the message from \<open>result.success\<close>, \<open>result.message\<close>,
  \<open>result.data\<close> and \<open>data.type\<close>, posts it, and reloads the table when
  \<open>result.success\<close> is truthy. \<open>JSON.parse\<close> can throw, \<open>result.success\<close> throws
  when the result is \<open>null\<close>, and \<open>data.type\<close> throws when the record is \<open>null\<close> or
  \<open>undefined\<close>: the \<open>catch\<close> block then posts an error and nothing is reloaded.
\<close>

definition handleCrudOperation_on_close ::
    "host \<Rightarrow> (string \<Rightarrow> string + json) \<Rightarrow> spawner \<Rightarrow> json option \<Rightarrow> json option \<Rightarrow> string
     \<Rightarrow> int option \<Rightarrow> provider \<Rightarrow> provider" where
  "handleCrudOperation_on_close h parse sp tableName data out code s =
     (if code = Some 0 then
        (case parse (trim out) of
           Inl e \<Rightarrow> s
         | Inr result \<Rightarrow>
             (case member result ''success'' of
                Inl e \<Rightarrow> s
              | Inr success \<Rightarrow>
                  (case read_property data ''type'' of
                     Inl e \<Rightarrow> s
                   | Inr recordType \<Rightarrow>
                       if truthy success then loadTableData h sp tableName s else s)))
      else s)"

record crud_run =
  crud_stdout :: string
  crud_state :: provider

fun handleCrudOperation_on_event ::
    "host \<Rightarrow> (string \<Rightarrow> string + json) \<Rightarrow> spawner \<Rightarrow> json option \<Rightarrow> json option
     \<Rightarrow> crud_run \<Rightarrow> proc_event \<Rightarrow> crud_run" where
  "handleCrudOperation_on_event h parse sp tableName data r (StdoutData d) =
     r\<lparr>crud_stdout := crud_stdout r @ d\<rparr>"
| "handleCrudOperation_on_event h parse sp tableName data r (StderrData d) = r"
| "handleCrudOperation_on_event h parse sp tableName data r (ErrorEvent m) = r"
| "handleCrudOperation_on_event h parse sp tableName data r (CloseEvent code) =
     r\<lparr>crud_state := handleCrudOperation_on_close h parse sp tableName data
                          (crud_stdout r) code (crud_state r)\<rparr>"

definition handleCrudOperation ::
    "host \<Rightarrow> (json \<Rightarrow> string) \<Rightarrow> (string \<Rightarrow> string + json) \<Rightarrow> spawner \<Rightarrow> json option \<Rightarrow> string
     \<Rightarrow> json option \<Rightarrow> provider \<Rightarrow> provider" where
  "handleCrudOperation h stringify parse sp tableName operation data s =
     (let (run, s1) = run_spawn sp
                        (handleCrudOperation_launch h stringify tableName operation data) s
      in crud_state (foldl (handleCrudOperation_on_event h parse sp tableName data)
                       \<lparr> crud_stdout = [], crud_state = s1 \<rparr> (events_of run)))"

text \<open>An entry of an object literal: a field whose value is \<open>undefined\<close> is written by
  \<open>JSON.stringify\<close> as if it were absent.\<close>

definition entry :: "string \<Rightarrow> json option \<Rightarrow> (string \<times> json) list" where
  "entry k v = (case v of None \<Rightarrow> [] | Some j \<Rightarrow> [(k, j)])"

text \<open>The message listener of \<open>showTableDataPanel\<close>, for the panel of table
  \<open>tableName\<close>. Reading \<open>message.command\<close> throws on \<open>null\<close> and
  \<open>undefined\<close>.\<close>

definition table_onMessage ::
    "host \<Rightarrow> (json \<Rightarrow> string) \<Rightarrow> (string \<Rightarrow> string + json) \<Rightarrow> spawner \<Rightarrow> json option
     \<Rightarrow> json option \<Rightarrow> provider \<Rightarrow> provider" where
  "table_onMessage h stringify parse sp tableName message s =
     (case read_property message ''command'' of
        Inl e \<Rightarrow> s
      | Inr command \<Rightarrow>
          if command = Some (JStr ''loadData'') then loadTableData h sp tableName s
          else if command = Some (JStr ''refresh'') then loadTableData h sp tableName s
          else if command = Some (JStr ''addRecord'') then
            (case read_property message ''data'' of
               Inl e \<Rightarrow> s
             | Inr data \<Rightarrow> handleCrudOperation h stringify parse sp tableName ''add'' data s)
          else if command = Some (JStr ''updateRecord'') then
            (case read_property message ''data'' of
               Inl e \<Rightarrow> s
             | Inr data \<Rightarrow> handleCrudOperation h stringify parse sp tableName ''update'' data s)
          else if command = Some (JStr ''deleteRecord'') then
            (case read_property message ''id'' of
               Inl e \<Rightarrow> s
             | Inr recordId \<Rightarrow>
                 (case read_property message ''type'' of
                    Inl e \<Rightarrow> s
                  | Inr recordType \<Rightarrow>
                      handleCrudOperation h stringify parse sp tableName ''delete''
                        (Some (JObj (entry ''_id'' recordId @ entry ''type'' recordType))) s))
          else s)"

subsection \<open>The business view panel\<close>

text \<open>
  The message listener of \<open>showBusinessViewPanel\<close>, for the panel of view
  \<open>viewName\<close>: \<open>loadData\<close> and \<open>refresh\<close> call \<open>loadBusinessViewData\<close> without
  parameters, \<open>filter\<close> with \<open>message.params\<close>. A view name that is not a string
  matches no case of the \<open>switch\<close> in \<open>loadBusinessViewData\<close>.
\<close>

definition view_load ::
    "host \<Rightarrow> (string \<Rightarrow> string + json) \<Rightarrow> spawner \<Rightarrow> json option \<Rightarrow> json option \<Rightarrow> provider
     \<Rightarrow> provider" where
  "view_load h parse sp viewName params s =
     (case viewName of
        Some (JStr name) \<Rightarrow>
          (case result_launch (loadBusinessViewData h parse name params []) of
             Some l \<Rightarrow> snd (run_spawn sp l s)
           | None \<Rightarrow> s)
      | other \<Rightarrow> s)"

definition view_onMessage ::
    "host \<Rightarrow> (string \<Rightarrow> string + json) \<Rightarrow> spawner \<Rightarrow> json option \<Rightarrow> json option \<Rightarrow> provider
     \<Rightarrow> provider" where
  "view_onMessage h parse sp viewName message s =
     (case read_property message ''command'' of
        Inl e \<Rightarrow> s
      | Inr command \<Rightarrow>
          if command = Some (JStr ''loadData'') then view_load h parse sp viewName None s
          else if command = Some (JStr ''refresh'') then view_load h parse sp viewName None s
          else if command = Some (JStr ''filter'') then
            (case read_property message ''params'' of
               Inl e \<Rightarrow> s
             | Inr params \<Rightarrow> view_load h parse sp viewName params s)
          else s)"

subsection \<open>The inventory management panel\<close>

text \<open>
  The six load handlers (\<open>handleInventoryDataLoad\<close> and the like) are one \<open>spawn\<close>
  each, with fixed arguments.
\<close>

definition inventory_scripts :: "(string \<times> string \<times> string list) list" where
  "inventory_scripts =
     [(''load_inventory_data'', ''business_view_inventory_report.py'', [''--format'', ''json'']),
      (''load_purchase_orders'', ''business_view_purchase_report.py'', [''--format'', ''json'']),
      (''load_sales_orders'', ''business_view_sales_report.py'', [''--format'', ''json'']),
      (''load_suppliers'', ''query_table_data.py'',
         [''--type'', ''table'', ''--name'', ''suppliers'']),
      (''load_customers'', ''query_table_data.py'',
         [''--type'', ''table'', ''--name'', ''customers'']),
      (''load_materials'', ''query_table_data.py'',
         [''--type'', ''table'', ''--name'', ''materials''])]"

text \<open>
  The message listener of \<open>showInventoryManagementPanel\<close>. It switches on
  \<open>message.command || message.action\<close>. For \<open>runPython\<close> the title of the progress
  notification converts \<open>message.data\<close> to text (as a property key and in the
  template), which can throw inside the \<open>try\<close>; otherwise one process is spawned with
  \<open>message.data\<close> as its argument. \<open>inventoryAction\<close> shows a notification.
\<close>

definition inventory_onMessage ::
    "host \<Rightarrow> spawner \<Rightarrow> json option \<Rightarrow> provider \<Rightarrow> provider" where
  "inventory_onMessage h sp message s =
     (case read_property message ''command'' of
        Inl e \<Rightarrow> s
      | Inr command \<Rightarrow>
          (case read_property message ''action'' of
             Inl e \<Rightarrow> s
           | Inr action \<Rightarrow>
               (let selector = (if truthy command then command else action)
                in case selector of
                     Some (JStr name) \<Rightarrow>
                       (case map_of inventory_scripts name of
                          Some (script, args) \<Rightarrow>
                            snd (run_spawn sp (script_launch h script (texts args) []) s)
                        | None \<Rightarrow>
                            if name = ''runPython'' then
                              (case read_property message ''data'' of
                                 Inl e \<Rightarrow> s
                               | Inr data \<Rightarrow>
                                   (case js_string_opt data of
                                      None \<Rightarrow> s
                                    | Some text \<Rightarrow>
                                        snd (run_spawn sp
                                          (script_launch h ''inventory_management_handler.py''
                                             [data] []) s)))
                            else s)
                   | other \<Rightarrow> s)))"

subsection \<open>The data analysis dashboard panel\<close>

text \<open>
  The message listener of \<open>showDataAnalysisDashboard\<close>: six commands call
  \<open>runDataAnalysisScript\<close> once, each with its method and \<open>message.params\<close>;
  \<open>exportDashboard\<close> posts that the export is not implemented.
\<close>

definition analysis_methods :: "(string \<times> string) list" where
  "analysis_methods =
     [(''getDashboardData'', ''get_dashboard_summary''),
      (''getSalesTrend'', ''analyze_sales_trend''),
      (''getInventoryAnalysis'', ''analyze_inventory_turnover''),
      (''getCustomerAnalysis'', ''analyze_customer_value''),
      (''getPurchaseTrend'', ''analyze_purchase_trend''),
      (''getComparisonAnalysis'', ''generate_comparison_analysis'')]"

definition analysis_onMessage ::
    "host \<Rightarrow> (json \<Rightarrow> string) \<Rightarrow> spawner \<Rightarrow> json option \<Rightarrow> provider \<Rightarrow> provider" where
  "analysis_onMessage h stringify sp message s =
     (case read_property message ''command'' of
        Inl e \<Rightarrow> s
      | Inr command \<Rightarrow>
          (case command of
             Some (JStr name) \<Rightarrow>
               (case map_of analysis_methods name of
                  Some methodName \<Rightarrow>
                    (case read_property message ''params'' of
                       Inl e \<Rightarrow> s
                     | Inr params \<Rightarrow>
                         snd (run_spawn sp
                           (runDataAnalysisScript_launch h stringify methodName params) s))
                | None \<Rightarrow> s)
           | other \<Rightarrow> s))"

subsection \<open>The material provider\<close>

text \<open>
  \<open>_handleMessage\<close> of \<open>MaterialWebviewProvider\<close>. Five handlers call
  \<open>_executePythonScript\<close> once (\<open>addMaterial\<close> with the data of the message).
  \<open>_assignSupplierCodes\<close> calls it and, when \<open>result.success\<close> is truthy, reloads the
  supplier codes with \<open>_loadSupplierCodes\<close>; an error thrown on the way is caught and
  shown.
\<close>

definition material_call ::
    "host \<Rightarrow> (json \<Rightarrow> string) \<Rightarrow> (string \<Rightarrow> string + json) \<Rightarrow> shell \<Rightarrow> string \<Rightarrow> json option
     \<Rightarrow> provider \<Rightarrow> provider" where
  "material_call h stringify parse sh command data s =
     snd (material_executePythonScript h stringify parse sh command data s)"

definition material_assignSupplierCodes ::
    "host \<Rightarrow> (json \<Rightarrow> string) \<Rightarrow> (string \<Rightarrow> string + json) \<Rightarrow> shell \<Rightarrow> provider \<Rightarrow> provider" where
  "material_assignSupplierCodes h stringify parse sh s =
     (case material_executePythonScript h stringify parse sh ''assignSupplierCodes'' None s of
        (Inl error, s1) \<Rightarrow> s1
      | (Inr result, s1) \<Rightarrow>
          (case member result ''success'' of
             Inl e \<Rightarrow> s1
           | Inr success \<Rightarrow>
               if truthy success
               then material_call h stringify parse sh ''loadSupplierCodes'' None s1
               else s1))"

definition material_handleMessage ::
    "host \<Rightarrow> (json \<Rightarrow> string) \<Rightarrow> (string \<Rightarrow> string + json) \<Rightarrow> shell \<Rightarrow> json option
     \<Rightarrow> provider \<Rightarrow> provider" where
  "material_handleMessage h stringify parse sh message s =
     (case destructure message ''command'' of
        Inl error \<Rightarrow> s
      | Inr get \<Rightarrow>
          if get ''command'' = Some (JStr ''loadSuppliers'') then
            material_call h stringify parse sh ''loadSuppliers'' None s
          else if get ''command'' = Some (JStr ''addMaterial'') then
            material_call h stringify parse sh ''addMaterial'' (get ''data'') s
          else if get ''command'' = Some (JStr ''loadMaterials'') then
            material_call h stringify parse sh ''loadMaterials'' None s
          else if get ''command'' = Some (JStr ''loadSupplierCodes'') then
            material_call h stringify parse sh ''loadSupplierCodes'' None s
          else if get ''command'' = Some (JStr ''assignSupplierCodes'') then
            material_assignSupplierCodes h stringify parse sh s
          else if get ''command'' = Some (JStr ''exportMaterials'') then
            material_call h stringify parse sh ''exportMaterials'' None s
          else s)"

subsection \<open>The data entry provider\<close>

text \<open>
  \<open>handleMessage\<close> of \<open>DataEntryWebviewProvider\<close>: every message runs
  \<open>data_entry_handler.py\<close> once through \<open>runPythonScript\<close>, with
  \<open>message.command\<close> and, when it is truthy, \<open>JSON.stringify(message.data)\<close>.
  Reading the two fields throws on \<open>null\<close> and \<open>undefined\<close>, inside the \<open>try\<close>.
\<close>

definition runPythonScript_launch ::
    "host \<Rightarrow> (json \<Rightarrow> string) \<Rightarrow> string \<Rightarrow> json option \<Rightarrow> json option \<Rightarrow> launch" where
  "runPythonScript_launch h stringify scriptName command data =
     (let scriptsDir = path_join [extensionPath h, ''scripts''];
          scriptPath = path_join [scriptsDir, scriptName];
          pythonCmd = getPythonCommand h;
          args = [Some (JStr scriptPath), command]
                 @ (if truthy data then [stringify_opt stringify data] else [])
      in \<lparr> program = pythonCmd, arguments = args, use_shell = False, cwd = None,
           timeout_ms = None, env_extra = [(''PYTHONIOENCODING'', ''utf-8'')] \<rparr>)"

definition dataEntry_handleMessage ::
    "host \<Rightarrow> (json \<Rightarrow> string) \<Rightarrow> spawner \<Rightarrow> json option \<Rightarrow> provider \<Rightarrow> provider" where
  "dataEntry_handleMessage h stringify sp message s =
     (case read_property message ''command'' of
        Inl e \<Rightarrow> s
      | Inr command \<Rightarrow>
          (case read_property message ''data'' of
             Inl e \<Rightarrow> s
           | Inr data \<Rightarrow>
               snd (run_spawn sp
                 (runPythonScript_launch h stringify ''data_entry_handler.py'' command data)
                 s)))"

subsection \<open>Every action\<close>

text \<open>
  The panels that post messages: the table data panel (with the table name it was opened
  for), the business view panel (with its view name), the inventory management panel, the
  data analysis dashboard panel of \<open>extension.ts\<close>, and the panels of the five
  providers.
\<close>

datatype panel_source =
    TableDataPanel "json option"
  | BusinessViewPanel "json option"
  | InventoryManagementPanel
  | DataAnalysisDashboardPanel
  | MaterialPanel
  | DataEntryPanel
  | CustomerPanel
  | SupplierPanel
  | DashboardProviderPanel

text \<open>An action is a command with its arguments or a message from a panel.\<close>

datatype user_action =
    Command string "json option list"
  | Message panel_source "json option"

text \<open>
  What \<open>activate\<close> registers. The commands that show a provider's panel, open the table
  data, business view, inventory and dashboard panels, refresh the tree and open the
  settings start no process and no handler that starts one; a command that is not
  registered does nothing.
\<close>

definition run_command ::
    "host \<Rightarrow> (json \<Rightarrow> string) \<Rightarrow> shell \<Rightarrow> spawner \<Rightarrow> material_dialog \<Rightarrow> string
     \<Rightarrow> json option list \<Rightarrow> provider \<Rightarrow> provider" where
  "run_command h stringify sh sp answers command args s =
     (if command = ''ims.convertToJson'' then file_command (runExcelToJsonProcess h sp) args s
      else if command = ''ims.migrateToNewFormat'' then
        file_command (runMigrationProcess h sp) args s
      else if command = ''ims.reconnectDb'' then reconnect h sh s
      else if command = ''ims.testDbConnection'' then runDatabaseTest h sp s
      else if command = ''ims.addMaterial'' then showAddMaterialDialog h stringify sp answers s
      else s)"

definition receive_message ::
    "host \<Rightarrow> (json \<Rightarrow> string) \<Rightarrow> (string \<Rightarrow> string + json) \<Rightarrow> shell \<Rightarrow> spawner
     \<Rightarrow> panel_source \<Rightarrow> json option \<Rightarrow> provider \<Rightarrow> provider" where
  "receive_message h stringify parse sh sp source message s =
     (case source of
        TableDataPanel tableName \<Rightarrow> table_onMessage h stringify parse sp tableName message s
      | BusinessViewPanel viewName \<Rightarrow> view_onMessage h parse sp viewName message s
      | InventoryManagementPanel \<Rightarrow> inventory_onMessage h sp message s
      | DataAnalysisDashboardPanel \<Rightarrow> analysis_onMessage h stringify sp message s
      | MaterialPanel \<Rightarrow> material_handleMessage h stringify parse sh message s
      | DataEntryPanel \<Rightarrow> dataEntry_handleMessage h stringify sp message s
      | CustomerPanel \<Rightarrow> snd (customer_handleMessage h stringify parse sh message s)
      | SupplierPanel \<Rightarrow> snd (supplier_handleMessage h stringify parse sh message s)
      | DashboardProviderPanel \<Rightarrow> dashboard_handleMessage h stringify parse sh message s)"

fun perform ::
    "host \<Rightarrow> (json \<Rightarrow> string) \<Rightarrow> (string \<Rightarrow> string + json) \<Rightarrow> shell \<Rightarrow> spawner
     \<Rightarrow> material_dialog \<Rightarrow> user_action \<Rightarrow> provider \<Rightarrow> provider" where
  "perform h stringify parse sh sp answers (Command command args) s =
     run_command h stringify sh sp answers command args s"
| "perform h stringify parse sh sp answers (Message source message) s =
     receive_message h stringify parse sh sp source message s"

text \<open>
  The actions that are written to start a second process, and that second process: the
  second script of an import command, and the reload of the list after a modifying
  message. \<open>command_of\<close> is the \<open>command\<close> field of a message.
\<close>

definition command_of :: "json option \<Rightarrow> json option" where
  "command_of message = (case message of Some (JObj kv) \<Rightarrow> map_of kv ''command'' | other \<Rightarrow> None)"

fun second_launch :: "host \<Rightarrow> (json \<Rightarrow> string) \<Rightarrow> user_action \<Rightarrow> launch option" where
  "second_launch h stringify (Command command args) =
     (if command = ''ims.convertToJson'' then
        Some (runScript_launch h ''generate_standard_material_table.py''
                (texts [''--docs-dir'', docsDirectory h]))
      else if command = ''ims.migrateToNewFormat'' then
        Some (runScript_launch h ''verify_import.py'' [])
      else None)"
| "second_launch h stringify (Message (TableDataPanel tableName) message) =
     (if command_of message \<in> {Some (JStr ''addRecord''), Some (JStr ''updateRecord''),
                                 Some (JStr ''deleteRecord'')}
      then Some (loadTableData_launch h tableName) else None)"
| "second_launch h stringify (Message SupplierPanel message) =
     (if command_of message \<in> {Some (JStr ''add''), Some (JStr ''update''),
                                 Some (JStr ''delete''), Some (JStr ''batch_delete'')}
      then Some (supplier_launch h ''list'' [ArgString ''1'', ArgString ''10'', ArgString []])
      else None)"
| "second_launch h stringify (Message CustomerPanel message) =
     (if command_of message \<in> {Some (JStr ''addCustomer''), Some (JStr ''updateCustomer''),
                                 Some (JStr ''deleteCustomer''),
                                 Some (JStr ''batchDeleteCustomers'')}
      then map_option (\<lambda>ws. customer_launch ws stringify ''list'' (Some (JObj [])))
             (workspacePath h)
      else None)"
| "second_launch h stringify (Message MaterialPanel message) =
     (if command_of message = Some (JStr ''assignSupplierCodes'')
      then map_option (\<lambda>ws. material_launch ws stringify ''loadSupplierCodes'' None)
             (workspacePath h)
      else None)"
| "second_launch h stringify (Message source message) = None"

section \<open>The parameter validator of the data analysis service\<close>

text \<open>
  The validator lives in \<open>scripts/data_analysis_service.py\<close>, which is not among the
  sources; the implementation summary of the validation work describes it. The definitions
  of this section follow that description. A parameter object is a map from names to
  values; Python's \<open>None\<close>, numbers, strings, lists and dicts are \<open>json\<close> values.
\<close>

type_synonym params = "string \<Rightarrow> json option"

subsection \<open>Numeric parameters\<close>

text \<open>
  Modelled from the spec: the table behind \<open>_validate_numeric_params\<close> (the function is
  in the missing \<open>data_analysis_service.py\<close>). The summary gives the ranges page 1-10000,
  page_size 1-1000, limit 1-10000 and the defaults page = 1, page_size = 50. It names no
  default for limit: an invalid limit is dropped. An entry is name, lower bound, upper
  bound, default.
\<close>

definition numeric_fields :: "(string \<times> int \<times> int \<times> int option) list" where
  "numeric_fields =
     [(''page'', 1, 10000, Some 1),
      (''page_size'', 1, 1000, Some 50),
      (''limit'', 1, 10000, None)]"

text \<open>
  Modelled from the spec: the digits of a "numeric string", read by the missing
  \<open>_validate_numeric_params\<close>.
\<close>

definition is_digit :: "char \<Rightarrow> bool" where
  "is_digit c = (c \<in> set ''0123456789'')"

text \<open>
  Modelled from the spec: the value of a decimal digit (part of the missing
  \<open>_validate_numeric_params\<close>).
\<close>

definition digit_value :: "char \<Rightarrow> nat" where
  "digit_value c = of_char c - 48"

text \<open>
  Modelled from the spec: "numeric strings are converted to integers" (the conversion is
  part of the missing \<open>_validate_numeric_params\<close>). A non-empty string of decimal
  digits is read as the number it writes.
\<close>

definition parse_nat :: "string \<Rightarrow> nat option" where
  "parse_nat s =
     (if s \<noteq> [] \<and> list_all is_digit s
      then Some (foldl (\<lambda>acc c. 10 * acc + digit_value c) 0 s)
      else None)"

text \<open>
  Modelled from the spec: a numeric string is an optional minus sign followed by decimal
  digits (the conversion is part of the missing \<open>_validate_numeric_params\<close>).
\<close>

fun parse_int :: "string \<Rightarrow> int option" where
  "parse_int [] = None"
| "parse_int (c # cs) =
     (if c = CHR ''-'' then map_option (\<lambda>n. - int n) (parse_nat cs)
      else map_option int (parse_nat (c # cs)))"

text \<open>
  Modelled from the spec: the values the missing \<open>_validate_numeric_params\<close> can turn
  into an integer are the integers and the numeric strings.
\<close>

fun coerce_int :: "json \<Rightarrow> int option" where
  "coerce_int (JNum n) = Some n"
| "coerce_int (JStr s) = parse_int s"
| "coerce_int v = None"

text \<open>
  Modelled from the spec: "values out of range are adjusted to the boundary value" (in
  the missing \<open>_validate_numeric_params\<close>).
\<close>

definition adjust_to_range :: "int \<Rightarrow> int \<Rightarrow> int \<Rightarrow> int" where
  "adjust_to_range lo hi n = (if n < lo then lo else if hi < n then hi else n)"

text \<open>
  Modelled from the spec: "invalid parameters use the default value" (in the missing
  \<open>_validate_numeric_params\<close>); a value that can be converted is adjusted to the range.
\<close>

definition validate_numeric :: "int \<Rightarrow> int \<Rightarrow> int option \<Rightarrow> json \<Rightarrow> json option" where
  "validate_numeric lo hi dflt v =
     (case coerce_int v of
        Some n \<Rightarrow> Some (JNum (adjust_to_range lo hi n))
      | None \<Rightarrow> map_option JNum dflt)"

text \<open>
  Modelled from the spec: one field of the missing \<open>_validate_numeric_params\<close>: a field
  that is present is validated in place, an absent one stays absent.
\<close>

definition validate_numeric_field ::
    "params \<Rightarrow> string \<times> int \<times> int \<times> int option \<Rightarrow> params" where
  "validate_numeric_field p f =
     (case f of (name, lo, hi, dflt) \<Rightarrow>
        (case p name of
           None \<Rightarrow> p
         | Some v \<Rightarrow> p(name := validate_numeric lo hi dflt v)))"

text \<open>
  Modelled from the spec: \<open>_validate_numeric_params(params)\<close> of the missing
  \<open>data_analysis_service.py\<close>: the fields of the table are validated one after the
  other; the other entries are left as they are.
\<close>

definition validate_numeric_params :: "params \<Rightarrow> params" where
  "validate_numeric_params p = foldl validate_numeric_field p numeric_fields"

subsection \<open>String parameters\<close>

text \<open>
  Modelled from the spec: the characters the missing \<open>_clean_string_input\<close> removes:
  \<open><\<close>, \<open>>\<close>, double quote, single quote, \<open>&\<close>, \<open>;\<close>, \<open>|\<close>, backquote and
  \<open>$\<close>.
\<close>

definition dangerous_chars :: "char list" where
  "dangerous_chars = [CHR ''<'', CHR ''>'', CHR 0x22, CHR 0x27, CHR ''&'', CHR '';'',
     CHR ''|'', CHR 0x60, CHR ''$'']"

text \<open>
  Modelled from the spec: what the missing \<open>_clean_string_input\<close> removes at both ends:
  blanks and quotes.
\<close>

definition is_blank_or_quote :: "char \<Rightarrow> bool" where
  "is_blank_or_quote c = (is_space c \<or> c = CHR 0x22 \<or> c = CHR 0x27)"

text \<open>
  Modelled from the spec: "remove the leading and trailing blanks and quotes" (a step of
  the missing \<open>_clean_string_input\<close>).
\<close>

definition strip_blanks_quotes :: "string \<Rightarrow> string" where
  "strip_blanks_quotes s =
     rev (dropWhile is_blank_or_quote (rev (dropWhile is_blank_or_quote s)))"

text \<open>
  Modelled from the spec: \<open>_clean_string_input(input_str)\<close> of the missing
  \<open>data_analysis_service.py\<close>. The summary lists its steps in this order: remove the
  dangerous characters; limit the length to 100 characters; remove the leading and
  trailing blanks and quotes.
\<close>

definition clean_string_input :: "string \<Rightarrow> string" where
  "clean_string_input input_str =
     strip_blanks_quotes (take 100 (filter (\<lambda>c. c \<notin> set dangerous_chars) input_str))"

text \<open>
  Modelled from the spec: the string fields of \<open>_validate_string_params\<close> (in the missing
  \<open>data_analysis_service.py\<close>) with their lists of valid values; \<open>method\<close> has no
  list.
\<close>

definition string_fields :: "(string \<times> string list option) list" where
  "string_fields =
     [(''dimension'', Some [''month'', ''quarter'', ''product'', ''customer'', ''supplier'']),
      (''analysis_type'', Some [''rfm'', ''ranking'', ''segmentation'', ''overview'']),
      (''method'', None),
      (''format'', Some [''json'', ''csv'', ''excel''])]"

text \<open>
  Modelled from the spec: the code/message/details triple of the error envelope the
  missing service returns.
\<close>

record validation_error =
  error_code :: string
  error_msg :: string
  error_details :: string

text \<open>
  Modelled from the spec: the error of the missing \<open>_validate_string_params\<close> for a
  parameter it rejects, with the summary's code \<open>INVALID_PARAMETERS\<close>.
\<close>

definition invalid_parameter :: "string \<Rightarrow> validation_error" where
  "invalid_parameter name =
     \<lparr> error_code = ''INVALID_PARAMETERS'', error_msg = ''invalid parameter'',
       error_details = name \<rparr>"

text \<open>
  Modelled from the spec: one field of the missing \<open>_validate_string_params\<close>: a string
  field that is present is cleaned; a field with a list of valid values must then hold one
  of them. Following the specification's "reject with a structured error when coercion is
  impossible", a value that is not a string, or not in the list, is rejected.
\<close>

definition validate_string_field ::
    "params \<Rightarrow> string \<times> string list option \<Rightarrow> validation_error + params" where
  "validate_string_field p f =
     (case f of (name, allowed) \<Rightarrow>
        (case p name of
           None \<Rightarrow> Inr p
         | Some (JStr s) \<Rightarrow>
             (let cleaned = clean_string_input s
              in case allowed of
                   None \<Rightarrow> Inr (p(name := Some (JStr cleaned)))
                 | Some valid \<Rightarrow>
                     if cleaned \<in> set valid then Inr (p(name := Some (JStr cleaned)))
                     else Inl (invalid_parameter name))
         | Some other \<Rightarrow> Inl (invalid_parameter name)))"

text \<open>
  Modelled from the spec: the fields of the missing \<open>_validate_string_params\<close> are
  validated one after the other; the first rejection ends the validation.
\<close>

fun validate_string_fields ::
    "params \<Rightarrow> (string \<times> string list option) list \<Rightarrow> validation_error + params" where
  "validate_string_fields p [] = Inr p"
| "validate_string_fields p (f # fs) =
     (case validate_string_field p f of
        Inl e \<Rightarrow> Inl e
      | Inr p' \<Rightarrow> validate_string_fields p' fs)"

text \<open>
  Modelled from the spec: \<open>_validate_string_params(params)\<close> of the missing
  \<open>data_analysis_service.py\<close>.
\<close>

definition validate_string_params :: "params \<Rightarrow> validation_error + params" where
  "validate_string_params p = validate_string_fields p string_fields"

section \<open>Sample inputs\<close>

text \<open>A host without a virtual environment and without a workspace folder, stand-ins for
  \<open>JSON.stringify\<close> and \<open>JSON.parse\<close>, and a shell in which every command fails.\<close>

definition sample_host :: host where
  "sample_host = \<lparr> extensionPath = ''/ext'', workspacePath = None,
     fileExists = (\<lambda>p. False), platform = ''linux'', currentDirectory = ''/home'',
     docsDirectory = ''/ext/docs'' \<rparr>"

definition sample_stringify :: "json \<Rightarrow> string" where
  "sample_stringify j = ''{}''"

definition parse_nothing :: "string \<Rightarrow> string + json" where
  "parse_nothing text = Inl ''Unexpected token''"

definition failing_shell :: shell where
  "failing_shell history l =
     \<lparr> exec_error = Some ''Command failed'', exec_stdout = [], exec_stderr = [] \<rparr>"

text \<open>A host with a workspace folder, a shell in which every command prints the same
  text, and a parser that reads that text as \<open>{"success": true}\<close>.\<close>

definition sample_workspace_host :: host where
  "sample_workspace_host = \<lparr> extensionPath = ''/ext'', workspacePath = Some ''/ws'',
     fileExists = (\<lambda>p. False), platform = ''linux'', currentDirectory = ''/home'',
     docsDirectory = ''/ext/docs'' \<rparr>"

definition printing_shell :: shell where
  "printing_shell history l =
     \<lparr> exec_error = None, exec_stdout = ''ok'', exec_stderr = [] \<rparr>"

definition parse_success :: "string \<Rightarrow> string + json" where
  "parse_success text = Inr (JObj [(''success'', JBool True)])"

text \<open>An operating system in which every spawned process prints nothing and exits with
  code 0, and a user who dismisses the add-material dialog at its first step.\<close>

definition exiting_spawner :: spawner where
  "exiting_spawner history l = Completes [] (Some 0)"

definition no_answers :: material_dialog where
  "no_answers = \<lparr> materialName = None, materialModel = None, unit_input = None,
     platform_pick = None, type1_pick = None, type2_pick = None, supplierCode = None \<rparr>"

section \<open>Properties\<close>

subsection \<open>runDataAnalysisScript settles once\<close>

lemma settled_stays:
  "outcome s \<noteq> Pending \<Longrightarrow> outcome (foldl (analysis_on_event parse) s evs) = outcome s"
proof (induction evs arbitrary: s)
  case Nil
  then show ?case by simp
next
  case (Cons e es)
  have "outcome (analysis_on_event parse s e) = outcome s"
    using Cons.prems by (cases e; cases "outcome s") simp_all
  with Cons show ?case by simp
qed

lemma analysis_fold:
  "outcome s = Pending \<Longrightarrow>
   outcome (foldl (analysis_on_event parse) s evs) =
     (case first_settling evs of
        None \<Rightarrow> Pending
      | Some (ErrorEvent m) \<Rightarrow> Rejected (msg_cannot_start @ m)
      | Some (CloseEvent c) \<Rightarrow>
          Resolved (analysis_on_close parse (stdoutData s @ stdout_before evs)
                      (errorOutput s @ stderr_before evs) c)
      | Some other \<Rightarrow> Pending)"
proof (induction evs arbitrary: s)
  case Nil
  then show ?case by simp
next
  case (Cons e es)
  show ?case
  proof (cases e)
    case (StdoutData d)
    then show ?thesis using Cons.IH [of "s\<lparr>stdoutData := stdoutData s @ d\<rparr>"] Cons.prems
      by (auto split: option.splits proc_event.splits)
  next
    case (StderrData d)
    then show ?thesis using Cons.IH [of "s\<lparr>errorOutput := errorOutput s @ d\<rparr>"] Cons.prems
      by (auto split: option.splits proc_event.splits)
  next
    case (ErrorEvent m)
    then show ?thesis using Cons.prems by (simp add: settled_stays)
  next
    case (CloseEvent c)
    then show ?thesis using Cons.prems by (simp add: settled_stays)
  qed
qed

lemma runDataAnalysisScript_eq:
  "runDataAnalysisScript parse evs =
     (case first_settling evs of
        None \<Rightarrow> Pending
      | Some (ErrorEvent m) \<Rightarrow> Rejected (msg_cannot_start @ m)
      | Some (CloseEvent c) \<Rightarrow>
          Resolved (analysis_on_close parse (stdout_before evs) (stderr_before evs) c)
      | Some other \<Rightarrow> Pending)"
proof -
  have "outcome analysis_start = Pending" by (simp add: analysis_start_def)
  moreover have "stdoutData analysis_start @ x = x" "errorOutput analysis_start @ x = x" for x
    by (simp_all add: analysis_start_def)
  ultimately show ?thesis
    using analysis_fold [of analysis_start parse evs]
    unfolding runDataAnalysisScript_def by (auto split: option.splits proc_event.splits)
qed

lemma first_settling_not_data:
  "first_settling evs \<noteq> Some (StdoutData d)" "first_settling evs \<noteq> Some (StderrData d)"
  by (induction evs rule: first_settling.induct) simp_all

text \<open>
  C10. The promise of \<open>runDataAnalysisScript\<close> is rejected exactly when the child reports
  that it could not be started (an \<open>error\<close> event arrives before any \<open>close\<close>). When the
  child closes first: a non-zero exit code resolves to
  \<open>{success: false, error: ..., rawOutput: ...}\<close>, exit code 0 with output that does not parse
  resolves to an object of the same form, output that parses resolves to the parsed value,
  and output that is empty once trimmed resolves to what \<open>JSON.parse\<close> makes of the
  built-in text, the object \<open>{"success": false, "error": "no data returned"}\<close>.
\<close>

theorem runDataAnalysisScript_rejects_iff_start_fails:
  "((\<exists>r. runDataAnalysisScript parse evs = Rejected r) \<longleftrightarrow>
      (\<exists>m. first_settling evs = Some (ErrorEvent m)))
   \<and> (\<forall>m. first_settling evs = Some (ErrorEvent m) \<longrightarrow>
        runDataAnalysisScript parse evs = Rejected (msg_cannot_start @ m))
   \<and> (\<forall>code. first_settling evs = Some (CloseEvent code) \<longrightarrow>
        (code \<noteq> Some 0 \<longrightarrow>
           runDataAnalysisScript parse evs = Resolved (JObj
             [(''success'', JBool False),
              (''error'', JStr (if stderr_before evs \<noteq> [] then stderr_before evs
                                else msg_exit_code @ show_code code)),
              (''rawOutput'', JStr (stdout_before evs))]))
      \<and> (code = Some 0 \<longrightarrow>
           (\<forall>e. trim (stdout_before evs) \<noteq> [] \<and> parse (trim (stdout_before evs)) = Inl e \<longrightarrow>
              runDataAnalysisScript parse evs = Resolved (JObj
                [(''success'', JBool False),
                 (''error'', JStr (msg_parse_failed @ error_text (JsError ''SyntaxError'' e))),
                 (''rawOutput'', JStr (stdout_before evs))]))
         \<and> (\<forall>v. trim (stdout_before evs) \<noteq> [] \<and> parse (trim (stdout_before evs)) = Inr v \<longrightarrow>
              runDataAnalysisScript parse evs = Resolved v)
         \<and> (trim (stdout_before evs) = [] \<and> parse no_data_text = Inr no_data_object \<longrightarrow>
              runDataAnalysisScript parse evs = Resolved no_data_object)))"
  using first_settling_not_data [of evs]
  by (auto simp: runDataAnalysisScript_eq analysis_on_close_def
           split: option.splits proc_event.splits)

theorem runDataAnalysisScript_rejects_iff_start_fails_witness:
  "runDataAnalysisScript
     (\<lambda>s. if s = no_data_text then Inr no_data_object
          else if s = ''[]'' then Inr (JArr []) else Inl ''Unexpected token'')
     [ErrorEvent ''spawn python3 ENOENT'', CloseEvent (Some (- 2))]
     = Rejected (msg_cannot_start @ ''spawn python3 ENOENT'')
   \<and> runDataAnalysisScript
     (\<lambda>s. if s = no_data_text then Inr no_data_object
          else if s = ''[]'' then Inr (JArr []) else Inl ''Unexpected token'')
     [StdoutData ''partial'', StderrData ''Traceback'', CloseEvent (Some 1)]
     = Resolved (JObj [(''success'', JBool False), (''error'', JStr ''Traceback''),
                       (''rawOutput'', JStr ''partial'')])
   \<and> runDataAnalysisScript
     (\<lambda>s. if s = no_data_text then Inr no_data_object
          else if s = ''[]'' then Inr (JArr []) else Inl ''Unexpected token'')
     [StdoutData ''not json'', CloseEvent (Some 0)]
     = Resolved (JObj [(''success'', JBool False),
                       (''error'', JStr (msg_parse_failed @ ''SyntaxError: Unexpected token'')),
                       (''rawOutput'', JStr ''not json'')])
   \<and> runDataAnalysisScript
     (\<lambda>s. if s = no_data_text then Inr no_data_object
          else if s = ''[]'' then Inr (JArr []) else Inl ''Unexpected token'')
     [StdoutData [CHR 0xEF, CHR 0xBB, CHR 0xBF, CHR ''[''], StdoutData [CHR '']'', CHR 0x0A],
      CloseEvent (Some 0)]
     = Resolved (JArr [])
   \<and> runDataAnalysisScript
     (\<lambda>s. if s = no_data_text then Inr no_data_object
          else if s = ''[]'' then Inr (JArr []) else Inl ''Unexpected token'')
     [StdoutData [CHR 0xC2, CHR 0xA0, CHR '' ''], CloseEvent (Some 0)]
     = Resolved no_data_object"
proof -
  let ?parse = "\<lambda>s. if s = no_data_text then Inr no_data_object
          else if s = ''[]'' then Inr (JArr []) else Inl ''Unexpected token''"
  have t1: "trim ''not json'' = ''not json''"
    by (simp add: trim_def strip_all.simps js_whitespace_def)
  have t2: "trim [CHR 0xEF, CHR 0xBB, CHR 0xBF, CHR ''['', CHR '']'', CHR 0x0A] = ''[]''"
    by (simp add: trim_def strip_all.simps js_whitespace_def)
  have t3: "trim [CHR 0xC2, CHR 0xA0, CHR '' ''] = []"
    by (simp add: trim_def strip_all.simps js_whitespace_def)
  have n: "no_data_text \<noteq> ''[]''" "no_data_text \<noteq> ''not json''"
      "''[]'' \<noteq> no_data_text" "''not json'' \<noteq> no_data_text"
    by (simp_all add: no_data_text_def)
  show ?thesis
    using
      runDataAnalysisScript_rejects_iff_start_fails
        [of ?parse "[ErrorEvent ''spawn python3 ENOENT'', CloseEvent (Some (- 2))]"]
      runDataAnalysisScript_rejects_iff_start_fails
        [of ?parse "[StdoutData ''partial'', StderrData ''Traceback'', CloseEvent (Some 1)]"]
      runDataAnalysisScript_rejects_iff_start_fails
        [of ?parse "[StdoutData ''not json'', CloseEvent (Some 0)]"]
      runDataAnalysisScript_rejects_iff_start_fails
        [of ?parse "[StdoutData [CHR 0xEF, CHR 0xBB, CHR 0xBF, CHR ''[''],
                     StdoutData [CHR '']'', CHR 0x0A], CloseEvent (Some 0)]"]
      runDataAnalysisScript_rejects_iff_start_fails
        [of ?parse "[StdoutData [CHR 0xC2, CHR 0xA0, CHR '' ''], CloseEvent (Some 0)]"]
    by (simp add: t1 t2 t3 n cong: if_cong)
qed

subsection \<open>The shapes of the responses\<close>

text \<open>
  C1, as stated, fails. A helper that exits with code 1 makes \<open>runDataAnalysisScript\<close>
  resolve to an object whose \<open>error\<close> is a string, which is neither of the two envelopes;
  and \<open>get_dashboard_data\<close> forwards a summary's own \<open>error\<close> entry, here a string.
\<close>

theorem response_envelope_counterexample:
  "runDataAnalysisScript (\<lambda>s. Inl ''Unexpected token'') [StderrData ''Traceback'', CloseEvent (Some 1)]
     = Resolved (JObj [(''success'', JBool False), (''error'', JStr ''Traceback''),
                       (''rawOutput'', JStr [])])
   \<and> \<not> is_success_envelope (JObj [(''success'', JBool False), (''error'', JStr ''Traceback''),
                       (''rawOutput'', JStr [])])
   \<and> \<not> is_failure_envelope (JObj [(''success'', JBool False), (''error'', JStr ''Traceback''),
                       (''rawOutput'', JStr [])])
   \<and> \<not> is_success_envelope
         (get_dashboard_data ''t'' (Inr (JObj [(''error'', JStr ''no connection'')])))
   \<and> \<not> is_failure_envelope
         (get_dashboard_data ''t'' (Inr (JObj [(''error'', JStr ''no connection'')])))"
  by (simp add: runDataAnalysisScript_eq analysis_on_close_def is_success_envelope_def
        is_failure_envelope_def is_error_triple_def)

text \<open>
  C1, amended. Whatever the events, a value \<open>runDataAnalysisScript\<close> resolves to is
  either a value \<open>JSON.parse\<close> returned, forwarded as it is, or the object
  \<open>{success: false, error: <string>, rawOutput: <string>}\<close>. \<open>get_dashboard_data\<close> always
  returns an object with the four fields \<open>success\<close>, \<open>data\<close>, \<open>error\<close>,
  \<open>generated_at\<close>: with \<open>success = true\<close>, some data and \<open>error = null\<close>, or with
  \<open>success = false\<close>, \<open>data = null\<close> and an error that is the summary's own \<open>error\<close>
  entry or, after an exception, the code/message/details triple.
\<close>

theorem response_shapes:
  "(\<forall>r. runDataAnalysisScript parse evs = Resolved r \<longrightarrow>
        (\<exists>text. parse text = Inr r) \<or> (\<exists>e out. r = script_failure e out))
   \<and> ((\<exists>d. get_dashboard_data now summary =
          JObj [(''success'', JBool True), (''data'', d), (''error'', JNull),
                (''generated_at'', JStr now)]
          \<and> is_success_envelope (get_dashboard_data now summary))
     \<or> (\<exists>e. get_dashboard_data now summary =
          JObj [(''success'', JBool False), (''error'', e), (''data'', JNull),
                (''generated_at'', JStr now)]
          \<and> ((\<exists>kv. summary = Inr (JObj kv) \<and> map_of kv ''error'' = Some e)
               \<or> ((\<exists>m. summary = Inl m) \<and> is_error_triple e))))"
proof -
  have a: "\<forall>r. runDataAnalysisScript parse evs = Resolved r \<longrightarrow>
        (\<exists>text. parse text = Inr r) \<or> (\<exists>e out. r = script_failure e out)"
    using first_settling_not_data [of evs]
    by (auto simp: runDataAnalysisScript_eq analysis_on_close_def script_failure_def
             split: option.splits proc_event.splits sum.splits if_splits)
  have b: "(\<exists>d. get_dashboard_data now summary =
          JObj [(''success'', JBool True), (''data'', d), (''error'', JNull),
                (''generated_at'', JStr now)]
          \<and> is_success_envelope (get_dashboard_data now summary))
     \<or> (\<exists>e. get_dashboard_data now summary =
          JObj [(''success'', JBool False), (''error'', e), (''data'', JNull),
                (''generated_at'', JStr now)]
          \<and> ((\<exists>kv. summary = Inr (JObj kv) \<and> map_of kv ''error'' = Some e)
               \<or> ((\<exists>m. summary = Inl m) \<and> is_error_triple e)))"
  proof (cases summary)
    case (Inl m)
    then show ?thesis by (simp add: is_error_triple_def)
  next
    case (Inr v)
    then show ?thesis
      by (cases v) (auto simp: is_success_envelope_def)
  qed
  from a b show ?thesis by blast
qed

theorem response_shapes_witness:
  "runDataAnalysisScript (\<lambda>s. Inl ''Unexpected token'') [StdoutData ''<html>'', CloseEvent (Some 0)]
     = Resolved (script_failure (msg_parse_failed @ ''SyntaxError: Unexpected token'') ''<html>'')
   \<and> get_dashboard_data ''2025-07-23'' (Inr (JObj [(''error'', JStr ''no connection'')]))
     = JObj [(''success'', JBool False), (''error'', JStr ''no connection''), (''data'', JNull),
             (''generated_at'', JStr ''2025-07-23'')]"
  using response_shapes [of "\<lambda>s. Inl ''Unexpected token''"
      "[StdoutData ''<html>'', CloseEvent (Some 0)]" "''2025-07-23''"
      "Inr (JObj [(''error'', JStr ''no connection'')])"]
  by (simp add: runDataAnalysisScript_eq analysis_on_close_def script_failure_def)

subsection \<open>The connection check of the tree view\<close>

lemma checkConnection_try_connected:
  "checkConnection_try parse p out = Inr p' \<Longrightarrow> isConnected p'"
  by (auto simp: checkConnection_try_def loadDefaultCollections_def showWarningMessage_def
           split: sum.splits if_splits option.splits)

lemma collection_item_context:
  "collection_item m n = Some item \<Longrightarrow> contextValue item = Some ''table''"
  by (auto simp: collection_item_def Let_def TreeItem_def split: option.splits)

lemma checkConnection_try_backend_error:
  "parse out = Inr res \<Longrightarrow> member res ''error'' = Inr e \<Longrightarrow> truthy e \<Longrightarrow>
   (\<exists>p'. checkConnection_try parse p out = Inr p' \<and>
        collections p' = JArr (map (\<lambda>kv. JStr (fst kv)) (tableMapping p)))
   \<or> (\<exists>e'. checkConnection_try parse p out = Inl e')"
  by (simp add: checkConnection_try_def loadDefaultCollections_def showWarningMessage_def
           split: option.splits)

lemma checkConnection_try_throws:
  "parse out = Inl e \<or> (\<exists>res. parse out = Inr res \<and> res = JNull) \<Longrightarrow>
   \<exists>e'. checkConnection_try parse p out = Inl e'"
  by (auto simp: checkConnection_try_def)

lemma disconnected_items_differ:
  "isConnected p \<Longrightarrow> fst (getChildren p element) \<noteq> [connectItem, testItem]"
proof -
  assume c: "isConnected p"
  have a: "those (map (collection_item m) names) \<noteq> Some [connectItem, testItem]" for m names
  proof
    assume h: "those (map (collection_item m) names) = Some [connectItem, testItem]"
    then obtain n ns where "names = n # ns" by (cases names) auto
    with h have "collection_item m n = Some connectItem" by (auto split: option.splits)
    then have "contextValue connectItem = Some ''table''"
      by (rule collection_item_context)
    then show False
      by (simp add: connectItem_def TreeItem_def)
  qed
  have b: "length getBusinessViewsAsTreeItems = 8" "length getManagementViewsAsTreeItems = 3"
    by (simp_all add: getBusinessViewsAsTreeItems_def view_list_business_def
          getManagementViewsAsTreeItems_def view_list_management_def)
  have b1: "getBusinessViewsAsTreeItems \<noteq> [connectItem, testItem]"
  proof
    assume "getBusinessViewsAsTreeItems = [connectItem, testItem]"
    then have "length getBusinessViewsAsTreeItems = length [connectItem, testItem]"
      by (rule arg_cong)
    with b(1) show False by simp
  qed
  have b2: "getManagementViewsAsTreeItems \<noteq> [connectItem, testItem]"
  proof
    assume "getManagementViewsAsTreeItems = [connectItem, testItem]"
    then have "length getManagementViewsAsTreeItems = length [connectItem, testItem]"
      by (rule arg_cong)
    with b(2) show False by simp
  qed
  show ?thesis
  proof (cases element)
    case None
    with c show ?thesis by (simp add: getChildren_def)
  next
    case (Some el)
    with c a b1 b2 show ?thesis
      by (auto simp: getChildren_def getCollectionsAsTreeItems_def
               split: json.splits option.splits)
  qed
qed

text \<open>
  C8. Whatever \<open>exec\<close> reports, the callback of \<open>checkConnection\<close> sets
  \<open>isConnected\<close> to true and then refreshes; on every failure path (an exec error or
  text on standard error, output that does not parse or parses to \<open>null\<close>, an
  \<open>error\<close> reported in the output) \<open>collections\<close> becomes the keys of
  \<open>tableMapping\<close>. So after a completed check \<open>getChildren\<close> never returns the two
  items of the "database not connected" branch.
\<close>

theorem checkConnection_always_connects:
  "(\<exists>q. checkConnection_callback parse p r = refresh q \<and> isConnected q)
   \<and> isConnected (checkConnection_callback parse p r)
   \<and> (exec_error r \<noteq> None \<or> exec_stderr r \<noteq> []
        \<or> (\<exists>e. parse (exec_stdout r) = Inl e)
        \<or> parse (exec_stdout r) = Inr JNull
        \<or> (\<exists>res e. parse (exec_stdout r) = Inr res \<and> member res ''error'' = Inr e \<and> truthy e)
      \<longrightarrow> collections (checkConnection_callback parse p r)
            = JArr (map (\<lambda>kv. JStr (fst kv)) (tableMapping p)))
   \<and> (\<forall>element. fst (getChildren (checkConnection_callback parse p r) element)
          \<noteq> [connectItem, testItem])"
proof -
  define q where "q =
       (if exec_error r \<noteq> None \<or> exec_stderr r \<noteq> [] then
          loadDefaultCollections
            ((showWarningMessage
                (msg_fetch_failed @
                   (if exec_stderr r \<noteq> [] then exec_stderr r else msg_unknown_error))
                p)\<lparr>isConnected := True\<rparr>)
        else
          (case checkConnection_try parse p (exec_stdout r) of
             Inr p' \<Rightarrow> p'
           | Inl e \<Rightarrow>
               loadDefaultCollections
                 ((showWarningMessage msg_parse_error p)\<lparr>isConnected := True\<rparr>)))"
  have eq: "checkConnection_callback parse p r = refresh q"
    by (simp add: checkConnection_callback_def q_def)
  have conn: "isConnected q"
    by (auto simp: q_def loadDefaultCollections_def showWarningMessage_def
             split: sum.splits dest: checkConnection_try_connected)
  have conn': "isConnected (checkConnection_callback parse p r)"
    using conn by (simp add: eq refresh_def)
  have coll: "collections (checkConnection_callback parse p r)
            = JArr (map (\<lambda>kv. JStr (fst kv)) (tableMapping p))"
    if "exec_error r \<noteq> None \<or> exec_stderr r \<noteq> []
        \<or> (\<exists>e. parse (exec_stdout r) = Inl e)
        \<or> parse (exec_stdout r) = Inr JNull
        \<or> (\<exists>res e. parse (exec_stdout r) = Inr res \<and> member res ''error'' = Inr e \<and> truthy e)"
  proof (cases "exec_error r \<noteq> None \<or> exec_stderr r \<noteq> []")
    case True
    then show ?thesis
      by (simp add: eq q_def refresh_def loadDefaultCollections_def showWarningMessage_def)
  next
    case False
    with that consider
        (throws) "(\<exists>e. parse (exec_stdout r) = Inl e) \<or> parse (exec_stdout r) = Inr JNull"
      | (backend) res e where "parse (exec_stdout r) = Inr res" "member res ''error'' = Inr e"
          "truthy e"
      by blast
    then show ?thesis
    proof cases
      case throws
      then obtain e' where "checkConnection_try parse p (exec_stdout r) = Inl e'"
        using checkConnection_try_throws [of parse "exec_stdout r" _ p] by blast
      with False show ?thesis
        by (simp add: eq q_def refresh_def loadDefaultCollections_def showWarningMessage_def)
    next
      case backend
      then consider
          (shown) p' where "checkConnection_try parse p (exec_stdout r) = Inr p'"
            "collections p' = JArr (map (\<lambda>kv. JStr (fst kv)) (tableMapping p))"
        | (thrown) e' where "checkConnection_try parse p (exec_stdout r) = Inl e'"
        using checkConnection_try_backend_error [where parse = parse and p = p] by blast
      then show ?thesis
      proof cases
        case shown
        with False show ?thesis
          by (simp add: eq q_def refresh_def)
      next
        case thrown
        with False show ?thesis
          by (simp add: eq q_def refresh_def loadDefaultCollections_def showWarningMessage_def)
      qed
    qed
  qed
  from eq conn conn' coll disconnected_items_differ [OF conn'] show ?thesis by blast
qed

theorem checkConnection_always_connects_witness:
  "isConnected (checkConnection_callback (\<lambda>s. Inl ''Unexpected end of JSON input'')
      (tree_provider_new\<lparr>tableMapping := [(''materials'', JStr ''m''), (''suppliers'', JStr ''s'')]\<rparr>)
      \<lparr> exec_error = Some ''Command failed'', exec_stdout = [], exec_stderr = [] \<rparr>)
   \<and> collections (checkConnection_callback (\<lambda>s. Inl ''Unexpected end of JSON input'')
      (tree_provider_new\<lparr>tableMapping := [(''materials'', JStr ''m''), (''suppliers'', JStr ''s'')]\<rparr>)
      \<lparr> exec_error = Some ''Command failed'', exec_stdout = [], exec_stderr = [] \<rparr>)
     = JArr [JStr ''materials'', JStr ''suppliers'']
   \<and> fst (getChildren (checkConnection_callback (\<lambda>s. Inl ''Unexpected end of JSON input'')
      (tree_provider_new\<lparr>tableMapping := [(''materials'', JStr ''m''), (''suppliers'', JStr ''s'')]\<rparr>)
      \<lparr> exec_error = Some ''Command failed'', exec_stdout = [], exec_stderr = [] \<rparr>) None)
     \<noteq> [connectItem, testItem]"
  using checkConnection_always_connects [of "\<lambda>s. Inl ''Unexpected end of JSON input''"
      "tree_provider_new\<lparr>tableMapping := [(''materials'', JStr ''m''), (''suppliers'', JStr ''s'')]\<rparr>"
      "\<lparr> exec_error = Some ''Command failed'', exec_stdout = [], exec_stderr = [] \<rparr>"]
  by (simp add: tree_provider_new_def)

subsection \<open>show is idempotent while a panel exists\<close>

text \<open>
  C9. For every provider kind: when \<open>_panel\<close> is defined, \<open>show\<close> only reveals it
  (no panel is created, the page, the listeners, the subscriptions and the posted messages
  stay as they are); a second \<open>show\<close> changes nothing after the first; \<open>show\<close>
  creates a panel exactly when \<open>_panel\<close> is undefined, which after a \<open>show\<close> is the case
  again only once the panel has been disposed (a panel made by \<open>show\<close> has its dispose
  listener; the last part is stated for providers whose panel, if any, has one).
\<close>

theorem show_idempotent:
  "show_panel k page' (show_panel k page s) = show_panel k page s
   \<and> (\<forall>p. panel s = Some p \<longrightarrow>
         show_panel k page s = s\<lparr>panel := Some (reveal ViewColumn_One p)\<rparr>
         \<and> panels_created (show_panel k page s) = panels_created s
         \<and> subscriptions (show_panel k page s) = subscriptions s
         \<and> (\<exists>p'. panel (show_panel k page s) = Some p' \<and> html p' = html p
               \<and> message_listeners p' = message_listeners p
               \<and> dispose_listeners p' = dispose_listeners p
               \<and> posted p' = posted p))
   \<and> (panels_created (show_panel k page s) = panels_created s + 1 \<longleftrightarrow> panel s = None)
   \<and> panel (show_panel k page s) \<noteq> None
   \<and> ((\<forall>p. panel s = Some p \<longrightarrow> 0 < dispose_listeners p) \<longrightarrow>
        panel (panel_disposed (show_panel k page s)) = None
        \<and> panels_created (show_panel k page' (panel_disposed (show_panel k page s)))
            = panels_created (show_panel k page s) + 1)"
  by (cases "panel s")
     (auto simp: show_panel_def reveal_def createWebviewPanel_def panel_disposed_def Let_def)

theorem show_idempotent_witness:
  "show_panel MaterialWebviewProvider ''<html>2</html>''
     (show_panel MaterialWebviewProvider ''<html>1</html>'' provider_new)
     = show_panel MaterialWebviewProvider ''<html>1</html>'' provider_new
   \<and> panels_created (show_panel MaterialWebviewProvider ''<html>2</html>''
        (show_panel MaterialWebviewProvider ''<html>1</html>'' provider_new)) = 1
   \<and> panels_created (show_panel MaterialWebviewProvider ''<html>2</html>''
        (panel_disposed (show_panel MaterialWebviewProvider ''<html>1</html>'' provider_new))) = 2"
  using show_idempotent [of MaterialWebviewProvider "''<html>2</html>''" "''<html>1</html>''"
      provider_new]
    show_idempotent [of MaterialWebviewProvider "''<html>1</html>''" "''<html>1</html>''"
      "show_panel MaterialWebviewProvider ''<html>1</html>'' provider_new"]
  by (simp add: show_panel_def provider_new_def Let_def createWebviewPanel_def reveal_def
        panel_disposed_def)

subsection \<open>What happens when a helper script fails\<close>













subsection \<open>How many processes an action starts\<close>

lemma supplier_exec_launched:
  "launched (snd (supplier_executePythonScript h parse sh command args s))
     = launched s @ [supplier_launch h command args]"
  by (simp add: supplier_executePythonScript_def run_exec_def showError_def
        split: option.splits sum.splits)

lemma customer_exec_launched:
  "launched (snd (customer_executePythonScript h stringify parse sh operation data s))
     = launched s @ (case workspacePath h of None \<Rightarrow> []
                     | Some ws \<Rightarrow> [customer_launch ws stringify operation data])"
  by (simp add: customer_executePythonScript_def run_exec_def
        split: option.splits sum.splits)

lemma material_exec_launched:
  "launched (snd (material_executePythonScript h stringify parse sh command data s))
     = launched s @ (case workspacePath h of None \<Rightarrow> []
                     | Some ws \<Rightarrow> [material_launch ws stringify command data])"
  by (simp add: material_executePythonScript_def run_exec_def
        split: option.splits sum.splits)

lemma sendMessage_launched [simp]: "launched (sendMessage m s) = launched s"
  by (simp add: sendMessage_def split: option.splits)

lemma run_spawn_launched [simp]: "launched (snd (run_spawn sp l s)) = launched s @ [l]"
  by (simp add: run_spawn_def)

lemma run_exec_launched [simp]: "launched (snd (run_exec sh l s)) = launched s @ [l]"
  by (simp add: run_exec_def)

text \<open>The \<open>command\<close> field, however the handler reads it.\<close>

lemma command_of_read:
  "read_property message ''command'' = Inr c \<Longrightarrow> command_of message = c"
  by (cases message; cases "the message")
     (auto simp: read_property_def command_of_def split: option.splits)

lemma command_of_destructure:
  "destructure message ''command'' = Inr get \<Longrightarrow> command_of message = get ''command''"
  by (cases message; cases "the message")
     (auto simp: destructure_def command_of_def split: option.splits json.splits)

text \<open>The handlers that start at most one process.\<close>

lemma view_onMessage_launched:
  "launched (view_onMessage h parse sp viewName message s) = launched s
   \<or> (\<exists>l. launched (view_onMessage h parse sp viewName message s) = launched s @ [l])"
  by (simp add: view_onMessage_def view_load_def
        split: sum.splits option.splits json.splits)

lemma inventory_onMessage_launched:
  "launched (inventory_onMessage h sp message s) = launched s
   \<or> (\<exists>l. launched (inventory_onMessage h sp message s) = launched s @ [l])"
proof (cases "read_property message ''command''")
  case (Inl e)
  then show ?thesis by (simp add: inventory_onMessage_def)
next
  case command: (Inr command)
  show ?thesis
  proof (cases "read_property message ''action''")
    case (Inl e)
    with command show ?thesis by (simp add: inventory_onMessage_def)
  next
    case action: (Inr action)
    define selector where "selector = (if truthy command then command else action)"
    have eq: "inventory_onMessage h sp message s =
        (case selector of
           Some (JStr name) \<Rightarrow>
             (case map_of inventory_scripts name of
                Some (script, args) \<Rightarrow>
                  snd (run_spawn sp (script_launch h script (texts args) []) s)
              | None \<Rightarrow>
                  if name = ''runPython'' then
                    (case read_property message ''data'' of
                       Inl e \<Rightarrow> s
                     | Inr data \<Rightarrow>
                         (case js_string_opt data of
                            None \<Rightarrow> s
                          | Some text \<Rightarrow>
                              snd (run_spawn sp
                                (script_launch h ''inventory_management_handler.py''
                                   [data] []) s)))
                  else s)
         | other \<Rightarrow> s)"
      using command action by (simp add: inventory_onMessage_def Let_def selector_def)
    show ?thesis
    proof (cases "\<exists>name. selector = Some (JStr name)")
      case False
      then have "inventory_onMessage h sp message s = s"
        unfolding eq by (cases selector; cases "the selector") auto
      then show ?thesis by simp
    next
      case True
      then obtain name where name: "selector = Some (JStr name)" by blast
      show ?thesis
      proof (cases "map_of inventory_scripts name")
        case (Some entry)
        with name show ?thesis unfolding eq by (cases entry) simp
      next
        case None
        with name show ?thesis
          unfolding eq by (simp split: sum.splits option.splits)
      qed
    qed
  qed
qed

lemma analysis_onMessage_launched:
  "launched (analysis_onMessage h stringify sp message s) = launched s
   \<or> (\<exists>l. launched (analysis_onMessage h stringify sp message s) = launched s @ [l])"
  by (simp add: analysis_onMessage_def
        split: sum.splits option.splits json.splits)

lemma dataEntry_handleMessage_launched:
  "launched (dataEntry_handleMessage h stringify sp message s) = launched s
   \<or> (\<exists>l. launched (dataEntry_handleMessage h stringify sp message s) = launched s @ [l])"
  by (simp add: dataEntry_handleMessage_def split: sum.splits)

lemma dashboard_handleMessage_launched:
  "launched (dashboard_handleMessage h stringify parse sh message s) = launched s
   \<or> (\<exists>l. launched (dashboard_handleMessage h stringify parse sh message s) = launched s @ [l])"
  by (simp add: dashboard_handleMessage_def dashboard_getDashboardData_def
        dashboard_executePythonScript_def run_exec_def
        split: sum.splits option.splits prod.splits)

lemma showAddMaterialDialog_launched:
  "launched (showAddMaterialDialog h stringify sp answers s) = launched s
   \<or> (\<exists>l. launched (showAddMaterialDialog h stringify sp answers s) = launched s @ [l])"
  by (simp add: showAddMaterialDialog_def split: option.splits)

text \<open>The import commands.\<close>

lemma run_two_scripts_launched:
  "launched (run_two_scripts h sp first firstArgs second secondArgs s)
     = launched s @ [runScript_launch h first firstArgs]
   \<or> launched (run_two_scripts h sp first firstArgs second secondArgs s)
     = launched s @ [runScript_launch h first firstArgs, runScript_launch h second secondArgs]"
  by (simp add: run_two_scripts_def run_spawn_def split: promise.splits)

lemma convertToJson_launched:
  "launched (file_command (runExcelToJsonProcess h sp) args s) = launched s
   \<or> (\<exists>l. launched (file_command (runExcelToJsonProcess h sp) args s) = launched s @ [l])
   \<or> (\<exists>l. launched (file_command (runExcelToJsonProcess h sp) args s)
          = launched s @ [l, runScript_launch h ''generate_standard_material_table.py''
                               (texts [''--docs-dir'', docsDirectory h])])"
proof -
  have "launched (runExcelToJsonProcess h sp excelPath s) = launched s
   \<or> (\<exists>l. launched (runExcelToJsonProcess h sp excelPath s) = launched s @ [l])
   \<or> (\<exists>l. launched (runExcelToJsonProcess h sp excelPath s)
          = launched s @ [l, runScript_launch h ''generate_standard_material_table.py''
                               (texts [''--docs-dir'', docsDirectory h])])" for excelPath
    using run_two_scripts_launched [of h sp "''parse_manager.py''"
        "[excelPath, Some (JStr (path_join [docsDirectory h, ''parsed_data.json'']))]"
        "''generate_standard_material_table.py''" "texts [''--docs-dir'', docsDirectory h]" s]
    by (cases "js_string_opt excelPath") (auto simp: runExcelToJsonProcess_def Let_def)
  then show ?thesis
    by (simp add: file_command_def Let_def split: sum.splits)
qed

lemma migrateToNewFormat_launched:
  "launched (file_command (runMigrationProcess h sp) args s) = launched s
   \<or> (\<exists>l. launched (file_command (runMigrationProcess h sp) args s) = launched s @ [l])
   \<or> (\<exists>l. launched (file_command (runMigrationProcess h sp) args s)
          = launched s @ [l, runScript_launch h ''verify_import.py'' []])"
proof -
  have "launched (runMigrationProcess h sp excelPath s) = launched s
   \<or> (\<exists>l. launched (runMigrationProcess h sp excelPath s) = launched s @ [l])
   \<or> (\<exists>l. launched (runMigrationProcess h sp excelPath s)
          = launched s @ [l, runScript_launch h ''verify_import.py'' []])" for excelPath
    using run_two_scripts_launched [of h sp "''import_to_mongodb_with_standard_codes.py''"
        "[]" "''verify_import.py''" "[]" s]
    by (cases "js_string_opt excelPath") (auto simp: runMigrationProcess_def)
  then show ?thesis
    by (simp add: file_command_def Let_def split: sum.splits)
qed

text \<open>The table data panel.\<close>

lemma crud_data_events:
  "crud_state (foldl (handleCrudOperation_on_event h parse sp tableName data) r
                 (map chunk_event chunks)) = crud_state r"
proof (induction chunks arbitrary: r)
  case Nil
  then show ?case by simp
next
  case (Cons c cs)
  then show ?case by (cases c) simp_all
qed

lemma crud_on_close_launched:
  "launched (handleCrudOperation_on_close h parse sp tableName data out code s) = launched s
   \<or> launched (handleCrudOperation_on_close h parse sp tableName data out code s)
       = launched s @ [loadTableData_launch h tableName]"
  by (simp add: handleCrudOperation_on_close_def loadTableData_def split: sum.splits)

lemma crud_run_state:
  "\<exists>out code. crud_state (foldl (handleCrudOperation_on_event h parse sp tableName data)
                    \<lparr> crud_stdout = [], crud_state = s1 \<rparr> (events_of run)) = s1
     \<or> crud_state (foldl (handleCrudOperation_on_event h parse sp tableName data)
                    \<lparr> crud_stdout = [], crud_state = s1 \<rparr> (events_of run))
         = handleCrudOperation_on_close h parse sp tableName data out code s1"
proof (cases run)
  case (Completes chunks code)
  let ?r = "foldl (handleCrudOperation_on_event h parse sp tableName data)
              \<lparr> crud_stdout = [], crud_state = s1 \<rparr> (map chunk_event chunks)"
  have "crud_state ?r = s1" by (simp add: crud_data_events)
  then have "crud_state (foldl (handleCrudOperation_on_event h parse sp tableName data)
                    \<lparr> crud_stdout = [], crud_state = s1 \<rparr> (events_of run))
         = handleCrudOperation_on_close h parse sp tableName data (crud_stdout ?r) code s1"
    using Completes by simp
  then show ?thesis by blast
next
  case (FailsToStart m code)
  then have "crud_state (foldl (handleCrudOperation_on_event h parse sp tableName data)
                    \<lparr> crud_stdout = [], crud_state = s1 \<rparr> (events_of run))
         = handleCrudOperation_on_close h parse sp tableName data [] code s1"
    by simp
  then show ?thesis by blast
next
  case (Hangs chunks)
  then show ?thesis by (simp add: crud_data_events)
qed

lemma handleCrudOperation_launched:
  "(\<exists>l. launched (handleCrudOperation h stringify parse sp tableName operation data s)
          = launched s @ [l])
   \<or> (\<exists>l. launched (handleCrudOperation h stringify parse sp tableName operation data s)
          = launched s @ [l, loadTableData_launch h tableName])"
proof -
  define l where "l = handleCrudOperation_launch h stringify tableName operation data"
  define s1 where "s1 = snd (run_spawn sp l s)"
  define run where "run = fst (run_spawn sp l s)"
  have s1: "launched s1 = launched s @ [l]" by (simp add: s1_def)
  have eq: "handleCrudOperation h stringify parse sp tableName operation data s
      = crud_state (foldl (handleCrudOperation_on_event h parse sp tableName data)
                      \<lparr> crud_stdout = [], crud_state = s1 \<rparr> (events_of run))"
    by (simp add: handleCrudOperation_def l_def s1_def run_def split: prod.splits)
  from crud_run_state [of h parse sp tableName data s1 run]
  obtain out code where
    "handleCrudOperation h stringify parse sp tableName operation data s = s1
     \<or> handleCrudOperation h stringify parse sp tableName operation data s
         = handleCrudOperation_on_close h parse sp tableName data out code s1"
    unfolding eq by blast
  then show ?thesis
    using s1 crud_on_close_launched [of h parse sp tableName data out code s1]
    by auto
qed

lemma table_onMessage_launched:
  "launched (table_onMessage h stringify parse sp tableName message s) = launched s
   \<or> (\<exists>l. launched (table_onMessage h stringify parse sp tableName message s)
          = launched s @ [l])
   \<or> (command_of message \<in> {Some (JStr ''addRecord''), Some (JStr ''updateRecord''),
                               Some (JStr ''deleteRecord'')}
      \<and> (\<exists>l. launched (table_onMessage h stringify parse sp tableName message s)
          = launched s @ [l, loadTableData_launch h tableName]))"
proof (cases "read_property message ''command''")
  case (Inl e)
  then show ?thesis by (simp add: table_onMessage_def)
next
  case (Inr command)
  then have c: "command_of message = command" by (rule command_of_read)
  have crud: "launched s' = launched s \<or> (\<exists>l. launched s' = launched s @ [l])
       \<or> (command_of message \<in> {Some (JStr ''addRecord''), Some (JStr ''updateRecord''),
                               Some (JStr ''deleteRecord'')}
          \<and> (\<exists>l. launched s' = launched s @ [l, loadTableData_launch h tableName]))"
    if "s' = handleCrudOperation h stringify parse sp tableName operation data s"
      "command_of message \<in> {Some (JStr ''addRecord''), Some (JStr ''updateRecord''),
                               Some (JStr ''deleteRecord'')}"
    for s' operation data
    using handleCrudOperation_launched [of h stringify parse sp tableName operation data s]
      that
    by blast
  have unchanged: "launched s' = launched s \<or> (\<exists>l. launched s' = launched s @ [l])
       \<or> (command_of message \<in> {Some (JStr ''addRecord''), Some (JStr ''updateRecord''),
                               Some (JStr ''deleteRecord'')}
          \<and> (\<exists>l. launched s' = launched s @ [l, loadTableData_launch h tableName]))"
    if "s' = s" for s'
    using that by simp
  consider (load) "command = Some (JStr ''loadData'') \<or> command = Some (JStr ''refresh'')"
    | (add) "command = Some (JStr ''addRecord'')"
    | (update) "command = Some (JStr ''updateRecord'')"
    | (delete) "command = Some (JStr ''deleteRecord'')"
    | (other) "command \<noteq> Some (JStr ''loadData'')" "command \<noteq> Some (JStr ''refresh'')"
         "command \<noteq> Some (JStr ''addRecord'')" "command \<noteq> Some (JStr ''updateRecord'')"
         "command \<noteq> Some (JStr ''deleteRecord'')"
    by blast
  then show ?thesis
  proof cases
    case load
    with Inr have "table_onMessage h stringify parse sp tableName message s
        = loadTableData h sp tableName s"
      by (auto simp: table_onMessage_def)
    then show ?thesis by (simp add: loadTableData_def)
  next
    case add
    then have m: "command_of message \<in> {Some (JStr ''addRecord''),
        Some (JStr ''updateRecord''), Some (JStr ''deleteRecord'')}"
      using c by simp
    show ?thesis
    proof (cases "read_property message ''data''")
      case (Inl e)
      with Inr add have "table_onMessage h stringify parse sp tableName message s = s"
        by (simp add: table_onMessage_def)
      then show ?thesis by (rule unchanged)
    next
      case data: (Inr data)
      with Inr add have "table_onMessage h stringify parse sp tableName message s
          = handleCrudOperation h stringify parse sp tableName ''add'' data s"
        by (simp add: table_onMessage_def)
      then show ?thesis using m by (rule crud)
    qed
  next
    case update
    then have m: "command_of message \<in> {Some (JStr ''addRecord''),
        Some (JStr ''updateRecord''), Some (JStr ''deleteRecord'')}"
      using c by simp
    show ?thesis
    proof (cases "read_property message ''data''")
      case (Inl e)
      with Inr update have "table_onMessage h stringify parse sp tableName message s = s"
        by (simp add: table_onMessage_def)
      then show ?thesis by (rule unchanged)
    next
      case data: (Inr data)
      with Inr update have "table_onMessage h stringify parse sp tableName message s
          = handleCrudOperation h stringify parse sp tableName ''update'' data s"
        by (simp add: table_onMessage_def)
      then show ?thesis using m by (rule crud)
    qed
  next
    case delete
    then have m: "command_of message \<in> {Some (JStr ''addRecord''),
        Some (JStr ''updateRecord''), Some (JStr ''deleteRecord'')}"
      using c by simp
    show ?thesis
    proof (cases "read_property message ''id''")
      case (Inl e)
      with Inr delete have "table_onMessage h stringify parse sp tableName message s = s"
        by (simp add: table_onMessage_def)
      then show ?thesis by (rule unchanged)
    next
      case id: (Inr recordId)
      show ?thesis
      proof (cases "read_property message ''type''")
        case (Inl e)
        with Inr delete id
        have "table_onMessage h stringify parse sp tableName message s = s"
          by (simp add: table_onMessage_def)
        then show ?thesis by (rule unchanged)
      next
        case type: (Inr recordType)
        with Inr delete id
        have "table_onMessage h stringify parse sp tableName message s
            = handleCrudOperation h stringify parse sp tableName ''delete''
                (Some (JObj (entry ''_id'' recordId @ entry ''type'' recordType))) s"
          by (simp add: table_onMessage_def)
        then show ?thesis using m by (rule crud)
      qed
    qed
  next
    case other
    with Inr have "table_onMessage h stringify parse sp tableName message s = s"
      by (simp add: table_onMessage_def)
    then show ?thesis by (rule unchanged)
  qed
qed

text \<open>The material provider.\<close>

lemma material_call_launched:
  "launched (material_call h stringify parse sh command data s)
     = launched s @ (case workspacePath h of None \<Rightarrow> []
                     | Some ws \<Rightarrow> [material_launch ws stringify command data])"
  by (simp add: material_call_def material_exec_launched)

lemma material_assign_launched:
  "launched (material_assignSupplierCodes h stringify parse sh s) = launched s
   \<or> (\<exists>l. launched (material_assignSupplierCodes h stringify parse sh s) = launched s @ [l])
   \<or> (\<exists>l ws. workspacePath h = Some ws
        \<and> launched (material_assignSupplierCodes h stringify parse sh s)
            = launched s @ [l, material_launch ws stringify ''loadSupplierCodes'' None])"
proof (cases "material_executePythonScript h stringify parse sh ''assignSupplierCodes'' None s")
  case (Pair res s1)
  have l: "launched s1 = launched s @ (case workspacePath h of None \<Rightarrow> []
                     | Some ws \<Rightarrow> [material_launch ws stringify ''assignSupplierCodes'' None])"
    using material_exec_launched [of h stringify parse sh "''assignSupplierCodes''" None s] Pair
    by simp
  show ?thesis
  proof (cases "workspacePath h")
    case None
    then have "res = Inl (JsError ''Error'' msg_no_workspace)"
      using Pair by (simp add: material_executePythonScript_def)
    with Pair l None show ?thesis by (simp add: material_assignSupplierCodes_def)
  next
    case (Some ws)
    with Pair l material_call_launched [of h stringify parse sh "''loadSupplierCodes''" None s1]
    show ?thesis
      by (auto simp: material_assignSupplierCodes_def split: sum.splits)
  qed
qed

lemma material_handleMessage_launched:
  "launched (material_handleMessage h stringify parse sh message s) = launched s
   \<or> (\<exists>l. launched (material_handleMessage h stringify parse sh message s) = launched s @ [l])
   \<or> (command_of message = Some (JStr ''assignSupplierCodes'')
      \<and> (\<exists>l ws. workspacePath h = Some ws
        \<and> launched (material_handleMessage h stringify parse sh message s)
            = launched s @ [l, material_launch ws stringify ''loadSupplierCodes'' None]))"
proof (cases "destructure message ''command''")
  case (Inl error)
  then show ?thesis by (simp add: material_handleMessage_def)
next
  case (Inr get)
  then have c: "command_of message = get ''command''" by (rule command_of_destructure)
  have one: "launched s' = launched s \<or> (\<exists>l. launched s' = launched s @ [l])"
    if "s' = material_call h stringify parse sh command data s" for s' command data
    using that by (cases "workspacePath h") (simp_all add: material_call_launched)
  consider (suppliers) "get ''command'' = Some (JStr ''loadSuppliers'')"
    | (add) "get ''command'' = Some (JStr ''addMaterial'')"
    | (materials) "get ''command'' = Some (JStr ''loadMaterials'')"
    | (codes) "get ''command'' = Some (JStr ''loadSupplierCodes'')"
    | (assign) "get ''command'' = Some (JStr ''assignSupplierCodes'')"
    | (export) "get ''command'' = Some (JStr ''exportMaterials'')"
    | (other) "get ''command'' \<noteq> Some (JStr ''loadSuppliers'')"
        "get ''command'' \<noteq> Some (JStr ''addMaterial'')"
        "get ''command'' \<noteq> Some (JStr ''loadMaterials'')"
        "get ''command'' \<noteq> Some (JStr ''loadSupplierCodes'')"
        "get ''command'' \<noteq> Some (JStr ''assignSupplierCodes'')"
        "get ''command'' \<noteq> Some (JStr ''exportMaterials'')"
    by blast
  then show ?thesis
  proof cases
    case suppliers
    with Inr have "material_handleMessage h stringify parse sh message s
        = material_call h stringify parse sh ''loadSuppliers'' None s"
      by (simp add: material_handleMessage_def)
    from one [OF this] show ?thesis by blast
  next
    case add
    with Inr have "material_handleMessage h stringify parse sh message s
        = material_call h stringify parse sh ''addMaterial'' (get ''data'') s"
      by (simp add: material_handleMessage_def)
    from one [OF this] show ?thesis by blast
  next
    case materials
    with Inr have "material_handleMessage h stringify parse sh message s
        = material_call h stringify parse sh ''loadMaterials'' None s"
      by (simp add: material_handleMessage_def)
    from one [OF this] show ?thesis by blast
  next
    case codes
    with Inr have "material_handleMessage h stringify parse sh message s
        = material_call h stringify parse sh ''loadSupplierCodes'' None s"
      by (simp add: material_handleMessage_def)
    from one [OF this] show ?thesis by blast
  next
    case assign
    with Inr have eq: "material_handleMessage h stringify parse sh message s
        = material_assignSupplierCodes h stringify parse sh s"
      by (simp add: material_handleMessage_def)
    from assign c have "command_of message = Some (JStr ''assignSupplierCodes'')" by simp
    with material_assign_launched [of h stringify parse sh s] show ?thesis
      unfolding eq by blast
  next
    case export
    with Inr have "material_handleMessage h stringify parse sh message s
        = material_call h stringify parse sh ''exportMaterials'' None s"
      by (simp add: material_handleMessage_def)
    from one [OF this] show ?thesis by blast
  next
    case other
    with Inr have "material_handleMessage h stringify parse sh message s = s"
      by (simp add: material_handleMessage_def)
    then show ?thesis by simp
  qed
qed

text \<open>The customer provider.\<close>

lemma customer_load_launched:
  "launched (snd (customer_loadCustomers h stringify parse sh data s))
     = launched s @ (case workspacePath h of None \<Rightarrow> []
                     | Some ws \<Rightarrow> [customer_launch ws stringify ''list'' data])"
  using customer_exec_launched [of h stringify parse sh "''list''" data s]
  by (auto simp: customer_loadCustomers_def split: prod.splits sum.splits)

lemma customer_modify_launched:
  "\<exists>new. launched (snd (customer_modify h stringify parse sh operation posted_as data s))
            = launched s @ new
     \<and> (new = []
        \<or> (\<exists>ws. workspacePath h = Some ws \<and>
              (new = [customer_launch ws stringify operation data]
               \<or> new = [customer_launch ws stringify operation data,
                         customer_launch ws stringify ''list'' (Some (JObj []))])))"
proof (cases "customer_executePythonScript h stringify parse sh operation data s")
  case (Pair res s')
  have l: "launched s' = launched s @ (case workspacePath h of None \<Rightarrow> []
                     | Some ws \<Rightarrow> [customer_launch ws stringify operation data])"
    using customer_exec_launched [of h stringify parse sh operation data s] Pair by simp
  show ?thesis
  proof (cases res)
    case (Inl error)
    with Pair l show ?thesis
      by (auto simp: customer_modify_def split: option.splits)
  next
    case (Inr result)
    then obtain ws where ws: "workspacePath h = Some ws"
      using Pair by (auto simp: customer_executePythonScript_def split: option.splits)
    show ?thesis
      using Pair Inr l ws
        customer_load_launched [of h stringify parse sh "Some (JObj [])"
          "sendMessage [Field ''command'' (Some (JStr posted_as)), Spread result] s'"]
      by (auto simp: customer_modify_def Let_def split: sum.splits)
  qed
qed

lemma customer_handle_launched:
  "launched (snd (customer_handleMessage h stringify parse sh message s)) = launched s
   \<or> (\<exists>l. launched (snd (customer_handleMessage h stringify parse sh message s))
          = launched s @ [l])
   \<or> (command_of message \<in> {Some (JStr ''addCustomer''), Some (JStr ''updateCustomer''),
                               Some (JStr ''deleteCustomer''),
                               Some (JStr ''batchDeleteCustomers'')}
      \<and> (\<exists>l ws. workspacePath h = Some ws
        \<and> launched (snd (customer_handleMessage h stringify parse sh message s))
            = launched s @ [l, customer_launch ws stringify ''list'' (Some (JObj []))]))"
proof (cases "destructure message ''command''")
  case (Inl error)
  then show ?thesis by (simp add: customer_handleMessage_def)
next
  case (Inr get)
  then have c: "command_of message = get ''command''" by (rule command_of_destructure)
  have m: "launched (snd (customer_modify h stringify parse sh operation posted_as data s))
             = launched s
     \<or> (\<exists>l. launched (snd (customer_modify h stringify parse sh operation posted_as data s))
            = launched s @ [l])
     \<or> (\<exists>l ws. workspacePath h = Some ws
          \<and> launched (snd (customer_modify h stringify parse sh operation posted_as data s))
              = launched s @ [l, customer_launch ws stringify ''list'' (Some (JObj []))])"
    for operation posted_as data
    using customer_modify_launched [of h stringify parse sh operation posted_as data s]
    by (elim exE conjE disjE) auto
  have l: "launched (snd (customer_loadCustomers h stringify parse sh data s)) = launched s
     \<or> (\<exists>l. launched (snd (customer_loadCustomers h stringify parse sh data s))
            = launched s @ [l])" for data
    using customer_load_launched [of h stringify parse sh data s]
    by (cases "workspacePath h") auto
  consider (load) "get ''command'' = Some (JStr ''loadCustomers'')"
    | (modify) "get ''command'' \<noteq> Some (JStr ''loadCustomers'')"
        "get ''command'' \<in> {Some (JStr ''addCustomer''), Some (JStr ''updateCustomer''),
            Some (JStr ''deleteCustomer''), Some (JStr ''batchDeleteCustomers'')}"
    | (other) "get ''command'' \<notin> {Some (JStr ''loadCustomers''), Some (JStr ''addCustomer''),
            Some (JStr ''updateCustomer''), Some (JStr ''deleteCustomer''),
            Some (JStr ''batchDeleteCustomers'')}"
    by blast
  then show ?thesis
  proof cases
    case load
    with Inr l [of "get ''data''"] show ?thesis
      by (auto simp: customer_handleMessage_def)
  next
    case modify
    with Inr c m show ?thesis
      by (auto simp: customer_handleMessage_def customer_addCustomer_def
            customer_updateCustomer_def customer_deleteCustomer_def
            customer_batchDeleteCustomers_def)
  next
    case other
    with Inr show ?thesis
      by (simp add: customer_handleMessage_def split: option.splits)
  qed
qed

text \<open>The supplier provider.\<close>

lemma supplier_any_launched:
  assumes "supplier_executePythonScript_any h parse sh command args s = (res, s1)"
  shows "(those (map js_string_opt args) = None \<and> (\<exists>e. res = Inl e) \<and> s1 = s)
   \<or> (\<exists>strs v. those (map js_string_opt args) = Some strs \<and> res = Inr v
        \<and> launched s1 = launched s @ [supplier_launch h command (map ArgString strs)])"
proof (cases "those (map js_string_opt args)")
  case None
  with assms show ?thesis by (auto simp: supplier_executePythonScript_any_def)
next
  case (Some strs)
  obtain v s' where e: "supplier_executePythonScript h parse sh command (map ArgString strs) s
      = (v, s')"
    by (cases "supplier_executePythonScript h parse sh command (map ArgString strs) s")
  then have "launched s' = launched s @ [supplier_launch h command (map ArgString strs)]"
    using supplier_exec_launched [of h parse sh command "map ArgString strs" s] by simp
  with assms Some e show ?thesis by (auto simp: supplier_executePythonScript_any_def)
qed

lemma supplier_modifying_launched:
  assumes "destructure message ''command'' = Inr get"
    and "get ''command'' = Some (JStr command)"
    and "command \<in> {''add'', ''update'', ''delete'', ''batch_delete''}"
  shows "launched (snd (supplier_handleMessage h stringify parse sh message s))
     = launched s @
         (case those (map js_string_opt (supplier_args stringify command get)) of
            None \<Rightarrow> []
          | Some strs \<Rightarrow>
              [supplier_launch h command (map ArgString strs),
               supplier_launch h ''list'' [ArgString ''1'', ArgString ''10'', ArgString []]])"
proof -
  let ?args = "supplier_args stringify command get"
  have notlist: "get ''command'' \<noteq> Some (JStr ''list'')"
    using assms(2,3) by auto
  have mem: "get ''command'' \<in> {Some (JStr ''add''), Some (JStr ''update''),
                                   Some (JStr ''delete''), Some (JStr ''batch_delete'')}"
    using assms(2,3) by auto
  obtain res s1 where r: "supplier_executePythonScript_any h parse sh command ?args s = (res, s1)"
    by (cases "supplier_executePythonScript_any h parse sh command ?args s")
  have unfold: "supplier_handleMessage h stringify parse sh message s
      = (case res of
           Inl error \<Rightarrow> (Some error, s1)
         | Inr ignored \<Rightarrow>
             (let (listResult, s2) = supplier_executePythonScript h parse sh ''list''
                     [ArgString ''1'', ArgString ''10'', ArgString []] s1
              in (None, sendMessage [Field ''command'' (Some (JStr ''updateList'')),
                                     Field ''data'' (Some listResult)] s2)))"
    using assms(1,2) notlist mem r
    by (simp add: supplier_handleMessage_def Let_def)
  from supplier_any_launched [OF r] show ?thesis
  proof (elim disjE conjE exE)
    fix e
    assume "those (map js_string_opt ?args) = None" "res = Inl e" "s1 = s"
    then show ?thesis by (simp add: unfold)
  next
    fix strs v
    assume a: "those (map js_string_opt ?args) = Some strs" "res = Inr v"
      "launched s1 = launched s @ [supplier_launch h command (map ArgString strs)]"
    then show ?thesis
      using supplier_exec_launched [of h parse sh "''list''"
          "[ArgString ''1'', ArgString ''10'', ArgString []]" s1]
      by (auto simp: unfold split: prod.splits)
  qed
qed

lemma supplier_handle_launched:
  "launched (snd (supplier_handleMessage h stringify parse sh message s)) = launched s
   \<or> (\<exists>l. launched (snd (supplier_handleMessage h stringify parse sh message s))
          = launched s @ [l])
   \<or> (command_of message \<in> {Some (JStr ''add''), Some (JStr ''update''),
                               Some (JStr ''delete''), Some (JStr ''batch_delete'')}
      \<and> (\<exists>l. launched (snd (supplier_handleMessage h stringify parse sh message s))
          = launched s @ [l, supplier_launch h ''list''
                               [ArgString ''1'', ArgString ''10'', ArgString []]]))"
proof (cases "destructure message ''command''")
  case (Inl error)
  then show ?thesis by (simp add: supplier_handleMessage_def)
next
  case (Inr get)
  then have c: "command_of message = get ''command''" by (rule command_of_destructure)
  consider (list) "get ''command'' = Some (JStr ''list'')"
    | (modify) "get ''command'' \<in> {Some (JStr ''add''), Some (JStr ''update''),
                             Some (JStr ''delete''), Some (JStr ''batch_delete'')}"
    | (other) "get ''command'' \<noteq> Some (JStr ''list'')"
        "get ''command'' \<notin> {Some (JStr ''add''), Some (JStr ''update''),
                             Some (JStr ''delete''), Some (JStr ''batch_delete'')}"
    by blast
  then show ?thesis
  proof cases
    case list
    show ?thesis
    proof (cases "to_string_method (get ''page'')")
      case (Inl e)
      with Inr list show ?thesis by (simp add: supplier_handleMessage_def)
    next
      case page: (Inr page)
      show ?thesis
      proof (cases "to_string_method (get ''limit'')")
        case (Inl e)
        with Inr list page show ?thesis by (simp add: supplier_handleMessage_def)
      next
        case limit: (Inr limit)
        let ?args = "[Some (JStr page), Some (JStr limit),
                (if truthy (get ''searchQuery'') then get ''searchQuery'' else Some (JStr []))]"
        obtain res s1 where
          r: "supplier_executePythonScript_any h parse sh ''list'' ?args s = (res, s1)"
          by (cases "supplier_executePythonScript_any h parse sh ''list'' ?args s")
        have "supplier_handleMessage h stringify parse sh message s
            = (case res of
                 Inl error \<Rightarrow> (Some error, s1)
               | Inr result \<Rightarrow>
                   (None, sendMessage [Field ''command'' (Some (JStr ''updateList'')),
                                       Field ''data'' (Some result)] s1))"
          using Inr list page limit r
          by (simp add: supplier_handleMessage_def Let_def split del: if_split)
        with supplier_any_launched [OF r] show ?thesis by auto
      qed
    qed
  next
    case modify
    then obtain command where
      cmd: "get ''command'' = Some (JStr command)"
        "command \<in> {''add'', ''update'', ''delete'', ''batch_delete''}"
      by auto
    from supplier_modifying_launched [OF Inr cmd, of h stringify parse sh s] modify c
    show ?thesis
      by (cases "those (map js_string_opt (supplier_args stringify command get))") simp_all
  next
    case other
    with Inr show ?thesis
      by (simp add: supplier_handleMessage_def split: option.splits)
  qed
qed

text \<open>
  C5, as stated, fails. A \<open>delete\<close> message to the supplier provider starts two
  processes, and so does an \<open>addCustomer\<close> message to the customer provider when the
  script reports success. Nor is the output of every process parsed as JSON: the promise
  of \<open>runScript\<close>, which runs the import scripts, is resolved by exit code 0 whatever
  the script printed.
\<close>

theorem one_process_per_action_counterexample:
  "length (launched (snd (supplier_handleMessage sample_host sample_stringify parse_nothing
       failing_shell (Some (JObj [(''command'', JStr ''delete''), (''id'', JStr ''7'')]))
       provider_new))) = 2
   \<and> length (launched (snd (customer_handleMessage sample_workspace_host sample_stringify
       parse_success printing_shell
       (Some (JObj [(''command'', JStr ''addCustomer''), (''data'', JObj [(''name'', JStr ''A'')])]))
       provider_new))) = 2
   \<and> runScript ''parse_manager.py'' (events_of (Completes [Out ''not json''] (Some 0)))
       = Resolved ()"
  by (simp add: supplier_handleMessage_def destructure_def Let_def supplier_args_def
        runScript_def
        supplier_executePythonScript_any_def js_string_opt_def
        supplier_executePythonScript_def run_exec_def showError_def failing_shell_def
        sendMessage_def provider_new_def
        customer_handleMessage_def customer_addCustomer_def customer_modify_def
        customer_executePythonScript_def customer_loadCustomers_def sample_workspace_host_def
        printing_shell_def parse_success_def)

text \<open>
  C5, amended. Every user action, a command or a message from a web view, starts at most
  two helper processes, one after the other. When it starts two, the action is one of
  the following and the second process is the one named: the command
  \<open>ims.convertToJson\<close> (second: \<open>generate_standard_material_table.py\<close>) or
  \<open>ims.migrateToNewFormat\<close> (second: \<open>verify_import.py\<close>); a message
  \<open>addRecord\<close>, \<open>updateRecord\<close> or \<open>deleteRecord\<close> of a table data panel
  (second: the table is loaded again); a message \<open>add\<close>, \<open>update\<close>, \<open>delete\<close>
  or \<open>batch_delete\<close> to the supplier provider, or \<open>addCustomer\<close>,
  \<open>updateCustomer\<close>, \<open>deleteCustomer\<close> or \<open>batchDeleteCustomers\<close> to the
  customer provider (second: the list is loaded again); a message
  \<open>assignSupplierCodes\<close> to the material provider (second: the supplier codes are
  loaded again). Every other action starts at most one process. A modifying message to
  the supplier provider starts exactly its two processes when \<open>String\<close> converts its
  arguments, and none when the conversion throws.
\<close>

theorem at_most_two_processes_per_action:
  "(\<exists>new. launched (perform h stringify parse sh sp answers action s) = launched s @ new
      \<and> length new \<le> 2
      \<and> (length new = 2 \<longrightarrow> second_launch h stringify action = Some (new ! 1)))
   \<and> (\<forall>message get command.
         action = Message SupplierPanel message
         \<and> destructure message ''command'' = Inr get
         \<and> get ''command'' = Some (JStr command)
         \<and> command \<in> {''add'', ''update'', ''delete'', ''batch_delete''} \<longrightarrow>
         launched (perform h stringify parse sh sp answers action s)
           = launched s @
               (case those (map js_string_opt (supplier_args stringify command get)) of
                  None \<Rightarrow> []
                | Some strs \<Rightarrow>
                    [supplier_launch h command (map ArgString strs),
                     supplier_launch h ''list''
                       [ArgString ''1'', ArgString ''10'', ArgString []]]))"
proof
  let ?P = "\<lambda>s'. \<exists>new. launched s' = launched s @ new
      \<and> length new \<le> 2
      \<and> (length new = 2 \<longrightarrow> second_launch h stringify action = Some (new ! 1))"
  have none: "?P s'" if "launched s' = launched s" for s'
    using that by (intro exI [of _ "[]"]) simp
  have one: "?P s'" if "launched s' = launched s @ [l]" for s' l
    using that by (intro exI [of _ "[l]"]) simp
  have two: "?P s'" if "launched s' = launched s @ [l, l2]"
      "second_launch h stringify action = Some l2" for s' l l2
    using that by (intro exI [of _ "[l, l2]"]) simp
  have most_one: "?P s'"
    if "launched s' = launched s \<or> (\<exists>l. launched s' = launched s @ [l])" for s'
    using that none one by blast
  show "?P (perform h stringify parse sh sp answers action s)"
  proof (cases action)
    case (Command command args)
    consider (convert) "command = ''ims.convertToJson''"
      | (migrate) "command = ''ims.migrateToNewFormat''"
      | (reconnect) "command = ''ims.reconnectDb''"
      | (test) "command = ''ims.testDbConnection''"
      | (add) "command = ''ims.addMaterial''"
      | (other) "command \<noteq> ''ims.convertToJson''" "command \<noteq> ''ims.migrateToNewFormat''"
           "command \<noteq> ''ims.reconnectDb''" "command \<noteq> ''ims.testDbConnection''"
           "command \<noteq> ''ims.addMaterial''"
      by blast
    then show ?thesis
    proof cases
      case convert
      with Command have p: "perform h stringify parse sh sp answers action s
          = file_command (runExcelToJsonProcess h sp) args s"
        by (simp add: run_command_def)
      have s2: "second_launch h stringify action
          = Some (runScript_launch h ''generate_standard_material_table.py''
                    (texts [''--docs-dir'', docsDirectory h]))"
        using Command convert by simp
      from convertToJson_launched [of h sp args s] show ?thesis
        unfolding p using none one two s2 by blast
    next
      case migrate
      with Command have p: "perform h stringify parse sh sp answers action s
          = file_command (runMigrationProcess h sp) args s"
        by (simp add: run_command_def)
      have s2: "second_launch h stringify action
          = Some (runScript_launch h ''verify_import.py'' [])"
        using Command migrate by simp
      from migrateToNewFormat_launched [of h sp args s] show ?thesis
        unfolding p using none one two s2 by blast
    next
      case reconnect
      with Command have "launched (perform h stringify parse sh sp answers action s)
          = launched s @ [checkConnection_launch h]"
        by (simp add: run_command_def reconnect_def)
      then show ?thesis by (rule one)
    next
      case test
      with Command have "launched (perform h stringify parse sh sp answers action s)
          = launched s @ [runDatabaseTest_launch h]"
        by (simp add: run_command_def runDatabaseTest_def)
      then show ?thesis by (rule one)
    next
      case add
      with Command have p: "perform h stringify parse sh sp answers action s
          = showAddMaterialDialog h stringify sp answers s"
        by (simp add: run_command_def)
      show ?thesis
        unfolding p by (rule most_one) (rule showAddMaterialDialog_launched)
    next
      case other
      with Command have "launched (perform h stringify parse sh sp answers action s)
          = launched s"
        by (simp add: run_command_def)
      then show ?thesis by (rule none)
    qed
  next
    case (Message source message)
    show ?thesis
    proof (cases source)
      case (TableDataPanel tableName)
      with Message have p: "perform h stringify parse sh sp answers action s
          = table_onMessage h stringify parse sp tableName message s"
        by (simp add: receive_message_def)
      have s2: "second_launch h stringify action = Some (loadTableData_launch h tableName)"
        if "command_of message \<in> {Some (JStr ''addRecord''), Some (JStr ''updateRecord''),
                               Some (JStr ''deleteRecord'')}"
        using that Message TableDataPanel by simp
      from table_onMessage_launched [of h stringify parse sp tableName message s]
      show ?thesis
        unfolding p using none one two s2 by blast
    next
      case (BusinessViewPanel viewName)
      with Message have p: "perform h stringify parse sh sp answers action s
          = view_onMessage h parse sp viewName message s"
        by (simp add: receive_message_def)
      show ?thesis
        unfolding p by (rule most_one) (rule view_onMessage_launched)
    next
      case InventoryManagementPanel
      with Message have p: "perform h stringify parse sh sp answers action s
          = inventory_onMessage h sp message s"
        by (simp add: receive_message_def)
      show ?thesis
        unfolding p by (rule most_one) (rule inventory_onMessage_launched)
    next
      case DataAnalysisDashboardPanel
      with Message have p: "perform h stringify parse sh sp answers action s
          = analysis_onMessage h stringify sp message s"
        by (simp add: receive_message_def)
      show ?thesis
        unfolding p by (rule most_one) (rule analysis_onMessage_launched)
    next
      case MaterialPanel
      with Message have p: "perform h stringify parse sh sp answers action s
          = material_handleMessage h stringify parse sh message s"
        by (simp add: receive_message_def)
      have s2: "second_launch h stringify action
          = Some (material_launch ws stringify ''loadSupplierCodes'' None)"
        if "command_of message = Some (JStr ''assignSupplierCodes'')"
          "workspacePath h = Some ws" for ws
        using that Message MaterialPanel by simp
      from material_handleMessage_launched [of h stringify parse sh message s]
      show ?thesis
        unfolding p using none one two s2 by blast
    next
      case DataEntryPanel
      with Message have p: "perform h stringify parse sh sp answers action s
          = dataEntry_handleMessage h stringify sp message s"
        by (simp add: receive_message_def)
      show ?thesis
        unfolding p by (rule most_one) (rule dataEntry_handleMessage_launched)
    next
      case CustomerPanel
      with Message have p: "perform h stringify parse sh sp answers action s
          = snd (customer_handleMessage h stringify parse sh message s)"
        by (simp add: receive_message_def)
      have s2: "second_launch h stringify action
          = Some (customer_launch ws stringify ''list'' (Some (JObj [])))"
        if "command_of message \<in> {Some (JStr ''addCustomer''), Some (JStr ''updateCustomer''),
                               Some (JStr ''deleteCustomer''),
                               Some (JStr ''batchDeleteCustomers'')}"
          "workspacePath h = Some ws" for ws
        using that Message CustomerPanel by simp
      from customer_handle_launched [of h stringify parse sh message s]
      show ?thesis
        unfolding p using none one two s2 by blast
    next
      case SupplierPanel
      with Message have p: "perform h stringify parse sh sp answers action s
          = snd (supplier_handleMessage h stringify parse sh message s)"
        by (simp add: receive_message_def)
      have s2: "second_launch h stringify action
          = Some (supplier_launch h ''list'' [ArgString ''1'', ArgString ''10'', ArgString []])"
        if "command_of message \<in> {Some (JStr ''add''), Some (JStr ''update''),
                               Some (JStr ''delete''), Some (JStr ''batch_delete'')}"
        using that Message SupplierPanel by simp
      from supplier_handle_launched [of h stringify parse sh message s]
      show ?thesis
        unfolding p using none one two s2 by blast
    next
      case DashboardProviderPanel
      with Message have p: "perform h stringify parse sh sp answers action s
          = dashboard_handleMessage h stringify parse sh message s"
        by (simp add: receive_message_def)
      show ?thesis
        unfolding p by (rule most_one) (rule dashboard_handleMessage_launched)
    qed
  qed
next
  show "\<forall>message get command.
         action = Message SupplierPanel message
         \<and> destructure message ''command'' = Inr get
         \<and> get ''command'' = Some (JStr command)
         \<and> command \<in> {''add'', ''update'', ''delete'', ''batch_delete''} \<longrightarrow>
         launched (perform h stringify parse sh sp answers action s)
           = launched s @
               (case those (map js_string_opt (supplier_args stringify command get)) of
                  None \<Rightarrow> []
                | Some strs \<Rightarrow>
                    [supplier_launch h command (map ArgString strs),
                     supplier_launch h ''list''
                       [ArgString ''1'', ArgString ''10'', ArgString []]])"
  proof (intro allI impI, elim conjE)
    fix message get command
    assume a: "action = Message SupplierPanel message"
      "destructure message ''command'' = Inr get"
      "get ''command'' = Some (JStr command)"
      "command \<in> {''add'', ''update'', ''delete'', ''batch_delete''}"
    from supplier_modifying_launched [OF a(2,3,4), of h stringify parse sh s]
    show "launched (perform h stringify parse sh sp answers action s)
           = launched s @
               (case those (map js_string_opt (supplier_args stringify command get)) of
                  None \<Rightarrow> []
                | Some strs \<Rightarrow>
                    [supplier_launch h command (map ArgString strs),
                     supplier_launch h ''list''
                       [ArgString ''1'', ArgString ''10'', ArgString []]])"
      by (simp add: a(1) receive_message_def)
  qed
qed

theorem at_most_two_processes_per_action_witness:
  "launched (perform sample_host sample_stringify parse_nothing failing_shell exiting_spawner
       no_answers
       (Command ''ims.convertToJson'' [Some (JObj [(''fsPath'', JStr ''/data/book.xlsx'')])])
       provider_new)
     = [runScript_launch sample_host ''parse_manager.py''
          [Some (JStr ''/data/book.xlsx''), Some (JStr ''/ext/docs/parsed_data.json'')],
        runScript_launch sample_host ''generate_standard_material_table.py''
          (texts [''--docs-dir'', ''/ext/docs''])]
   \<and> second_launch sample_host sample_stringify
       (Command ''ims.convertToJson'' [Some (JObj [(''fsPath'', JStr ''/data/book.xlsx'')])])
     = Some (runScript_launch sample_host ''generate_standard_material_table.py''
               (texts [''--docs-dir'', ''/ext/docs'']))
   \<and> launched (perform sample_host sample_stringify parse_nothing failing_shell exiting_spawner
       no_answers
       (Message SupplierPanel
          (Some (JObj [(''command'', JStr ''delete''), (''id'', JStr ''7'')])))
       provider_new)
     = [supplier_launch sample_host ''delete'' [ArgString ''7''],
        supplier_launch sample_host ''list'' [ArgString ''1'', ArgString ''10'', ArgString []]]
   \<and> launched (perform sample_host sample_stringify parse_nothing failing_shell exiting_spawner
       no_answers
       (Message SupplierPanel
          (Some (JObj [(''command'', JStr ''delete''),
                       (''id'', JObj [(''toString'', JNum 1)])])))
       provider_new)
     = []"
proof -
  let ?convert = "Command ''ims.convertToJson''
      [Some (JObj [(''fsPath'', JStr ''/data/book.xlsx'')])]"
  let ?l1 = "runScript_launch sample_host ''parse_manager.py''
          [Some (JStr ''/data/book.xlsx''), Some (JStr ''/ext/docs/parsed_data.json'')]"
  let ?l2 = "runScript_launch sample_host ''generate_standard_material_table.py''
          (texts [''--docs-dir'', ''/ext/docs''])"
  let ?m7 = "Some (JObj [(''command'', JStr ''delete''), (''id'', JStr ''7'')])"
  let ?g7 = "map_of [(''command'', JStr ''delete''), (''id'', JStr ''7'')]"
  let ?mo = "Some (JObj [(''command'', JStr ''delete''),
                         (''id'', JObj [(''toString'', JNum 1)])])"
  let ?go = "map_of [(''command'', JStr ''delete''), (''id'', JObj [(''toString'', JNum 1)])]"
  have run: "launched (perform sample_host sample_stringify parse_nothing failing_shell
       exiting_spawner no_answers ?convert provider_new) = [?l1, ?l2]"
    by (simp add: run_command_def file_command_def read_property_def
          runExcelToJsonProcess_def js_string_opt_def run_two_scripts_def run_spawn_def
          runScript_def exiting_spawner_def provider_new_def sample_host_def Let_def)
  from at_most_two_processes_per_action [of sample_host sample_stringify parse_nothing
      failing_shell exiting_spawner no_answers ?convert provider_new]
  obtain new where new:
    "launched (perform sample_host sample_stringify parse_nothing failing_shell
       exiting_spawner no_answers ?convert provider_new) = launched provider_new @ new"
    "length new = 2 \<longrightarrow> second_launch sample_host sample_stringify ?convert = Some (new ! 1)"
    by blast
  from new(1) run have "new = [?l1, ?l2]" by (simp add: provider_new_def)
  with new(2) have second: "second_launch sample_host sample_stringify ?convert = Some ?l2"
    by simp
  have d7: "destructure ?m7 ''command'' = Inr ?g7" "?g7 ''command'' = Some (JStr ''delete'')"
    "destructure ?mo ''command'' = Inr ?go" "?go ''command'' = Some (JStr ''delete'')"
    "''delete'' \<in> {''add'', ''update'', ''delete'', ''batch_delete''}"
    by (simp_all add: destructure_def)
  have a7: "those (map js_string_opt (supplier_args sample_stringify ''delete'' ?g7))
      = Some [''7'']"
    by (simp add: supplier_args_def stringify_opt_def js_string_opt_def)
  have ao: "those (map js_string_opt (supplier_args sample_stringify ''delete'' ?go)) = None"
    by (simp add: supplier_args_def stringify_opt_def js_string_opt_def)
  from at_most_two_processes_per_action [of sample_host sample_stringify parse_nothing
      failing_shell exiting_spawner no_answers "Message SupplierPanel ?m7" provider_new]
    d7(1,2,5)
  have "launched (perform sample_host sample_stringify parse_nothing failing_shell
       exiting_spawner no_answers (Message SupplierPanel ?m7) provider_new)
     = launched provider_new @
         (case those (map js_string_opt (supplier_args sample_stringify ''delete'' ?g7)) of
            None \<Rightarrow> []
          | Some strs \<Rightarrow>
              [supplier_launch sample_host ''delete'' (map ArgString strs),
               supplier_launch sample_host ''list''
                 [ArgString ''1'', ArgString ''10'', ArgString []]])"
    by blast
  then have seven: "launched (perform sample_host sample_stringify parse_nothing failing_shell
       exiting_spawner no_answers (Message SupplierPanel ?m7) provider_new)
     = [supplier_launch sample_host ''delete'' [ArgString ''7''],
        supplier_launch sample_host ''list'' [ArgString ''1'', ArgString ''10'', ArgString []]]"
    by (simp only: a7 option.case list.map provider_new_def provider.simps append_Nil)
  from at_most_two_processes_per_action [of sample_host sample_stringify parse_nothing
      failing_shell exiting_spawner no_answers "Message SupplierPanel ?mo" provider_new]
    d7(3,4,5)
  have "launched (perform sample_host sample_stringify parse_nothing failing_shell
       exiting_spawner no_answers (Message SupplierPanel ?mo) provider_new)
     = launched provider_new @
         (case those (map js_string_opt (supplier_args sample_stringify ''delete'' ?go)) of
            None \<Rightarrow> []
          | Some strs \<Rightarrow>
              [supplier_launch sample_host ''delete'' (map ArgString strs),
               supplier_launch sample_host ''list''
                 [ArgString ''1'', ArgString ''10'', ArgString []]])"
    by blast
  then have object: "launched (perform sample_host sample_stringify parse_nothing
       failing_shell exiting_spawner no_answers (Message SupplierPanel ?mo) provider_new) = []"
    by (simp only: ao option.case provider_new_def provider.simps append_Nil)
  from run second seven object show ?thesis by (intro conjI)
qed

subsection \<open>Timeouts and retries of the launches\<close>




subsection \<open>The numeric parameters stay within their bounds\<close>

lemma adjust_in_range: "lo \<le> hi \<Longrightarrow> lo \<le> adjust_to_range lo hi n \<and> adjust_to_range lo hi n \<le> hi"
  by (simp add: adjust_to_range_def)

lemma validate_numeric_in_range:
  assumes "lo \<le> hi" and "\<forall>d. dflt = Some d \<longrightarrow> lo \<le> d \<and> d \<le> hi"
    and "validate_numeric lo hi dflt v = Some w"
  shows "\<exists>n. w = JNum n \<and> lo \<le> n \<and> n \<le> hi"
  using assms adjust_in_range [of lo hi]
  by (auto simp: validate_numeric_def split: option.splits)

lemma validate_numeric_params_page:
  "validate_numeric_params p ''page'' =
     (case p ''page'' of None \<Rightarrow> None | Some v \<Rightarrow> validate_numeric 1 10000 (Some 1) v)"
  by (simp add: validate_numeric_params_def numeric_fields_def validate_numeric_field_def
        split: option.splits)

lemma validate_numeric_params_page_size:
  "validate_numeric_params p ''page_size'' =
     (case p ''page_size'' of None \<Rightarrow> None | Some v \<Rightarrow> validate_numeric 1 1000 (Some 50) v)"
  by (simp add: validate_numeric_params_def numeric_fields_def validate_numeric_field_def
        split: option.splits)

lemma validate_numeric_params_limit:
  "validate_numeric_params p ''limit'' =
     (case p ''limit'' of None \<Rightarrow> None | Some v \<Rightarrow> validate_numeric 1 10000 None v)"
  by (simp add: validate_numeric_params_def numeric_fields_def validate_numeric_field_def
        split: option.splits)

lemma validate_numeric_params_at:
  assumes "(name, lo, hi, dflt) \<in> set numeric_fields"
  shows "validate_numeric_params p name =
           (case p name of None \<Rightarrow> None | Some v \<Rightarrow> validate_numeric lo hi dflt v)"
proof -
  from assms consider
      "name = ''page''" "lo = 1" "hi = 10000" "dflt = Some 1"
    | "name = ''page_size''" "lo = 1" "hi = 1000" "dflt = Some 50"
    | "name = ''limit''" "lo = 1" "hi = 10000" "dflt = None"
    by (auto simp: numeric_fields_def)
  then show ?thesis
  proof cases
    case 1
    then show ?thesis by (simp only: validate_numeric_params_page)
  next
    case 2
    then show ?thesis by (simp only: validate_numeric_params_page_size)
  next
    case 3
    then show ?thesis by (simp only: validate_numeric_params_limit)
  qed
qed

text \<open>Reading the decimal writing of a number gives the number back.\<close>

lemma digit_char_value: "d < 10 \<Longrightarrow> digit_value (digit_char d) = d \<and> is_digit (digit_char d)"
proof -
  assume "d < 10"
  then have "d \<in> {0, 1, 2, 3, 4, 5, 6, 7, 8, 9}" by auto
  then show ?thesis
    by (auto simp: digit_char_def digit_value_def is_digit_def)
qed

lemma show_nat_digits: "show_nat n \<noteq> [] \<and> list_all is_digit (show_nat n)"
proof (induction n rule: show_nat.induct)
  case (1 n)
  show ?case
  proof (cases "n < 10")
    case True
    then show ?thesis using digit_char_value [of n] by (simp add: show_nat.simps [of n])
  next
    case False
    with 1 digit_char_value [of "n mod 10"] show ?thesis
      by (simp add: show_nat.simps [of n])
  qed
qed

lemma show_nat_value: "foldl (\<lambda>acc c. 10 * acc + digit_value c) 0 (show_nat n) = n"
proof (induction n rule: show_nat.induct)
  case (1 n)
  show ?case
  proof (cases "n < 10")
    case True
    then show ?thesis using digit_char_value [of n] by (simp add: show_nat.simps [of n])
  next
    case False
    with 1 digit_char_value [of "n mod 10"] show ?thesis
      by (simp add: show_nat.simps [of n])
  qed
qed

lemma parse_nat_show_nat: "parse_nat (show_nat n) = Some n"
  using show_nat_digits [of n] show_nat_value [of n] by (simp add: parse_nat_def)

lemma parse_int_show_int: "parse_int (show_int n) = Some n"
proof (cases "n < 0")
  case True
  then show ?thesis by (simp add: show_int_def parse_nat_show_nat)
next
  case False
  obtain c cs where cs: "show_nat (nat n) = c # cs"
    using show_nat_digits [of "nat n"] by (cases "show_nat (nat n)") auto
  then have "is_digit c" using show_nat_digits [of "nat n"] by simp
  then have "c \<noteq> CHR ''-''" by (auto simp: is_digit_def)
  then have "parse_int (c # cs) = map_option int (parse_nat (c # cs))" by simp
  with cs False show ?thesis
    using parse_nat_show_nat [of "nat n"] by (simp add: show_int_def)
qed

lemma parse_int_not_numeric:
  assumes "c \<in> set s" and "\<not> is_digit c" and "c \<noteq> CHR ''-''"
  shows "parse_int s = None"
proof (cases s)
  case Nil
  then show ?thesis by simp
next
  case (Cons a as)
  show ?thesis
  proof (cases "a = CHR ''-''")
    case True
    with assms Cons have "c \<in> set as" by auto
    with assms(2) have "\<not> list_all is_digit as" by (auto simp: list_all_iff)
    with True Cons show ?thesis by (simp add: parse_nat_def)
  next
    case False
    from assms(1,2) Cons have "\<not> list_all is_digit (a # as)" by (auto simp: list_all_iff)
    then have "parse_nat (a # as) = None" by (simp add: parse_nat_def)
    with False Cons show ?thesis by simp
  qed
qed

text \<open>
  C2. For each of the three numeric fields of the table (page in 1..10000, page_size in
  1..1000, limit in 1..10000; defaults page = 1 and page_size = 50, none for limit): a
  value the validator produces for the field is an integer within the field's bounds; an
  integer, and a string that is the decimal writing of an integer, is read as that integer,
  moved to the nearer bound when it is out of range and kept otherwise; a value that cannot
  be coerced, such as \<open>null\<close> or a string that holds a character other than a digit or a
  minus sign, is replaced by the field's default.
\<close>

theorem numeric_params_within_bounds:
  assumes "(name, lo, hi, dflt) \<in> set numeric_fields"
  shows "(name = ''page'' \<longrightarrow> lo = 1 \<and> hi = 10000 \<and> dflt = Some 1)
       \<and> (name = ''page_size'' \<longrightarrow> lo = 1 \<and> hi = 1000 \<and> dflt = Some 50)
       \<and> (name = ''limit'' \<longrightarrow> lo = 1 \<and> hi = 10000 \<and> dflt = None)
       \<and> name \<in> {''page'', ''page_size'', ''limit''}
       \<and> (\<forall>w. validate_numeric_params p name = Some w \<longrightarrow>
              (\<exists>n. w = JNum n \<and> lo \<le> n \<and> n \<le> hi))
       \<and> (\<forall>n. p name = Some (JNum n) \<or> p name = Some (JStr (show_int n)) \<longrightarrow>
              validate_numeric_params p name
                = Some (JNum (if n < lo then lo else if hi < n then hi else n)))
       \<and> (\<forall>v. p name = Some v \<and> coerce_int v = None \<longrightarrow>
              validate_numeric_params p name = map_option JNum dflt)
       \<and> (\<forall>s c. p name = Some (JStr s) \<and> c \<in> set s \<and> \<not> is_digit c \<and> c \<noteq> CHR ''-'' \<longrightarrow>
              validate_numeric_params p name = map_option JNum dflt)
       \<and> (p name = Some JNull \<longrightarrow> validate_numeric_params p name = map_option JNum dflt)"
proof -
  from assms have cases: "(name, lo, hi, dflt) = (''page'', 1, 10000, Some 1)
      \<or> (name, lo, hi, dflt) = (''page_size'', 1, 1000, Some 50)
      \<or> (name, lo, hi, dflt) = (''limit'', 1, 10000, None)"
    by (simp add: numeric_fields_def)
  have t1: "name = ''page'' \<longrightarrow> lo = 1 \<and> hi = 10000 \<and> dflt = Some 1"
    using cases by auto
  have t2: "name = ''page_size'' \<longrightarrow> lo = 1 \<and> hi = 1000 \<and> dflt = Some 50"
    using cases by auto
  have t3: "name = ''limit'' \<longrightarrow> lo = 1 \<and> hi = 10000 \<and> dflt = None"
    using cases by auto
  have t4: "name \<in> {''page'', ''page_size'', ''limit''}"
    using cases by auto
  have range: "lo \<le> hi" "\<forall>d. dflt = Some d \<longrightarrow> lo \<le> d \<and> d \<le> hi"
    using cases by auto
  note at = validate_numeric_params_at [OF assms, of p]
  have bounds: "\<forall>w. validate_numeric_params p name = Some w \<longrightarrow>
              (\<exists>n. w = JNum n \<and> lo \<le> n \<and> n \<le> hi)"
  proof (intro allI impI)
    fix w
    assume w: "validate_numeric_params p name = Some w"
    show "\<exists>n. w = JNum n \<and> lo \<le> n \<and> n \<le> hi"
    proof (cases "p name")
      case None
      with w at show ?thesis by simp
    next
      case (Some v)
      with w at have "validate_numeric lo hi dflt v = Some w" by simp
      from validate_numeric_in_range [OF range this] show ?thesis .
    qed
  qed
  have coerced: "\<forall>n. p name = Some (JNum n) \<or> p name = Some (JStr (show_int n)) \<longrightarrow>
              validate_numeric_params p name
                = Some (JNum (if n < lo then lo else if hi < n then hi else n))"
    using at by (auto simp: validate_numeric_def adjust_to_range_def parse_int_show_int)
  have defaulted: "\<forall>v. p name = Some v \<and> coerce_int v = None \<longrightarrow>
              validate_numeric_params p name = map_option JNum dflt"
    using at by (simp add: validate_numeric_def)
  have strings: "\<forall>s c. p name = Some (JStr s) \<and> c \<in> set s \<and> \<not> is_digit c \<and> c \<noteq> CHR ''-'' \<longrightarrow>
              validate_numeric_params p name = map_option JNum dflt"
  proof (intro allI impI)
    fix s c
    assume a: "p name = Some (JStr s) \<and> c \<in> set s \<and> \<not> is_digit c \<and> c \<noteq> CHR ''-''"
    then have "parse_int s = None" using parse_int_not_numeric [of c s] by blast
    with a at show "validate_numeric_params p name = map_option JNum dflt"
      by (simp add: validate_numeric_def)
  qed
  have null: "p name = Some JNull \<longrightarrow> validate_numeric_params p name = map_option JNum dflt"
    using at by (simp add: validate_numeric_def)
  from t1 t2 t3 t4 bounds coerced defaulted strings null show ?thesis
    by - (intro conjI; assumption)
qed

theorem numeric_params_within_bounds_witness:
  "validate_numeric_params
      (map_of [(''page'', JStr ''20000''), (''page_size'', JStr ''12a''),
               (''limit'', JStr ''250'')])
      ''page'' = Some (JNum 10000)
   \<and> validate_numeric_params
      (map_of [(''page'', JStr ''20000''), (''page_size'', JStr ''12a''),
               (''limit'', JStr ''250'')])
      ''page_size'' = Some (JNum 50)
   \<and> validate_numeric_params
      (map_of [(''page'', JStr ''20000''), (''page_size'', JStr ''12a''),
               (''limit'', JStr ''250'')])
      ''limit'' = Some (JNum 250)"
proof -
  let ?P = "map_of [(''page'', JStr ''20000''), (''page_size'', JStr ''12a''),
               (''limit'', JStr ''250'')]"
  have m: "(''page'', 1, 10000, Some 1) \<in> set numeric_fields"
    "(''page_size'', 1, 1000, Some 50) \<in> set numeric_fields"
    "(''limit'', 1, 10000, None) \<in> set numeric_fields"
    by (simp_all add: numeric_fields_def)
  have w: "show_int 20000 = ''20000''" "show_int 250 = ''250''"
    by (simp_all add: show_int_def show_nat.simps digit_char_def)
  have c: "CHR ''a'' \<in> set ''12a''" "\<not> is_digit CHR ''a''" "CHR ''a'' \<noteq> CHR ''-''"
    by (simp_all add: is_digit_def)
  have p: "?P ''page'' = Some (JStr (show_int 20000))" "?P ''page_size'' = Some (JStr ''12a'')"
    "?P ''limit'' = Some (JStr (show_int 250))"
    by (simp_all add: w)
  from numeric_params_within_bounds [OF m(1), of ?P] p(1)
  have "validate_numeric_params ?P ''page''
      = Some (JNum (if (20000::int) < 1 then 1 else if 10000 < (20000::int) then 10000
                    else 20000))"
    by blast
  then have r1: "validate_numeric_params ?P ''page'' = Some (JNum 10000)" by simp
  from numeric_params_within_bounds [OF m(2), of ?P] p(2) c
  have "validate_numeric_params ?P ''page_size'' = map_option JNum (Some 50)"
    by blast
  then have r2: "validate_numeric_params ?P ''page_size'' = Some (JNum 50)" by simp
  from numeric_params_within_bounds [OF m(3), of ?P] p(3)
  have "validate_numeric_params ?P ''limit''
      = Some (JNum (if (250::int) < 1 then 1 else if 10000 < (250::int) then 10000 else 250))"
    by blast
  then have r3: "validate_numeric_params ?P ''limit'' = Some (JNum 250)" by simp
  from r1 r2 r3 show ?thesis by (intro conjI)
qed

subsection \<open>The cleaned string parameters\<close>

lemma set_dropWhile_subset: "set (dropWhile P xs) \<subseteq> set xs"
  by (auto dest: set_dropWhileD)

lemma set_strip_blanks_quotes: "set (strip_blanks_quotes s) \<subseteq> set s"
proof -
  have "set (strip_blanks_quotes s)
          = set (dropWhile is_blank_or_quote (rev (dropWhile is_blank_or_quote s)))"
    by (simp add: strip_blanks_quotes_def)
  also have "\<dots> \<subseteq> set (rev (dropWhile is_blank_or_quote s))"
    by (rule set_dropWhile_subset)
  also have "\<dots> = set (dropWhile is_blank_or_quote s)" by simp
  also have "\<dots> \<subseteq> set s" by (rule set_dropWhile_subset)
  finally show ?thesis .
qed

lemma length_strip_blanks_quotes: "length (strip_blanks_quotes s) \<le> length s"
proof -
  have "length (dropWhile is_blank_or_quote (rev (dropWhile is_blank_or_quote s)))
          \<le> length (rev (dropWhile is_blank_or_quote s))"
    by (rule length_dropWhile_le)
  also have "\<dots> \<le> length s"
    using length_dropWhile_le [of is_blank_or_quote s] by simp
  finally show ?thesis by (simp add: strip_blanks_quotes_def)
qed

lemma last_dropWhile: "dropWhile P xs \<noteq> [] \<Longrightarrow> last (dropWhile P xs) = last xs"
  by (induction xs) (auto split: if_splits)

lemma strip_blanks_quotes_ends:
  assumes "strip_blanks_quotes s \<noteq> []"
  shows "\<not> is_blank_or_quote (hd (strip_blanks_quotes s))"
    and "\<not> is_blank_or_quote (last (strip_blanks_quotes s))"
proof -
  let ?ys = "dropWhile is_blank_or_quote s"
  let ?zs = "dropWhile is_blank_or_quote (rev ?ys)"
  from assms have zs: "?zs \<noteq> []" by (simp add: strip_blanks_quotes_def)
  have ys: "?ys \<noteq> []"
  proof
    assume "?ys = []"
    then have "?zs = []" by (simp only: rev.simps dropWhile.simps)
    with zs show False by simp
  qed
  have "hd (strip_blanks_quotes s) = last ?zs"
    using zs by (simp add: strip_blanks_quotes_def hd_rev)
  also have "\<dots> = last (rev ?ys)" using zs by (rule last_dropWhile)
  also have "\<dots> = hd ?ys" using ys by (simp add: last_rev)
  finally have "hd (strip_blanks_quotes s) = hd ?ys" .
  moreover have "\<not> is_blank_or_quote (hd ?ys)" using ys by (rule hd_dropWhile)
  ultimately show "\<not> is_blank_or_quote (hd (strip_blanks_quotes s))" by simp
  have "last (strip_blanks_quotes s) = hd ?zs"
    using zs by (simp add: strip_blanks_quotes_def last_rev)
  moreover have "\<not> is_blank_or_quote (hd ?zs)" using zs by (rule hd_dropWhile)
  ultimately show "\<not> is_blank_or_quote (last (strip_blanks_quotes s))" by simp
qed

lemma clean_string_no_dangerous:
  "c \<in> set dangerous_chars \<Longrightarrow> c \<notin> set (clean_string_input s)"
proof
  assume d: "c \<in> set dangerous_chars" and "c \<in> set (clean_string_input s)"
  then have "c \<in> set (take 100 (filter (\<lambda>c. c \<notin> set dangerous_chars) s))"
    using set_strip_blanks_quotes by (auto simp: clean_string_input_def)
  then have "c \<in> set (filter (\<lambda>c. c \<notin> set dangerous_chars) s)"
    by (rule in_set_takeD)
  with d show False by simp
qed

lemma clean_string_length: "length (clean_string_input s) \<le> 100"
proof -
  have "length (clean_string_input s)
      \<le> length (take 100 (filter (\<lambda>c. c \<notin> set dangerous_chars) s))"
    unfolding clean_string_input_def by (rule length_strip_blanks_quotes)
  also have "\<dots> \<le> 100" by simp
  finally show ?thesis .
qed

lemma validate_string_field_result:
  assumes "validate_string_field p (name, allowed) = Inr p'"
  shows "(\<forall>n. n \<noteq> name \<longrightarrow> p' n = p n)"
    and "p name = None \<longrightarrow> p' name = None"
    and "\<forall>v. p' name = Some v \<longrightarrow>
           (\<exists>s0. p name = Some (JStr s0) \<and> v = JStr (clean_string_input s0)
              \<and> (\<forall>valid. allowed = Some valid \<longrightarrow> clean_string_input s0 \<in> set valid))"
  using assms
  by (auto simp: validate_string_field_def Let_def
           split: option.splits json.splits if_splits)

lemma validate_string_fields_other:
  "validate_string_fields p fs = Inr p' \<Longrightarrow> name \<notin> fst ` set fs \<Longrightarrow> p' name = p name"
proof (induction fs arbitrary: p)
  case Nil
  then show ?case by simp
next
  case (Cons f fs)
  obtain n a where f: "f = (n, a)" by (cases f)
  from Cons.prems obtain q where q: "validate_string_field p (n, a) = Inr q"
      "validate_string_fields q fs = Inr p'"
    by (auto simp: f split: sum.splits)
  from Cons.prems(2) have "name \<noteq> n" "name \<notin> fst ` set fs" by (auto simp: f)
  with Cons.IH [OF q(2)] validate_string_field_result(1) [OF q(1)] show ?case by simp
qed

lemma validate_string_fields_result:
  "distinct (map fst fs) \<Longrightarrow> validate_string_fields p fs = Inr p' \<Longrightarrow>
   (name, allowed) \<in> set fs \<Longrightarrow> p' name = Some v \<Longrightarrow>
   \<exists>s0. p name = Some (JStr s0) \<and> v = JStr (clean_string_input s0)
      \<and> (\<forall>valid. allowed = Some valid \<longrightarrow> clean_string_input s0 \<in> set valid)"
proof (induction fs arbitrary: p)
  case Nil
  then show ?case by simp
next
  case (Cons f fs)
  obtain n a where f: "f = (n, a)" by (cases f)
  from Cons.prems(2) obtain q where q: "validate_string_field p (n, a) = Inr q"
      "validate_string_fields q fs = Inr p'"
    by (auto simp: f split: sum.splits)
  from Cons.prems(1) have d: "distinct (map fst fs)" "n \<notin> fst ` set fs" by (auto simp: f)
  show ?case
  proof (cases "(name, allowed) = (n, a)")
    case True
    then have "p' name = q name"
      using validate_string_fields_other [OF q(2)] d(2) by simp
    with Cons.prems(4) True validate_string_field_result(3) [OF q(1)] show ?thesis by simp
  next
    case False
    with Cons.prems(3) have mem: "(name, allowed) \<in> set fs" by (auto simp: f)
    then have "name \<noteq> n" using d(2) by force
    then have "q name = p name" using validate_string_field_result(1) [OF q(1)] by simp
    with Cons.IH [OF d(1) q(2) mem Cons.prems(4)] show ?thesis by simp
  qed
qed

text \<open>
  C4. A cleaned string contains none of the nine dangerous characters (so no quote at
  all), has at most 100 characters, and neither starts nor ends with a blank or a quote.
  When \<open>_validate_string_params\<close> accepts, each string field it returns holds the cleaned
  input, and a field with a list of valid values (dimension: month, quarter, product,
  customer, supplier; analysis_type: rfm, ranking, segmentation, overview; format: json,
  csv, excel) holds one of them.
\<close>

theorem string_params_cleaned:
  "(\<forall>c \<in> set ''<>&;|$''. c \<notin> set (clean_string_input s))
   \<and> CHR 0x22 \<notin> set (clean_string_input s)
   \<and> CHR 0x27 \<notin> set (clean_string_input s)
   \<and> CHR 0x60 \<notin> set (clean_string_input s)
   \<and> length (clean_string_input s) \<le> 100
   \<and> (clean_string_input s \<noteq> [] \<longrightarrow>
        \<not> is_blank_or_quote (hd (clean_string_input s))
        \<and> \<not> is_blank_or_quote (last (clean_string_input s)))
   \<and> (\<forall>p' name allowed v.
         validate_string_params p = Inr p' \<and> (name, allowed) \<in> set string_fields
         \<and> p' name = Some v \<longrightarrow>
         (\<exists>s0. p name = Some (JStr s0) \<and> v = JStr (clean_string_input s0)
            \<and> (\<forall>valid. allowed = Some valid \<longrightarrow> clean_string_input s0 \<in> set valid)))
   \<and> map_of string_fields ''dimension''
       = Some (Some [''month'', ''quarter'', ''product'', ''customer'', ''supplier''])
   \<and> map_of string_fields ''analysis_type''
       = Some (Some [''rfm'', ''ranking'', ''segmentation'', ''overview''])
   \<and> map_of string_fields ''format'' = Some (Some [''json'', ''csv'', ''excel''])"
proof -
  have a: "\<forall>c \<in> set ''<>&;|$''. c \<notin> set (clean_string_input s)"
    using clean_string_no_dangerous [of _ s] by (simp add: dangerous_chars_def)
  have b: "CHR 0x22 \<notin> set (clean_string_input s)" "CHR 0x27 \<notin> set (clean_string_input s)"
    "CHR 0x60 \<notin> set (clean_string_input s)"
    using clean_string_no_dangerous [of _ s] by (simp_all add: dangerous_chars_def)
  have c: "clean_string_input s \<noteq> [] \<longrightarrow>
        \<not> is_blank_or_quote (hd (clean_string_input s))
        \<and> \<not> is_blank_or_quote (last (clean_string_input s))"
    using strip_blanks_quotes_ends
      [of "take 100 (filter (\<lambda>c. c \<notin> set dangerous_chars) s)"]
    by (simp add: clean_string_input_def)
  have dist: "distinct (map fst string_fields)" by (simp add: string_fields_def)
  have d: "\<forall>p' name allowed v.
         validate_string_params p = Inr p' \<and> (name, allowed) \<in> set string_fields
         \<and> p' name = Some v \<longrightarrow>
         (\<exists>s0. p name = Some (JStr s0) \<and> v = JStr (clean_string_input s0)
            \<and> (\<forall>valid. allowed = Some valid \<longrightarrow> clean_string_input s0 \<in> set valid))"
  proof (intro allI impI)
    fix p' name allowed v
    assume "validate_string_params p = Inr p' \<and> (name, allowed) \<in> set string_fields
         \<and> p' name = Some v"
    then show "\<exists>s0. p name = Some (JStr s0) \<and> v = JStr (clean_string_input s0)
            \<and> (\<forall>valid. allowed = Some valid \<longrightarrow> clean_string_input s0 \<in> set valid)"
      using validate_string_fields_result [OF dist, of p p' name allowed v]
      by (simp add: validate_string_params_def)
  qed
  have e: "map_of string_fields ''dimension''
       = Some (Some [''month'', ''quarter'', ''product'', ''customer'', ''supplier''])"
    "map_of string_fields ''analysis_type''
       = Some (Some [''rfm'', ''ranking'', ''segmentation'', ''overview''])"
    "map_of string_fields ''format'' = Some (Some [''json'', ''csv'', ''excel''])"
    by (simp_all add: string_fields_def)
  from a b clean_string_length [of s] c d e show ?thesis
    by - (intro conjI; assumption)
qed

theorem string_params_cleaned_witness:
  "clean_string_input ''  <month>; '' = ''month''
   \<and> length (clean_string_input ''  <month>; '') \<le> 100
   \<and> (case validate_string_params (map_of [(''dimension'', JStr ''  <month>; '')]) of
         Inr p' \<Rightarrow> p' ''dimension''
       | Inl e \<Rightarrow> None) = Some (JStr ''month'')"
proof -
  note t = string_params_cleaned [of "''  <month>; ''"
      "map_of [(''dimension'', JStr ''  <month>; '')]"]
  have e: "clean_string_input ''  <month>; '' = ''month''"
    by (simp add: clean_string_input_def dangerous_chars_def strip_blanks_quotes_def
          is_blank_or_quote_def is_space_def)
  have v: "validate_string_params (map_of [(''dimension'', JStr ''  <month>; '')])
      = Inr ((map_of [(''dimension'', JStr ''  <month>; '')])(''dimension'' := Some (JStr ''month'')))"
    by (simp add: validate_string_params_def string_fields_def validate_string_field_def e)
  from t have l: "length (clean_string_input ''  <month>; '') \<le> 100" by blast
  from e l v show ?thesis by simp
qed

end
